theory Spec2Isabelle
  imports Main
begin

section \<open>Data model\<close>

text \<open>
  The gate kinds of the circuit library.  The converters name \<open>V\<close>, \<open>S\<close>, \<open>H\<close>,
  \<open>CX\<close>, \<open>Z\<close> and \<open>X\<close>; the other constructors stand for the rest of the
  enumeration, which the converters never emit.
\<close>

datatype OpType = Z | X | Y | S | Sdg | T | Tdg | V | Vdg | H | CX | CY | CZ | SWAP | Measure

text \<open>A qubit label: a register name and an index.  The default register is \<open>q\<close>.\<close>

datatype Qubit = Qubit string "nat list"

definition q_default_reg :: string where
  "q_default_reg = ''q''"

type_synonym Command = "OpType \<times> Qubit list"

record Circuit =
  all_qubits :: "Qubit list"
  commands :: "Command list"

text \<open>\<open>Circuit c(size)\<close>: \<open>size\<close> qubits of the default register, no commands.\<close>

definition Circuit_n :: "nat \<Rightarrow> Circuit" where
  "Circuit_n n = \<lparr>all_qubits = map (\<lambda>i. Qubit q_default_reg [i]) [0..<n], commands = []\<rparr>"

text \<open>\<open>c.add_op<unsigned>(type, args)\<close>: append one command on default-register qubits.\<close>

definition add_op :: "OpType \<Rightarrow> nat list \<Rightarrow> Circuit \<Rightarrow> Circuit" where
  "add_op ty args c = c\<lparr>commands := commands c @ [(ty, map (\<lambda>i. Qubit q_default_reg [i]) args)]\<rparr>"

text \<open>\<open>unit_map_t\<close> and \<open>c.rename_units(rename_map)\<close>: a unit without an entry keeps its name.\<close>

type_synonym unit_map_t = "Qubit \<rightharpoonup> Qubit"

definition rename_unit :: "unit_map_t \<Rightarrow> Qubit \<Rightarrow> Qubit" where
  "rename_unit m u = (case m u of None \<Rightarrow> u | Some v \<Rightarrow> v)"

definition rename_units :: "unit_map_t \<Rightarrow> Circuit \<Rightarrow> Circuit" where
  "rename_units m c =
     \<lparr>all_qubits = map (rename_unit m) (all_qubits c),
      commands = map (\<lambda>(ty, args). (ty, map (rename_unit m) args)) (commands c)\<rparr>"

text \<open>
  A dense boolean matrix (\<open>MatrixXb\<close>) is the list of its rows; \<open>M ! r ! c\<close> is the
  coefficient \<open>M(r, c)\<close>.
\<close>

type_synonym MatrixXb = "bool list list"
type_synonym VectorXb = "bool list"

text \<open>
  The tableau: four matrices, two phase vectors, and the qubit index mapping, kept as the
  list of pairs (label, index) in the order in which the bimap is iterated.  The fields
  \<open>tab_size\<close> and \<open>tab_qubits\<close> are the members \<open>size_\<close> and \<open>qubits_\<close>.
\<close>

record CliffTableau =
  tab_size :: nat
  xpauli_x :: MatrixXb
  xpauli_z :: MatrixXb
  xpauli_phase :: VectorXb
  zpauli_x :: MatrixXb
  zpauli_z :: MatrixXb
  zpauli_phase :: VectorXb
  tab_qubits :: "(Qubit \<times> nat) list"

text \<open>
  What the converters can throw: \<open>std::invalid_argument\<close> with its message (the
  synthesizer), \<open>std::out_of_range\<close> (the lookup \<open>at\<close> of an unknown operand), and the
  unsupported-operation condition of the tableau class.
\<close>

datatype error = invalid_argument string | out_of_range | NotValid

text \<open>
  The operations of the tableau class and of the matrix library that the converters call.
  Their code is not part of the converters' file, so the converters are modelled over any
  implementation of them.
\<close>

record externals =
  apply_S_at_front :: "CliffTableau \<Rightarrow> nat \<Rightarrow> CliffTableau"
  apply_V_at_front :: "CliffTableau \<Rightarrow> nat \<Rightarrow> CliffTableau"
  apply_CX_at_front :: "CliffTableau \<Rightarrow> nat \<Rightarrow> nat \<Rightarrow> CliffTableau"
  gaussian_elimination_col_ops :: "MatrixXb \<Rightarrow> (nat \<times> nat) list"
  binary_LLT_decomposition :: "MatrixXb \<Rightarrow> MatrixXb \<times> MatrixXb"
  apply_gate_at_end :: "CliffTableau \<Rightarrow> OpType \<Rightarrow> nat list \<Rightarrow> error + CliffTableau"

section \<open>The synthesizer: \<open>tableau_to_circuit\<close>\<close>

text \<open>
  The state of a run: \<open>tab\<close> is the caller's tableau (the \<open>const\<close> reference argument),
  \<open>tabl\<close> the local copy the run works on, \<open>c\<close> the circuit under construction.
\<close>

record synth =
  tab :: CliffTableau
  tabl :: CliffTableau
  c :: Circuit

definition S_front :: "externals \<Rightarrow> nat \<Rightarrow> synth \<Rightarrow> synth" where
  "S_front h i s = s\<lparr>tabl := apply_S_at_front h (tabl s) i\<rparr>"

definition V_front :: "externals \<Rightarrow> nat \<Rightarrow> synth \<Rightarrow> synth" where
  "V_front h i s = s\<lparr>tabl := apply_V_at_front h (tabl s) i\<rparr>"

definition CX_front :: "externals \<Rightarrow> nat \<Rightarrow> nat \<Rightarrow> synth \<Rightarrow> synth" where
  "CX_front h a b s = s\<lparr>tabl := apply_CX_at_front h (tabl s) a b\<rparr>"

definition emit :: "OpType \<Rightarrow> nat list \<Rightarrow> synth \<Rightarrow> synth" where
  "emit ty args s = s\<lparr>c := add_op ty args (c s)\<rparr>"

subsection \<open>Step 1\<close>

text \<open>\<open>for k < size: echelon(k, i) ^= echelon(k, l)\<close>\<close>

definition xor_col :: "nat \<Rightarrow> nat \<Rightarrow> nat \<Rightarrow> MatrixXb \<Rightarrow> MatrixXb" where
  "xor_col n i l echelon =
     fold (\<lambda>k E. E[k := (E ! k)[i := (E ! k ! i \<noteq> E ! k ! l)]]) [0..<n] echelon"

text \<open>\<open>echelon.col(i) = m.col(i)\<close>\<close>

definition assign_col :: "nat \<Rightarrow> nat \<Rightarrow> MatrixXb \<Rightarrow> MatrixXb \<Rightarrow> MatrixXb" where
  "assign_col n i m echelon =
     fold (\<lambda>k E. E[k := (E ! k)[i := m ! k ! i]]) [0..<n] echelon"

text \<open>
  The scan of column \<open>i\<close> from row \<open>j\<close> on.  \<open>leading_val_to_col\<close> is a \<open>std::map\<close> that
  is only searched, extended at an absent key and asked for its size: an association list
  whose length is the size.
\<close>

function reduce_col ::
  "nat \<Rightarrow> nat \<Rightarrow> nat \<Rightarrow> MatrixXb \<times> (nat \<times> nat) list \<Rightarrow> MatrixXb \<times> (nat \<times> nat) list" where
  "reduce_col n i j (echelon, leading_val_to_col) =
     (if j < n then
        (if echelon ! j ! i then
           (case map_of leading_val_to_col j of
              None \<Rightarrow> (echelon, leading_val_to_col @ [(j, i)])
            | Some l \<Rightarrow> reduce_col n i (Suc j) (xor_col n i l echelon, leading_val_to_col))
         else reduce_col n i (Suc j) (echelon, leading_val_to_col))
      else (echelon, leading_val_to_col))"
  by pat_completeness auto
termination
  by (relation "measure (\<lambda>(n, i, j, p). n - j)") auto

declare reduce_col.simps [simp del]

definition not_independent :: error where
  "not_independent = invalid_argument ''Stabilisers are not mutually independent''"

function step1 ::
  "externals \<Rightarrow> nat \<Rightarrow> nat \<Rightarrow> MatrixXb \<times> (nat \<times> nat) list \<Rightarrow> synth \<Rightarrow> error option \<times> synth" where
  "step1 h n i (echelon, leading_val_to_col) s =
     (if i < n then
        (case reduce_col n i 0 (echelon, leading_val_to_col) of (echelon1, leading1) \<Rightarrow>
           if length leading1 > i then step1 h n (Suc i) (echelon1, leading1) s
           else
             (let s1 = V_front h i (V_front h i (V_front h i (emit V [i] s)));
                  echelon2 = assign_col n i (zpauli_z (tabl s1)) echelon1
              in case reduce_col n i 0 (echelon2, leading1) of (echelon3, leading3) \<Rightarrow>
                   if length leading3 = i then (Some not_independent, s1)
                   else step1 h n (Suc i) (echelon3, leading3) s1))
      else (None, s))"
  by pat_completeness auto
termination
  by (relation "measure (\<lambda>(h, n, i, p, s). n - i)") auto

declare step1.simps [simp del]

subsection \<open>Steps 2 to 11 and the delayed steps\<close>

definition cx_op :: "externals \<Rightarrow> nat \<times> nat \<Rightarrow> synth \<Rightarrow> synth" where
  "cx_op h qbs s = CX_front h (fst qbs) (snd qbs) (emit CX [fst qbs, snd qbs] s)"

text \<open>The range-for loop over the recorded column operations.\<close>

definition cx_forward :: "externals \<Rightarrow> (nat \<times> nat) list \<Rightarrow> synth \<Rightarrow> synth" where
  "cx_forward h ops s = fold (cx_op h) ops s"

text \<open>
  The loop over a \<open>reverse_iterator\<close> from \<open>rbegin()\<close> to \<open>rend()\<close>: with \<open>k\<close> elements
  left, the iterator points at element \<open>k - 1\<close>.
\<close>

primrec cx_reverse_from :: "externals \<Rightarrow> (nat \<times> nat) list \<Rightarrow> nat \<Rightarrow> synth \<Rightarrow> synth" where
  "cx_reverse_from h ops 0 s = s"
| "cx_reverse_from h ops (Suc k) s = cx_reverse_from h ops k (cx_op h (ops ! k) s)"

definition cx_reverse :: "externals \<Rightarrow> (nat \<times> nat) list \<Rightarrow> synth \<Rightarrow> synth" where
  "cx_reverse h ops s = cx_reverse_from h ops (length ops) s"

definition s_op :: "externals \<Rightarrow> nat \<Rightarrow> synth \<Rightarrow> synth" where
  "s_op h i s = S_front h i (S_front h i (S_front h i (emit S [i] s)))"

definition h_op :: "externals \<Rightarrow> nat \<Rightarrow> synth \<Rightarrow> synth" where
  "h_op h i s = S_front h i (V_front h i (S_front h i (emit H [i] s)))"

definition step2 :: "externals \<Rightarrow> synth \<Rightarrow> synth" where
  "step2 h s = cx_forward h (gaussian_elimination_col_ops h (zpauli_x (tabl s))) s"

definition step3 :: "externals \<Rightarrow> nat \<Rightarrow> MatrixXb \<times> MatrixXb \<Rightarrow> synth \<Rightarrow> synth" where
  "step3 h n zp_z_llt s =
     fold (\<lambda>i s. if snd zp_z_llt ! i ! i then s_op h i s else s) [0..<n] s"

definition step4 :: "externals \<Rightarrow> MatrixXb \<times> MatrixXb \<Rightarrow> synth \<Rightarrow> synth" where
  "step4 h zp_z_llt s = cx_reverse h (gaussian_elimination_col_ops h (fst zp_z_llt)) s"

definition step5 :: "externals \<Rightarrow> nat \<Rightarrow> synth \<Rightarrow> synth" where
  "step5 h n s = fold (s_op h) [0..<n] s"

definition step6 :: "externals \<Rightarrow> synth \<Rightarrow> synth" where
  "step6 h s = cx_forward h (gaussian_elimination_col_ops h (zpauli_x (tabl s))) s"

definition step7 :: "externals \<Rightarrow> nat \<Rightarrow> synth \<Rightarrow> synth" where
  "step7 h n s = fold (h_op h) [0..<n] s"

definition step8 :: "externals \<Rightarrow> nat \<Rightarrow> MatrixXb \<times> MatrixXb \<Rightarrow> synth \<Rightarrow> synth" where
  "step8 h n xp_z_llt s =
     fold (\<lambda>i s. if snd xp_z_llt ! i ! i then s_op h i s else s) [0..<n] s"

definition step9 :: "externals \<Rightarrow> MatrixXb \<times> MatrixXb \<Rightarrow> synth \<Rightarrow> synth" where
  "step9 h xp_z_llt s = cx_reverse h (gaussian_elimination_col_ops h (fst xp_z_llt)) s"

definition step10 :: "externals \<Rightarrow> nat \<Rightarrow> synth \<Rightarrow> synth" where
  "step10 h n s = fold (s_op h) [0..<n] s"

definition step11 :: "externals \<Rightarrow> synth \<Rightarrow> synth" where
  "step11 h s = cx_forward h (gaussian_elimination_col_ops h (xpauli_x (tabl s))) s"

definition z_fix :: "externals \<Rightarrow> nat \<Rightarrow> synth \<Rightarrow> synth" where
  "z_fix h i s =
     (if xpauli_phase (tabl s) ! i then S_front h i (S_front h i (emit Z [i] s)) else s)"

definition x_fix :: "externals \<Rightarrow> nat \<Rightarrow> synth \<Rightarrow> synth" where
  "x_fix h i s =
     (if zpauli_phase (tabl s) ! i then V_front h i (V_front h i (emit X [i] s)) else s)"

definition delayed_steps :: "externals \<Rightarrow> nat \<Rightarrow> synth \<Rightarrow> synth" where
  "delayed_steps h n s = fold (\<lambda>i s. x_fix h i (z_fix h i s)) [0..<n] s"

subsection \<open>The whole run\<close>

definition steps_2_to_11 :: "externals \<Rightarrow> nat \<Rightarrow> synth \<Rightarrow> synth" where
  "steps_2_to_11 h n s1 =
     (let s2 = step2 h s1;
          zp_z_llt = binary_LLT_decomposition h (zpauli_z (tabl s2));
          s3 = step3 h n zp_z_llt s2;
          s4 = step4 h zp_z_llt s3;
          s5 = step5 h n s4;
          s6 = step6 h s5;
          s7 = step7 h n s6;
          xp_z_llt = binary_LLT_decomposition h (xpauli_z (tabl s7));
          s8 = step8 h n xp_z_llt s7;
          s9 = step9 h xp_z_llt s8;
          s10 = step10 h n s9
      in step11 h s10)"

definition steps_2_to_end :: "externals \<Rightarrow> nat \<Rightarrow> synth \<Rightarrow> synth" where
  "steps_2_to_end h n s1 = delayed_steps h n (steps_2_to_11 h n s1)"

text \<open>
  The run up to the renaming: the copy \<open>tabl(tab)\<close>, the circuit \<open>c(size)\<close>, step 1 with
  its \<open>throw\<close>, then the steps that cannot fail.  The state is returned in both cases.
\<close>

definition synthesise :: "externals \<Rightarrow> CliffTableau \<Rightarrow> error option \<times> synth" where
  "synthesise h t =
     (let s0 = \<lparr>tab = t, tabl = t, c = Circuit_n (tab_size t)\<rparr>;
          n = tab_size (tabl s0)
      in case step1 h n 0 (zpauli_x (tabl s0), []) s0 of
           (Some e, s) \<Rightarrow> (Some e, s)
         | (None, s1) \<Rightarrow> (None, steps_2_to_end h n s1))"

text \<open>
  The renaming map: the bimap is iterated and \<open>insert\<close> keeps the first entry of a key.
\<close>

definition rename_map_of :: "(Qubit \<times> nat) list \<Rightarrow> unit_map_t" where
  "rename_map_of qs =
     fold (\<lambda>(l, r) m. if m (Qubit q_default_reg [r]) = None
                       then m(Qubit q_default_reg [r] \<mapsto> l) else m) qs Map.empty"

definition tableau_to_circuit :: "externals \<Rightarrow> CliffTableau \<Rightarrow> error + Circuit" where
  "tableau_to_circuit h t =
     (case synthesise h t of
        (Some e, s) \<Rightarrow> Inl e
      | (None, s) \<Rightarrow> Inr (rename_units (rename_map_of (tab_qubits (tabl s))) (c s)))"

section \<open>The builder: \<open>circuit_to_tableau\<close>\<close>

text \<open>
  Modelled from the spec: the constructor \<open>CliffTableau(qubits)\<close> is not part of the
  converters' file.  "A tableau is created as the identity over an explicit qubit set",
  "with a canonical index assignment": row \<open>i\<close> of the destabilizer triple is \<open>X_i\<close>, row
  \<open>i\<close> of the stabilizer triple is \<open>Z_i\<close>, all phases are zero, and the \<open>k\<close>-th qubit
  has index \<open>k\<close>.
\<close>

definition identity_matrix :: "nat \<Rightarrow> MatrixXb" where
  "identity_matrix n = map (\<lambda>r. map (\<lambda>k. r = k) [0..<n]) [0..<n]"

definition zero_matrix :: "nat \<Rightarrow> MatrixXb" where
  "zero_matrix n = replicate n (replicate n False)"

definition CliffTableau_identity :: "Qubit list \<Rightarrow> CliffTableau" where
  "CliffTableau_identity qbs =
     (let n = length qbs in
      \<lparr>tab_size = n,
       xpauli_x = identity_matrix n, xpauli_z = zero_matrix n, xpauli_phase = replicate n False,
       zpauli_x = zero_matrix n, zpauli_z = identity_matrix n, zpauli_phase = replicate n False,
       tab_qubits = zip qbs [0..<n]\<rparr>)"

text \<open>
  The inner loop \<open>qbs.push_back(tab.qubits_.left.at(Qubit(qb)))\<close>: \<open>at\<close> throws
  \<open>std::out_of_range\<close> at a label without an index.
\<close>

fun resolve_args :: "(Qubit \<times> nat) list \<Rightarrow> Qubit list \<Rightarrow> error + nat list" where
  "resolve_args m [] = Inr []"
| "resolve_args m (qb # args) =
     (case map_of m qb of
        None \<Rightarrow> Inl out_of_range
      | Some i \<Rightarrow> (case resolve_args m args of Inl e \<Rightarrow> Inl e | Inr qbs \<Rightarrow> Inr (i # qbs)))"

text \<open>The loop over the commands of the circuit, in circuit order.\<close>

fun apply_commands :: "externals \<Rightarrow> CliffTableau \<Rightarrow> Command list \<Rightarrow> error + CliffTableau" where
  "apply_commands h t [] = Inr t"
| "apply_commands h t (com # coms) =
     (case resolve_args (tab_qubits t) (snd com) of
        Inl e \<Rightarrow> Inl e
      | Inr qbs \<Rightarrow>
          (case apply_gate_at_end h t (fst com) qbs of
             Inl e \<Rightarrow> Inl e
           | Inr t' \<Rightarrow> apply_commands h t' coms))"

definition circuit_to_tableau :: "externals \<Rightarrow> Circuit \<Rightarrow> error + CliffTableau" where
  "circuit_to_tableau h circ =
     apply_commands h (CliffTableau_identity (all_qubits circ)) (commands circ)"


section \<open>The tableau and matrix operations, modelled from the spec\<close>

text \<open>
  Modelled from the spec: the front applications \<open>apply_S_at_front\<close>,
  \<open>apply_V_at_front\<close> and \<open>apply_CX_at_front\<close> of the tableau class are not part of the
  converters' file.  The spec calls each "the algebraic mirror of the corresponding
  end-application rule", "a fixed symplectic update rule ... derived from standard
  stabilizer-conjugation tables"; the synthesizer uses them as operations on the columns of
  the gate's qubits.  The tables used here: \<open>S\<close> maps \<open>X\<close> to \<open>Y\<close> and \<open>Y\<close> to \<open>-X\<close>;
  \<open>V\<close> maps \<open>Z\<close> to \<open>-Y\<close> and \<open>Y\<close> to \<open>Z\<close>; \<open>CX\<close> adds the control's \<open>X\<close> bit to
  the target's and the target's \<open>Z\<close> bit to the control's.  A row is a Pauli string with
  its sign: the \<open>X\<close> bits, the \<open>Z\<close> bits, the phase bit.
\<close>

type_synonym pauli_row = "bool list \<times> bool list \<times> bool"

definition rows_of :: "MatrixXb \<Rightarrow> MatrixXb \<Rightarrow> VectorXb \<Rightarrow> pauli_row list" where
  "rows_of xm zm ph = zip xm (zip zm ph)"

definition S_row :: "nat \<Rightarrow> pauli_row \<Rightarrow> pauli_row" where
  "S_row q = (\<lambda>(xr, zr, p). (xr, zr[q := (zr ! q \<noteq> xr ! q)], p \<noteq> (xr ! q \<and> zr ! q)))"

definition V_row :: "nat \<Rightarrow> pauli_row \<Rightarrow> pauli_row" where
  "V_row q = (\<lambda>(xr, zr, p). (xr[q := (xr ! q \<noteq> zr ! q)], zr, p \<noteq> (zr ! q \<and> \<not> xr ! q)))"

definition CX_row :: "nat \<Rightarrow> nat \<Rightarrow> pauli_row \<Rightarrow> pauli_row" where
  "CX_row ctrl trgt = (\<lambda>(xr, zr, p).
     (xr[trgt := (xr ! trgt \<noteq> xr ! ctrl)], zr[ctrl := (zr ! ctrl \<noteq> zr ! trgt)],
      p \<noteq> (xr ! ctrl \<and> zr ! trgt \<and> (xr ! trgt = zr ! ctrl))))"

definition on_all_rows :: "(pauli_row \<Rightarrow> pauli_row) \<Rightarrow> CliffTableau \<Rightarrow> CliffTableau" where
  "on_all_rows f t =
     (let xs = map f (rows_of (xpauli_x t) (xpauli_z t) (xpauli_phase t));
          zs = map f (rows_of (zpauli_x t) (zpauli_z t) (zpauli_phase t))
      in t\<lparr>xpauli_x := map fst xs, xpauli_z := map (fst \<circ> snd) xs, xpauli_phase := map (snd \<circ> snd) xs,
           zpauli_x := map fst zs, zpauli_z := map (fst \<circ> snd) zs, zpauli_phase := map (snd \<circ> snd) zs\<rparr>)"

definition spec_apply_S_at_front :: "CliffTableau \<Rightarrow> nat \<Rightarrow> CliffTableau" where
  "spec_apply_S_at_front t q = on_all_rows (S_row q) t"

definition spec_apply_V_at_front :: "CliffTableau \<Rightarrow> nat \<Rightarrow> CliffTableau" where
  "spec_apply_V_at_front t q = on_all_rows (V_row q) t"

definition spec_apply_CX_at_front :: "CliffTableau \<Rightarrow> nat \<Rightarrow> nat \<Rightarrow> CliffTableau" where
  "spec_apply_CX_at_front t ctrl trgt = on_all_rows (CX_row ctrl trgt) t"

text \<open>
  Modelled from the spec: \<open>gaussian_elimination_col_ops\<close> is not part of the converters'
  file.  "Output an ordered list of column-pair operations (target, source) meaning XOR
  column source into column target ... Pivot rule: scan columns left to right; for column
  i, scan rows top to bottom; the first row without an assigned pivot column becomes i's
  pivot; if a row already has a pivot column, eliminate by XORing that pivot column into
  column i and continue scanning."
\<close>

function spec_ge_scan ::
  "nat \<Rightarrow> nat \<Rightarrow> nat \<Rightarrow> MatrixXb \<times> (nat \<times> nat) list \<times> (nat \<times> nat) list
     \<Rightarrow> MatrixXb \<times> (nat \<times> nat) list \<times> (nat \<times> nat) list" where
  "spec_ge_scan n i j (m, pivots, ops) =
     (if j < n then
        (if m ! j ! i then
           (case map_of pivots j of
              None \<Rightarrow> (m, pivots @ [(j, i)], ops)
            | Some l \<Rightarrow> spec_ge_scan n i (Suc j) (xor_col n i l m, pivots, ops @ [(i, l)]))
         else spec_ge_scan n i (Suc j) (m, pivots, ops))
      else (m, pivots, ops))"
  by pat_completeness auto
termination
  by (relation "measure (\<lambda>(n, i, j, p). n - j)") auto

declare spec_ge_scan.simps [simp del]

definition spec_gaussian_elimination_col_ops :: "MatrixXb \<Rightarrow> (nat \<times> nat) list" where
  "spec_gaussian_elimination_col_ops m =
     snd (snd (fold (\<lambda>i st. spec_ge_scan (length m) i 0 st) [0..<length m] (m, [], [])))"

text \<open>
  Modelled from the spec: \<open>binary_LLT_decomposition\<close> is not part of the converters' file.
  "Input a symmetric n x n binary matrix D; output an invertible matrix M and a diagonal
  ... such that D + diag = M M^T over GF(2)."  The factor is the unit lower triangular
  matrix of the construction the code cites (Lemma 7), built row by row; the second
  component is the diagonal matrix whose entry \<open>(i, i)\<close> the synthesizer reads.
\<close>

definition xor_sum :: "bool list \<Rightarrow> bool" where
  "xor_sum bs = fold (\<noteq>) bs False"

definition llt_row :: "MatrixXb \<Rightarrow> MatrixXb \<Rightarrow> nat \<Rightarrow> bool list" where
  "llt_row d lrows i =
     fold (\<lambda>j acc. acc @ [d ! i ! j \<noteq> xor_sum (map (\<lambda>k. acc ! k \<and> lrows ! j ! k) [0..<j])])
       [0..<i] []"

definition spec_binary_LLT_decomposition :: "MatrixXb \<Rightarrow> MatrixXb \<times> MatrixXb" where
  "spec_binary_LLT_decomposition d =
     (let n = length d;
          lrows = fold (\<lambda>i rows. rows @ [llt_row d rows i @ [True] @ replicate (n - Suc i) False])
                    [0..<n] []
      in (lrows,
          map (\<lambda>i. map (\<lambda>k. i = k \<and> (d ! i ! i \<noteq> xor_sum (take (Suc i) (lrows ! i)))) [0..<n])
            [0..<n]))"

text \<open>
  Modelled from the spec: \<open>apply_gate_at_end\<close> is not part of the converters' file.
  "Updates the tableau to reflect appending the gate ... each has a fixed symplectic update
  rule on the affected rows and phase bits ... Any other gate kind fails with an
  unsupported operation condition."  The supported kinds are those of the spec's error
  taxonomy: \<open>H\<close>, \<open>V\<close>, \<open>S\<close>, \<open>CX\<close>, \<open>X\<close>, \<open>Z\<close>.  \<open>g_exp\<close> is the power of \<open>i\<close> that
  the product of two one-qubit Paulis carries, \<open>row_mult e\<close> the product of two rows
  times \<open>i ^ e\<close>.
\<close>

definition g_exp :: "bool \<Rightarrow> bool \<Rightarrow> bool \<Rightarrow> bool \<Rightarrow> int" where
  "g_exp x1 z1 x2 z2 =
     (if x1 \<and> z1 then of_bool z2 - of_bool x2
      else if x1 then of_bool z2 * (2 * of_bool x2 - 1)
      else if z1 then of_bool x2 * (1 - 2 * of_bool z2)
      else 0)"

definition row_mult :: "int \<Rightarrow> pauli_row \<Rightarrow> pauli_row \<Rightarrow> pauli_row" where
  "row_mult e = (\<lambda>(xa, za, pa) (xb, zb, pb).
     (map2 (\<noteq>) xa xb, map2 (\<noteq>) za zb,
      (e + 2 * of_bool pa + 2 * of_bool pb
         + sum_list (map (\<lambda>((x1, z1), (x2, z2)). g_exp x1 z1 x2 z2) (zip (zip xa za) (zip xb zb))))
       mod 4 = 2))"

definition xrow :: "CliffTableau \<Rightarrow> nat \<Rightarrow> pauli_row" where
  "xrow t q = (xpauli_x t ! q, xpauli_z t ! q, xpauli_phase t ! q)"

definition zrow :: "CliffTableau \<Rightarrow> nat \<Rightarrow> pauli_row" where
  "zrow t q = (zpauli_x t ! q, zpauli_z t ! q, zpauli_phase t ! q)"

definition set_xrow :: "nat \<Rightarrow> pauli_row \<Rightarrow> CliffTableau \<Rightarrow> CliffTableau" where
  "set_xrow q = (\<lambda>(xr, zr, p) t.
     t\<lparr>xpauli_x := (xpauli_x t)[q := xr], xpauli_z := (xpauli_z t)[q := zr],
       xpauli_phase := (xpauli_phase t)[q := p]\<rparr>)"

definition set_zrow :: "nat \<Rightarrow> pauli_row \<Rightarrow> CliffTableau \<Rightarrow> CliffTableau" where
  "set_zrow q = (\<lambda>(xr, zr, p) t.
     t\<lparr>zpauli_x := (zpauli_x t)[q := xr], zpauli_z := (zpauli_z t)[q := zr],
       zpauli_phase := (zpauli_phase t)[q := p]\<rparr>)"

definition spec_apply_gate_at_end :: "CliffTableau \<Rightarrow> OpType \<Rightarrow> nat list \<Rightarrow> error + CliffTableau" where
  "spec_apply_gate_at_end t ty qbs =
     (if ty = S \<and> length qbs = 1 then
        Inr (set_xrow (qbs ! 0) (row_mult 1 (xrow t (qbs ! 0)) (zrow t (qbs ! 0))) t)
      else if ty = V \<and> length qbs = 1 then
        Inr (set_zrow (qbs ! 0) (row_mult 3 (xrow t (qbs ! 0)) (zrow t (qbs ! 0))) t)
      else if ty = H \<and> length qbs = 1 then
        Inr (set_zrow (qbs ! 0) (xrow t (qbs ! 0)) (set_xrow (qbs ! 0) (zrow t (qbs ! 0)) t))
      else if ty = X \<and> length qbs = 1 then
        Inr (t\<lparr>zpauli_phase := (zpauli_phase t)[qbs ! 0 := \<not> zpauli_phase t ! (qbs ! 0)]\<rparr>)
      else if ty = Z \<and> length qbs = 1 then
        Inr (t\<lparr>xpauli_phase := (xpauli_phase t)[qbs ! 0 := \<not> xpauli_phase t ! (qbs ! 0)]\<rparr>)
      else if ty = CX \<and> length qbs = 2 then
        Inr (set_zrow (qbs ! 1) (row_mult 0 (zrow t (qbs ! 0)) (zrow t (qbs ! 1)))
              (set_xrow (qbs ! 0) (row_mult 0 (xrow t (qbs ! 0)) (xrow t (qbs ! 1))) t))
      else Inl NotValid)"

definition spec_externals :: externals where
  "spec_externals = \<lparr>apply_S_at_front = spec_apply_S_at_front, apply_V_at_front = spec_apply_V_at_front,
     apply_CX_at_front = spec_apply_CX_at_front,
     gaussian_elimination_col_ops = spec_gaussian_elimination_col_ops,
     binary_LLT_decomposition = spec_binary_LLT_decomposition,
     apply_gate_at_end = spec_apply_gate_at_end\<rparr>"


section \<open>Vocabulary of the properties\<close>

text \<open>
  A gate by kind and qubit indices, the command it becomes in the circuit under
  construction, and back.
\<close>

definition default_cmd :: "OpType \<times> nat list \<Rightarrow> Command" where
  "default_cmd g = (fst g, map (\<lambda>i. Qubit q_default_reg [i]) (snd g))"

fun unit_index :: "Qubit \<Rightarrow> nat" where
  "unit_index (Qubit r idx) = (case idx of [] \<Rightarrow> 0 | i # _ \<Rightarrow> i)"

definition emitted :: "Circuit \<Rightarrow> (OpType \<times> nat list) list" where
  "emitted circ = map (\<lambda>cmd. (fst cmd, map unit_index (snd cmd))) (commands circ)"

text \<open>
  The front applications that go with an emitted gate: three of \<open>S\<close> for \<open>S\<close>, three of
  \<open>V\<close> for \<open>V\<close>, \<open>S\<close>, \<open>V\<close>, \<open>S\<close> for \<open>H\<close>, two of \<open>S\<close> for \<open>Z\<close>, two of \<open>V\<close> for \<open>X\<close>,
  one of \<open>CX\<close> on the same pair for \<open>CX\<close>.
\<close>

fun front_inverse :: "externals \<Rightarrow> OpType \<times> nat list \<Rightarrow> CliffTableau \<Rightarrow> CliffTableau" where
  "front_inverse h (S, [i]) t = apply_S_at_front h (apply_S_at_front h (apply_S_at_front h t i) i) i"
| "front_inverse h (V, [i]) t = apply_V_at_front h (apply_V_at_front h (apply_V_at_front h t i) i) i"
| "front_inverse h (H, [i]) t = apply_S_at_front h (apply_V_at_front h (apply_S_at_front h t i) i) i"
| "front_inverse h (Z, [i]) t = apply_S_at_front h (apply_S_at_front h t i) i"
| "front_inverse h (X, [i]) t = apply_V_at_front h (apply_V_at_front h t i) i"
| "front_inverse h (CX, [a, b]) t = apply_CX_at_front h t a b"
| "front_inverse h g t = t"

fun paired_gate :: "OpType \<times> nat list \<Rightarrow> bool" where
  "paired_gate (ty, [i]) = (ty \<in> {S, V, H, Z, X})"
| "paired_gate (ty, [a, b]) = (ty = CX)"
| "paired_gate g = False"

definition traced :: "externals \<Rightarrow> (OpType \<times> nat list) list \<Rightarrow> synth \<Rightarrow> synth \<Rightarrow> bool" where
  "traced h g s s' \<longleftrightarrow>
     tab s' = tab s \<and> all_qubits (c s') = all_qubits (c s) \<and>
     commands (c s') = commands (c s) @ map default_cmd g \<and>
     tabl s' = fold (front_inverse h) g (tabl s)"

definition cx_gate :: "nat \<times> nat \<Rightarrow> OpType \<times> nat list" where
  "cx_gate qbs = (CX, [fst qbs, snd qbs])"

definition emits :: "externals \<Rightarrow> (OpType \<times> nat list) set \<Rightarrow> synth \<Rightarrow> synth \<Rightarrow> bool" where
  "emits h K s s' \<longleftrightarrow> (\<exists>g. set g \<subseteq> K \<and> traced h g s s')"

definition s_gate :: "nat \<Rightarrow> OpType \<times> nat list" where
  "s_gate i = (S, [i])"

definition h_gate :: "nat \<Rightarrow> OpType \<times> nat list" where
  "h_gate i = (H, [i])"


text \<open>The state in which a run starts: the copy, and the empty circuit.\<close>

definition start :: "CliffTableau \<Rightarrow> synth" where
  "start t = \<lparr>tab = t, tabl = t, c = Circuit_n (tab_size t)\<rparr>"


text \<open>
  The tableau that step 11 aims at: the destabilizer-X and stabilizer-Z blocks are the
  identity, the other two blocks are zero, and only the phases are left to correct.
\<close>

definition identity_blocks :: "nat \<Rightarrow> CliffTableau \<Rightarrow> bool" where
  "identity_blocks n t \<longleftrightarrow>
     xpauli_x t = identity_matrix n \<and> xpauli_z t = zero_matrix n \<and>
     zpauli_x t = zero_matrix n \<and> zpauli_z t = identity_matrix n \<and>
     length (xpauli_phase t) = n \<and> length (zpauli_phase t) = n"

text \<open>
  What the delayed steps need of the front applications on such a tableau: two \<open>S\<close> (a
  \<open>Z\<close>) or two \<open>V\<close> (an \<open>X\<close>) on qubit \<open>i\<close> leave the blocks as they are and do not
  touch a phase bit that the loop has still to read.
\<close>

definition later_phases_kept :: "nat \<Rightarrow> nat \<Rightarrow> CliffTableau \<Rightarrow> CliffTableau \<Rightarrow> bool" where
  "later_phases_kept n i t t' \<longleftrightarrow>
     (\<forall>j. i < j \<and> j < n \<longrightarrow>
        xpauli_phase t' ! j = xpauli_phase t ! j \<and> zpauli_phase t' ! j = zpauli_phase t ! j)"

definition pauli_front_frame :: "externals \<Rightarrow> nat \<Rightarrow> bool" where
  "pauli_front_frame h n \<longleftrightarrow>
     (\<forall>t i. i < n \<and> identity_blocks n t \<longrightarrow>
        identity_blocks n (apply_S_at_front h (apply_S_at_front h t i) i) \<and>
        zpauli_phase (apply_S_at_front h (apply_S_at_front h t i) i) ! i = zpauli_phase t ! i \<and>
        later_phases_kept n i t (apply_S_at_front h (apply_S_at_front h t i) i) \<and>
        identity_blocks n (apply_V_at_front h (apply_V_at_front h t i) i) \<and>
        later_phases_kept n i t (apply_V_at_front h (apply_V_at_front h t i) i))"

text \<open>The corrections of qubit \<open>i\<close> for given phase vectors: a \<open>Z\<close>, then an \<open>X\<close>.\<close>

definition phase_fixes :: "VectorXb \<Rightarrow> VectorXb \<Rightarrow> nat \<Rightarrow> (OpType \<times> nat list) list" where
  "phase_fixes xp zp i = (if xp ! i then [(Z, [i])] else []) @ (if zp ! i then [(X, [i])] else [])"

text \<open>
  For the builder: a gate kind is unsupported when the end application fails on it
  whatever the tableau and the operands; a command is accepted when the end application
  succeeds on its kind and resolved operands whatever the tableau.  \<open>end_apply\<close> is the
  end application of one command as a function on tableaux, and \<open>qubit_map_kept\<close> says
  that a successful end application leaves the qubit index mapping as it is.
\<close>

definition unsupported :: "externals \<Rightarrow> OpType \<Rightarrow> bool" where
  "unsupported h ty \<longleftrightarrow> (\<forall>t qbs. \<exists>e. apply_gate_at_end h t ty qbs = Inl e)"

definition indices_of :: "(Qubit \<times> nat) list \<Rightarrow> Qubit list \<Rightarrow> nat list" where
  "indices_of m args = map (\<lambda>qb. the (map_of m qb)) args"

definition accepted :: "externals \<Rightarrow> (Qubit \<times> nat) list \<Rightarrow> Command \<Rightarrow> bool" where
  "accepted h m com \<longleftrightarrow> (\<forall>t. \<exists>t'. apply_gate_at_end h t (fst com) (indices_of m (snd com)) = Inr t')"

definition end_apply :: "externals \<Rightarrow> (Qubit \<times> nat) list \<Rightarrow> Command \<Rightarrow> CliffTableau \<Rightarrow> CliffTableau" where
  "end_apply h m com t =
     (case apply_gate_at_end h t (fst com) (indices_of m (snd com)) of Inl e \<Rightarrow> t | Inr t' \<Rightarrow> t')"

definition qubit_map_kept :: "externals \<Rightarrow> bool" where
  "qubit_map_kept h \<longleftrightarrow>
     (\<forall>t ty qbs t'. apply_gate_at_end h t ty qbs = Inr t' \<longrightarrow> tab_qubits t' = tab_qubits t)"

text \<open>
  The end application fails with the unsupported-operation condition only, and a command
  is known to a circuit when its operands are qubits of the circuit.
\<close>

definition fails_as_unsupported :: "externals \<Rightarrow> bool" where
  "fails_as_unsupported h \<longleftrightarrow>
     (\<forall>t ty qbs e. apply_gate_at_end h t ty qbs = Inl e \<longrightarrow> e = NotValid)"

definition known :: "Circuit \<Rightarrow> Command \<Rightarrow> bool" where
  "known circ com \<longleftrightarrow> set (snd com) \<subseteq> set (all_qubits circ)"


text \<open>
  For step 1: a matrix with \<open>n\<close> rows of \<open>n\<close> entries; a tableau whose stabilizer half
  has these dimensions; the parity of the entries of column \<open>k\<close> in the rows selected by
  \<open>sel\<close>.  The selected stabilizer rows cancel when every column of the stabilizer-X and
  stabilizer-Z blocks has even parity over them: their product is the identity up to sign,
  so with at least one row selected the stabilizers are not mutually independent.
\<close>

definition mat_ok :: "nat \<Rightarrow> MatrixXb \<Rightarrow> bool" where
  "mat_ok n m \<longleftrightarrow> length m = n \<and> (\<forall>row\<in>set m. length row = n)"

definition stab_ok :: "nat \<Rightarrow> CliffTableau \<Rightarrow> bool" where
  "stab_ok n t \<longleftrightarrow> mat_ok n (zpauli_x t) \<and> mat_ok n (zpauli_z t) \<and> length (zpauli_phase t) = n"

definition col_parity :: "nat \<Rightarrow> bool list \<Rightarrow> MatrixXb \<Rightarrow> nat \<Rightarrow> bool" where
  "col_parity n sel m k = xor_sum (map (\<lambda>r. sel ! r \<and> m ! r ! k) [0..<n])"

definition orth :: "nat \<Rightarrow> bool list \<Rightarrow> MatrixXb \<Rightarrow> bool" where
  "orth n sel m \<longleftrightarrow> (\<forall>k<n. \<not> col_parity n sel m k)"

definition rows_cancel :: "nat \<Rightarrow> bool list \<Rightarrow> CliffTableau \<Rightarrow> bool" where
  "rows_cancel n sel t \<longleftrightarrow> orth n sel (zpauli_x t) \<and> orth n sel (zpauli_z t)"

text \<open>
  What step 1 needs of \<open>apply_V_at_front\<close>: on a tableau of the right dimensions it keeps
  the dimensions and a cancellation among the stabilizer rows (it acts on columns).
\<close>

definition V_keeps_cancel :: "externals \<Rightarrow> nat \<Rightarrow> bool list \<Rightarrow> bool" where
  "V_keeps_cancel h n sel \<longleftrightarrow>
     (\<forall>t i. i < n \<and> stab_ok n t \<and> rows_cancel n sel t \<longrightarrow>
        stab_ok n (apply_V_at_front h t i) \<and> rows_cancel n sel (apply_V_at_front h t i))"

text \<open>
  The invariant of \<open>leading_val_to_col\<close>: the keys are distinct rows, and the column
  recorded for row \<open>j\<close> is an earlier column with a one in row \<open>j\<close> and zeros above it.
\<close>

definition pivots_ok :: "nat \<Rightarrow> nat \<Rightarrow> MatrixXb \<Rightarrow> (nat \<times> nat) list \<Rightarrow> bool" where
  "pivots_ok n i m lv \<longleftrightarrow>
     distinct (map fst lv) \<and>
     (\<forall>(j, l)\<in>set lv. j < n \<and> l < i \<and> m ! j ! l \<and> (\<forall>j'<j. \<not> m ! j' ! l))"

text \<open>
  For the order in which the qubit bimap is enumerated: the front applications neither read
  nor write the qubit index mapping, and \<open>relabelled q t0 s\<close> is the state \<open>s\<close> of a run
  whose tableaux carry the enumeration \<open>q\<close> and whose caller holds \<open>t0\<close>.
\<close>

definition front_ignores_qubits :: "externals \<Rightarrow> bool" where
  "front_ignores_qubits h \<longleftrightarrow>
     (\<forall>t q i. apply_S_at_front h (t\<lparr>tab_qubits := q\<rparr>) i = (apply_S_at_front h t i)\<lparr>tab_qubits := q\<rparr>) \<and>
     (\<forall>t q i. apply_V_at_front h (t\<lparr>tab_qubits := q\<rparr>) i = (apply_V_at_front h t i)\<lparr>tab_qubits := q\<rparr>) \<and>
     (\<forall>t q a b. apply_CX_at_front h (t\<lparr>tab_qubits := q\<rparr>) a b =
                (apply_CX_at_front h t a b)\<lparr>tab_qubits := q\<rparr>)"

definition relabelled :: "(Qubit \<times> nat) list \<Rightarrow> CliffTableau \<Rightarrow> synth \<Rightarrow> synth" where
  "relabelled q t0 s = \<lparr>tab = t0, tabl = (tabl s)\<lparr>tab_qubits := q\<rparr>, c = c s\<rparr>"

text \<open>
  For the order of replay.  \<open>replayed h g s\<close> is the state \<open>s\<close> after the gate list \<open>g\<close>
  has been replayed: every gate of \<open>g\<close>, in the order of \<open>g\<close>, is appended to the circuit and
  its front applications are made on the working copy.
\<close>

definition replayed :: "externals \<Rightarrow> (OpType \<times> nat list) list \<Rightarrow> synth \<Rightarrow> synth" where
  "replayed h g s =
     s\<lparr>tabl := fold (front_inverse h) g (tabl s),
       c := (c s)\<lparr>commands := commands (c s) @ map default_cmd g\<rparr>\<rparr>"

text \<open>
  Steps 2 to 11 the way the specification words them, as lists of gates to replay.  Steps
  2, 6 and 11 replay the column operations that Gaussian elimination records for a block of
  the working copy in the order recorded; steps 4 and 9 replay the column operations
  recorded for the first factor of the binary LLT decomposition in reverse; steps 3 and 8
  replay an \<open>S\<close> on the qubits that the diagonal factor flags, steps 5 and 10 an \<open>S\<close> and
  step 7 an \<open>H\<close> on every qubit.  Each decomposition is that of a block of the working
  copy as the preceding step leaves it.
\<close>

definition canonical_replay :: "externals \<Rightarrow> nat \<Rightarrow> synth \<Rightarrow> synth" where
  "canonical_replay h n s1 =
     (let s2 = replayed h (map cx_gate (gaussian_elimination_col_ops h (zpauli_x (tabl s1)))) s1;
          zl = binary_LLT_decomposition h (zpauli_z (tabl s2));
          s3 = replayed h (map s_gate (filter (\<lambda>i. snd zl ! i ! i) [0..<n])) s2;
          s4 = replayed h (map cx_gate (rev (gaussian_elimination_col_ops h (fst zl)))) s3;
          s5 = replayed h (map s_gate [0..<n]) s4;
          s6 = replayed h (map cx_gate (gaussian_elimination_col_ops h (zpauli_x (tabl s5)))) s5;
          s7 = replayed h (map h_gate [0..<n]) s6;
          xl = binary_LLT_decomposition h (xpauli_z (tabl s7));
          s8 = replayed h (map s_gate (filter (\<lambda>i. snd xl ! i ! i) [0..<n])) s7;
          s9 = replayed h (map cx_gate (rev (gaussian_elimination_col_ops h (fst xl)))) s8;
          s10 = replayed h (map s_gate [0..<n]) s9
      in replayed h (map cx_gate (gaussian_elimination_col_ops h (xpauli_x (tabl s10)))) s10)"

text \<open>
  For the delayed steps.  The loop visits the qubits in index order; at qubit \<open>i\<close> it
  tests the destabilizer-phase bit \<open>i\<close> of the working copy, emits a \<open>Z\<close> and applies it
  when the bit is set, then tests the stabilizer-phase bit \<open>i\<close>, emits an \<open>X\<close> and applies it
  when that bit is set.  \<open>tableau_at h t i\<close> is the working copy when the loop reaches qubit
  \<open>i\<close>, for a loop that starts on \<open>t\<close>; the two phase bits of qubit \<open>i\<close> are the bits the
  loop tests, and \<open>corrections h t i\<close> are the gates of qubit \<open>i\<close>.
\<close>

definition z_corrected :: "externals \<Rightarrow> CliffTableau \<Rightarrow> nat \<Rightarrow> CliffTableau" where
  "z_corrected h t i =
     (if xpauli_phase t ! i then apply_S_at_front h (apply_S_at_front h t i) i else t)"

definition x_corrected :: "externals \<Rightarrow> CliffTableau \<Rightarrow> nat \<Rightarrow> CliffTableau" where
  "x_corrected h t i =
     (if zpauli_phase t ! i then apply_V_at_front h (apply_V_at_front h t i) i else t)"

primrec tableau_at :: "externals \<Rightarrow> CliffTableau \<Rightarrow> nat \<Rightarrow> CliffTableau" where
  "tableau_at h t 0 = t"
| "tableau_at h t (Suc i) = x_corrected h (z_corrected h (tableau_at h t i) i) i"

definition destabilizer_phase_bit :: "externals \<Rightarrow> CliffTableau \<Rightarrow> nat \<Rightarrow> bool" where
  "destabilizer_phase_bit h t i = xpauli_phase (tableau_at h t i) ! i"

definition stabilizer_phase_bit :: "externals \<Rightarrow> CliffTableau \<Rightarrow> nat \<Rightarrow> bool" where
  "stabilizer_phase_bit h t i = zpauli_phase (z_corrected h (tableau_at h t i) i) ! i"

definition corrections :: "externals \<Rightarrow> CliffTableau \<Rightarrow> nat \<Rightarrow> (OpType \<times> nat list) list" where
  "corrections h t i =
     (if destabilizer_phase_bit h t i then [(Z, [i])] else []) @
     (if stabilizer_phase_bit h t i then [(X, [i])] else [])"

text \<open>
  An instance on which the order of replay shows on a run of two qubits: the operations
  modelled from the spec, with a Gaussian elimination that records the same two column
  operations, \<open>(0, 1)\<close> then \<open>(1, 0)\<close>, for every matrix.
\<close>

definition recording_externals :: externals where
  "recording_externals =
     spec_externals\<lparr>gaussian_elimination_col_ops := (\<lambda>m. [(0, 1), (1, 0)])\<rparr>"

section \<open>Every step as a sequence of paired gates\<close>

lemma traced_refl: "traced h [] s s"
  by (simp add: traced_def)

lemma traced_trans: "traced h g1 s s' \<Longrightarrow> traced h g2 s' s'' \<Longrightarrow> traced h (g1 @ g2) s s''"
  by (simp add: traced_def)

lemma traced_s_op: "traced h [(S, [i])] s (s_op h i s)"
  by (simp add: traced_def s_op_def S_front_def emit_def add_op_def default_cmd_def)

lemma traced_h_op: "traced h [(H, [i])] s (h_op h i s)"
  by (simp add: traced_def h_op_def S_front_def V_front_def emit_def add_op_def default_cmd_def)

lemma traced_v_op: "traced h [(V, [i])] s (V_front h i (V_front h i (V_front h i (emit V [i] s))))"
  by (simp add: traced_def V_front_def emit_def add_op_def default_cmd_def)

lemma traced_cx_op: "traced h [(CX, [fst qbs, snd qbs])] s (cx_op h qbs s)"
  by (simp add: traced_def cx_op_def CX_front_def emit_def add_op_def default_cmd_def)

lemma traced_z_fix:
  "traced h (if xpauli_phase (tabl s) ! i then [(Z, [i])] else []) s (z_fix h i s)"
  by (simp add: traced_def z_fix_def S_front_def emit_def add_op_def default_cmd_def)

lemma traced_x_fix:
  "traced h (if zpauli_phase (tabl s) ! i then [(X, [i])] else []) s (x_fix h i s)"
  by (simp add: traced_def x_fix_def V_front_def emit_def add_op_def default_cmd_def)

lemma traced_cx_forward: "traced h (map cx_gate ops) s (cx_forward h ops s)"
  unfolding cx_forward_def
proof (induction ops arbitrary: s)
  case Nil
  show ?case by (simp add: traced_refl)
next
  case (Cons a ops)
  have "traced h ([cx_gate a] @ map cx_gate ops) s (fold (cx_op h) ops (cx_op h a s))"
    by (rule traced_trans[OF _ Cons.IH]) (simp add: cx_gate_def traced_cx_op)
  then show ?case by simp
qed

lemma traced_cx_reverse_from:
  "k \<le> length ops \<Longrightarrow> traced h (map cx_gate (rev (take k ops))) s (cx_reverse_from h ops k s)"
proof (induction k arbitrary: s)
  case 0
  show ?case by (simp add: traced_refl)
next
  case (Suc k)
  then have k: "k < length ops" by simp
  have "traced h ([cx_gate (ops ! k)] @ map cx_gate (rev (take k ops))) s
          (cx_reverse_from h ops k (cx_op h (ops ! k) s))"
    by (rule traced_trans[OF _ Suc.IH]) (use k in \<open>simp_all add: cx_gate_def traced_cx_op\<close>)
  then show ?case using k by (simp add: take_Suc_conv_app_nth)
qed

lemma traced_cx_reverse: "traced h (map cx_gate (rev ops)) s (cx_reverse h ops s)"
  using traced_cx_reverse_from[of "length ops" ops h s] by (simp add: cx_reverse_def)


lemma emitsI: "traced h g s s' \<Longrightarrow> set g \<subseteq> K \<Longrightarrow> emits h K s s'"
  by (auto simp: emits_def)

lemma emits_refl: "emits h K s s"
  unfolding emits_def by (rule exI[of _ "[]"]) (simp add: traced_refl)

lemma emits_trans: "emits h K s s' \<Longrightarrow> emits h K s' s'' \<Longrightarrow> emits h K s s''"
  unfolding emits_def
proof (elim exE conjE)
  fix g1 g2
  assume "set g1 \<subseteq> K" "traced h g1 s s'" "set g2 \<subseteq> K" "traced h g2 s' s''"
  then have "set (g1 @ g2) \<subseteq> K \<and> traced h (g1 @ g2) s s''"
    by (simp add: traced_trans)
  then show "\<exists>g. set g \<subseteq> K \<and> traced h g s s''" by blast
qed

lemma emits_mono: "emits h K s s' \<Longrightarrow> K \<subseteq> K' \<Longrightarrow> emits h K' s s'"
  by (auto simp: emits_def)

lemma emits_fold:
  assumes "\<And>x s. emits h K s (f x s)"
  shows "emits h K s (fold f xs s)"
proof (induction xs arbitrary: s)
  case Nil
  show ?case by (simp add: emits_refl)
next
  case (Cons x xs)
  show ?case using emits_trans[OF assms[of s x] Cons.IH] by simp
qed

lemma traced_fold:
  assumes "\<And>x s. traced h (g x) s (f x s)"
  shows "traced h (concat (map g xs)) s (fold f xs s)"
proof (induction xs arbitrary: s)
  case Nil
  show ?case by (simp add: traced_refl)
next
  case (Cons x xs)
  show ?case using traced_trans[OF assms[of x s] Cons.IH] by simp
qed

lemma traced_cond_s:
  "traced h (map s_gate (filter (\<lambda>i. snd llt ! i ! i) [0..<n])) s
     (fold (\<lambda>i s. if snd llt ! i ! i then s_op h i s else s) [0..<n] s)"
proof -
  have "traced h (concat (map (\<lambda>i. if snd llt ! i ! i then [s_gate i] else []) xs)) s
          (fold (\<lambda>i s. if snd llt ! i ! i then s_op h i s else s) xs s)" for xs
    by (rule traced_fold) (simp add: traced_refl traced_s_op s_gate_def)
  moreover have "concat (map (\<lambda>i. if P i then [f i] else []) xs) = map f (filter P xs)"
    for P :: "nat \<Rightarrow> bool" and f :: "nat \<Rightarrow> OpType \<times> nat list" and xs
    by (induction xs) auto
  ultimately show ?thesis by simp
qed

lemma traced_all_s: "traced h (map s_gate [0..<n]) s (fold (s_op h) [0..<n] s)"
proof -
  have "traced h (concat (map (\<lambda>i. [s_gate i]) xs)) s (fold (s_op h) xs s)" for xs
    by (rule traced_fold) (simp add: traced_s_op s_gate_def)
  moreover have "concat (map (\<lambda>i. [f i]) xs) = map f xs"
    for f :: "nat \<Rightarrow> OpType \<times> nat list" and xs
    by (induction xs) auto
  ultimately show ?thesis by simp
qed

lemma traced_all_h: "traced h (map h_gate [0..<n]) s (fold (h_op h) [0..<n] s)"
proof -
  have "traced h (concat (map (\<lambda>i. [h_gate i]) xs)) s (fold (h_op h) xs s)" for xs
    by (rule traced_fold) (simp add: traced_h_op h_gate_def)
  moreover have "concat (map (\<lambda>i. [f i]) xs) = map f xs"
    for f :: "nat \<Rightarrow> OpType \<times> nat list" and xs
    by (induction xs) auto
  ultimately show ?thesis by simp
qed

lemma emits_delayed:
  "emits h {g. \<exists>i. g = (Z, [i]) \<or> g = (X, [i])} s (delayed_steps h n s)"
  unfolding delayed_steps_def
proof (rule emits_fold)
  fix i s
  have "emits h {g. \<exists>i. g = (Z, [i]) \<or> g = (X, [i])} s (z_fix h i s)"
    by (rule emitsI[OF traced_z_fix]) auto
  moreover have "emits h {g. \<exists>i. g = (Z, [i]) \<or> g = (X, [i])} (z_fix h i s) (x_fix h i (z_fix h i s))"
    by (rule emitsI[OF traced_x_fix]) auto
  ultimately show "emits h {g. \<exists>i. g = (Z, [i]) \<or> g = (X, [i])} s (x_fix h i (z_fix h i s))"
    by (rule emits_trans)
qed

lemma emits_step1:
  "emits h {g. \<exists>i. g = (V, [i])} s (snd (step1 h n i p s))"
proof (induction h n i p s rule: step1.induct)
  case (1 h n i echelon lv s)
  let ?K = "{g. \<exists>i. g = (V, [i])}"
  let ?s1 = "V_front h i (V_front h i (V_front h i (emit V [i] s)))"
  have v: "emits h ?K s ?s1"
    by (rule emitsI[OF traced_v_op]) auto
  show ?case
  proof (cases "i < n")
    case False
    then show ?thesis by (subst step1.simps) (simp add: emits_refl)
  next
    case True
    obtain e1 l1 where r1: "reduce_col n i 0 (echelon, lv) = (e1, l1)"
      by (cases "reduce_col n i 0 (echelon, lv)")
    show ?thesis
    proof (cases "i < length l1")
      case a: True
      have "emits h ?K s (snd (step1 h n (Suc i) (e1, l1) s))"
        using "1.IH"(1) True r1 a by simp
      then show ?thesis using True r1 a by (subst step1.simps) simp
    next
      case b: False
      obtain e3 l3 where r3:
        "reduce_col n i 0 (assign_col n i (zpauli_z (tabl ?s1)) e1, l1) = (e3, l3)"
        by (cases "reduce_col n i 0 (assign_col n i (zpauli_z (tabl ?s1)) e1, l1)")
      show ?thesis
      proof (cases "length l3 = i")
        case c: True
        then show ?thesis using True r1 b r3 v by (subst step1.simps) (simp add: Let_def)
      next
        case d: False
        have "emits h ?K ?s1 (snd (step1 h n (Suc i) (e3, l3) ?s1))"
          using "1.IH"(2) True r1 b r3 d by simp
        then have "emits h ?K s (snd (step1 h n (Suc i) (e3, l3) ?s1))"
          using v emits_trans by blast
        then show ?thesis using True r1 b r3 d by (subst step1.simps) (simp add: Let_def)
      qed
    qed
  qed
qed
lemma emitted_append:
  "commands c2 = commands c1 @ map default_cmd g \<Longrightarrow> emitted c2 = emitted c1 @ g"
  by (simp add: emitted_def default_cmd_def comp_def)

lemma paired_kind: "paired_gate g \<Longrightarrow> fst g \<in> {V, H, S, CX, X, Z}"
  by (cases g rule: paired_gate.cases) auto

lemma traced_step2: "traced h (map cx_gate (gaussian_elimination_col_ops h (zpauli_x (tabl s)))) s (step2 h s)"
  by (simp add: step2_def traced_cx_forward)

lemma traced_step3: "traced h (map s_gate (filter (\<lambda>i. snd llt ! i ! i) [0..<n])) s (step3 h n llt s)"
  by (simp add: step3_def traced_cond_s)

lemma traced_step4: "traced h (map cx_gate (rev (gaussian_elimination_col_ops h (fst llt)))) s (step4 h llt s)"
  by (simp add: step4_def traced_cx_reverse)

lemma traced_step5: "traced h (map s_gate [0..<n]) s (step5 h n s)"
  by (simp add: step5_def traced_all_s)

lemma traced_step6: "traced h (map cx_gate (gaussian_elimination_col_ops h (zpauli_x (tabl s)))) s (step6 h s)"
  by (simp add: step6_def traced_cx_forward)

lemma traced_step7: "traced h (map h_gate [0..<n]) s (step7 h n s)"
  by (simp add: step7_def traced_all_h)

lemma traced_step8: "traced h (map s_gate (filter (\<lambda>i. snd llt ! i ! i) [0..<n])) s (step8 h n llt s)"
  by (simp add: step8_def traced_cond_s)

lemma traced_step9: "traced h (map cx_gate (rev (gaussian_elimination_col_ops h (fst llt)))) s (step9 h llt s)"
  by (simp add: step9_def traced_cx_reverse)

lemma traced_step10: "traced h (map s_gate [0..<n]) s (step10 h n s)"
  by (simp add: step10_def traced_all_s)

lemma traced_step11: "traced h (map cx_gate (gaussian_elimination_col_ops h (xpauli_x (tabl s)))) s (step11 h s)"
  by (simp add: step11_def traced_cx_forward)

lemma paired_cx: "set (map cx_gate ops) \<subseteq> Collect paired_gate"
  by (auto simp: cx_gate_def)

lemma paired_s: "set (map s_gate is) \<subseteq> Collect paired_gate"
  by (auto simp: s_gate_def)

lemma paired_h: "set (map h_gate is) \<subseteq> Collect paired_gate"
  by (auto simp: h_gate_def)

lemma steps_2_to_end_shape:
  "\<exists>g2 g34 g6 g89 g11.
     set (g2 @ g34 @ g6 @ g89 @ g11) \<subseteq> Collect paired_gate \<and>
     traced h (g2 @ g34 @ map s_gate [0..<n] @ g6 @ map h_gate [0..<n] @ g89 @ map s_gate [0..<n] @ g11)
       s (steps_2_to_end h n s)"
proof -
  define s2 where "s2 = step2 h s"
  define zl where "zl = binary_LLT_decomposition h (zpauli_z (tabl s2))"
  define s3 where "s3 = step3 h n zl s2"
  define s4 where "s4 = step4 h zl s3"
  define s5 where "s5 = step5 h n s4"
  define s6 where "s6 = step6 h s5"
  define s7 where "s7 = step7 h n s6"
  define xl where "xl = binary_LLT_decomposition h (xpauli_z (tabl s7))"
  define s8 where "s8 = step8 h n xl s7"
  define s9 where "s9 = step9 h xl s8"
  define s10 where "s10 = step10 h n s9"
  define s11 where "s11 = step11 h s10"
  have fin: "steps_2_to_end h n s = delayed_steps h n s11"
    by (simp add: steps_2_to_end_def steps_2_to_11_def Let_def s2_def zl_def s3_def s4_def s5_def s6_def s7_def
        xl_def s8_def s9_def s10_def s11_def)
  obtain gd where gd: "set gd \<subseteq> {g. \<exists>i. g = (Z, [i]) \<or> g = (X, [i])}"
      "traced h gd s11 (delayed_steps h n s11)"
    using emits_delayed[of h s11 n] by (auto simp: emits_def)
  define g2 where "g2 = map cx_gate (gaussian_elimination_col_ops h (zpauli_x (tabl s)))"
  define g34 where "g34 = map s_gate (filter (\<lambda>i. snd zl ! i ! i) [0..<n]) @
     map cx_gate (rev (gaussian_elimination_col_ops h (fst zl)))"
  define g6 where "g6 = map cx_gate (gaussian_elimination_col_ops h (zpauli_x (tabl s5)))"
  define g89 where "g89 = map s_gate (filter (\<lambda>i. snd xl ! i ! i) [0..<n]) @
     map cx_gate (rev (gaussian_elimination_col_ops h (fst xl)))"
  define g11 where "g11 = map cx_gate (gaussian_elimination_col_ops h (xpauli_x (tabl s10))) @ gd"
  have t2: "traced h g2 s s2" unfolding g2_def s2_def by (rule traced_step2)
  have t34: "traced h g34 s2 s4" unfolding g34_def s4_def s3_def
    by (rule traced_trans[OF traced_step3 traced_step4])
  have t5: "traced h (map s_gate [0..<n]) s4 s5" unfolding s5_def by (rule traced_step5)
  have t6: "traced h g6 s5 s6" unfolding g6_def s6_def by (rule traced_step6)
  have t7: "traced h (map h_gate [0..<n]) s6 s7" unfolding s7_def by (rule traced_step7)
  have t89: "traced h g89 s7 s9" unfolding g89_def s9_def s8_def
    by (rule traced_trans[OF traced_step8 traced_step9])
  have t10: "traced h (map s_gate [0..<n]) s9 s10" unfolding s10_def by (rule traced_step10)
  have t11: "traced h g11 s10 (delayed_steps h n s11)" unfolding g11_def
    by (rule traced_trans[OF _ gd(2)]) (simp add: s11_def traced_step11)
  have "traced h (g2 @ g34 @ map s_gate [0..<n] @ g6 @ map h_gate [0..<n] @ g89 @ map s_gate [0..<n] @ g11)
          s (delayed_steps h n s11)"
    by (intro traced_trans[OF t2] traced_trans[OF t34] traced_trans[OF t5] traced_trans[OF t6]
        traced_trans[OF t7] traced_trans[OF t89] traced_trans[OF t10] t11)
  moreover have "set gd \<subseteq> Collect paired_gate" using gd(1) by auto
  then have "set (g2 @ g34 @ g6 @ g89 @ g11) \<subseteq> Collect paired_gate"
    by (auto simp: g2_def g34_def g6_def g89_def g11_def cx_gate_def s_gate_def)
  ultimately show ?thesis unfolding fin by blast
qed

lemma emits_steps_2_to_end: "emits h (Collect paired_gate) s (steps_2_to_end h n s)"
proof -
  obtain g2 g34 g6 g89 g11 where
    p: "set (g2 @ g34 @ g6 @ g89 @ g11) \<subseteq> Collect paired_gate" and
    t: "traced h (g2 @ g34 @ map s_gate [0..<n] @ g6 @ map h_gate [0..<n] @ g89 @ map s_gate [0..<n] @ g11)
       s (steps_2_to_end h n s)"
    using steps_2_to_end_shape by blast
  show ?thesis
    by (rule emitsI[OF t]) (use p paired_s[of "[0..<n]"] paired_h[of "[0..<n]"] in simp)
qed

lemma emits_synthesise: "emits h (Collect paired_gate) (start t) (snd (synthesise h t))"
proof -
  let ?r = "step1 h (tab_size t) 0 (zpauli_x t, []) (start t)"
  have 1: "emits h (Collect paired_gate) (start t) (snd ?r)"
    by (rule emits_mono[OF emits_step1]) auto
  obtain e s1 where r: "?r = (e, s1)" by (cases ?r)
  show ?thesis
  proof (cases e)
    case None
    then have "snd (synthesise h t) = steps_2_to_end h (tab_size t) s1"
      using r by (simp add: synthesise_def start_def Let_def)
    then show ?thesis using emits_trans[OF 1 emits_steps_2_to_end] r by simp
  next
    case (Some e')
    then have "snd (synthesise h t) = s1"
      using r by (simp add: synthesise_def start_def Let_def)
    then show ?thesis using 1 r by simp
  qed
qed

lemma synthesise_paired:
  "\<exists>g. set g \<subseteq> Collect paired_gate \<and> tab (snd (synthesise h t)) = t \<and>
       commands (c (snd (synthesise h t))) = map default_cmd g \<and>
       all_qubits (c (snd (synthesise h t))) = all_qubits (Circuit_n (tab_size t)) \<and>
       emitted (c (snd (synthesise h t))) = g \<and>
       tabl (snd (synthesise h t)) = fold (front_inverse h) g t"
proof -
  obtain g where g: "set g \<subseteq> Collect paired_gate" "traced h g (start t) (snd (synthesise h t))"
    using emits_synthesise[of h t] by (auto simp: emits_def)
  have cm: "commands (c (snd (synthesise h t))) = commands (Circuit_n (tab_size t)) @ map default_cmd g"
    using g(2) by (simp add: traced_def start_def)
  have "emitted (c (snd (synthesise h t))) = emitted (Circuit_n (tab_size t)) @ g"
    by (rule emitted_append[OF cm])
  then show ?thesis using g cm by (auto simp: traced_def start_def Circuit_n_def emitted_def)
qed


section \<open>The one-qubit identity tableau, evaluated\<close>

lemmas spec_front_eval =
  spec_externals_def spec_apply_S_at_front_def spec_apply_V_at_front_def
  spec_apply_CX_at_front_def on_all_rows_def rows_of_def S_row_def V_row_def CX_row_def

lemmas spec_matrix_eval =
  spec_externals_def spec_gaussian_elimination_col_ops_def spec_ge_scan.simps
  spec_binary_LLT_decomposition_def llt_row_def xor_sum_def xor_col_def

lemmas synth_op_eval =
  s_op_def h_op_def cx_op_def cx_forward_def cx_reverse_def z_fix_def x_fix_def
  S_front_def V_front_def CX_front_def emit_def add_op_def q_default_reg_def

lemma synthesise_identity_1:
  "synthesise spec_externals (CliffTableau_identity [Qubit ''a'' [0]]) =
     (None,
      \<lparr>tab = CliffTableau_identity [Qubit ''a'' [0]],
       tabl = CliffTableau_identity [Qubit ''a'' [0]],
       c = \<lparr>all_qubits = [Qubit ''q'' [0]],
            commands = [(V, [Qubit ''q'' [0]]), (S, [Qubit ''q'' [0]]),
                        (H, [Qubit ''q'' [0]]), (S, [Qubit ''q'' [0]])]\<rparr>\<rparr>)"
proof -
  define t where "t = CliffTableau_identity [Qubit ''a'' [0]]"
  define st where "st = (\<lambda>xz xp zx zz g.
    \<lparr>tab = t,
     tabl = \<lparr>tab_size = 1, xpauli_x = [[True]], xpauli_z = [[xz]], xpauli_phase = [xp],
             zpauli_x = [[zx]], zpauli_z = [[zz]], zpauli_phase = [False],
             tab_qubits = [(Qubit ''a'' [0], 0)]\<rparr>,
     c = \<lparr>all_qubits = [Qubit ''q'' [0]], commands = map default_cmd g\<rparr>\<rparr>)"
  let ?h = spec_externals
  have t: "t = \<lparr>tab_size = 1, xpauli_x = [[True]], xpauli_z = [[False]], xpauli_phase = [False],
             zpauli_x = [[False]], zpauli_z = [[True]], zpauli_phase = [False],
             tab_qubits = [(Qubit ''a'' [0], 0)]\<rparr>"
    by (simp add: t_def CliffTableau_identity_def identity_matrix_def zero_matrix_def)
  have s0: "start t = st False False False True []"
    by (simp add: start_def st_def t Circuit_n_def q_default_reg_def)
  define a1 where "a1 = step1 ?h 1 0 (zpauli_x t, []) (start t)"
  have v1: "a1 = (None, st False False True True [(V, [0])])"
    unfolding a1_def s0 unfolding t
    by (simp add: step1.simps reduce_col.simps xor_col_def assign_col_def synth_op_eval
        spec_front_eval st_def default_cmd_def Let_def)
  define s1 where "s1 = st False False True True [(V, [0])]"
  define a2 where "a2 = step2 ?h s1"
  have v2: "a2 = st False False True True [(V, [0])]"
    by (simp add: a2_def s1_def step2_def synth_op_eval spec_matrix_eval st_def)
  define zl where "zl = binary_LLT_decomposition ?h (zpauli_z (tabl a2))"
  have vzl: "zl = ([[True]], [[False]])"
    by (simp add: zl_def v2 st_def spec_matrix_eval)
  define a3 where "a3 = step3 ?h 1 zl a2"
  have v3: "a3 = st False False True True [(V, [0])]"
    by (simp add: a3_def v2 vzl step3_def)
  define a4 where "a4 = step4 ?h zl a3"
  have v4: "a4 = st False False True True [(V, [0])]"
    by (simp add: a4_def v3 vzl step4_def synth_op_eval spec_matrix_eval st_def)
  define a5 where "a5 = step5 ?h 1 a4"
  have v5: "a5 = st True True True False [(V, [0]), (S, [0])]"
    by (simp add: a5_def v4 step5_def synth_op_eval spec_front_eval st_def default_cmd_def)
  define a6 where "a6 = step6 ?h a5"
  have v6: "a6 = st True True True False [(V, [0]), (S, [0])]"
    by (simp add: a6_def v5 step6_def synth_op_eval spec_matrix_eval st_def)
  define a7 where "a7 = step7 ?h 1 a6"
  have v7: "a7 = st True False False True [(V, [0]), (S, [0]), (H, [0])]"
    by (simp add: a7_def v6 step7_def synth_op_eval spec_front_eval st_def default_cmd_def)
  define xl where "xl = binary_LLT_decomposition ?h (xpauli_z (tabl a7))"
  have vxl: "xl = ([[True]], [[False]])"
    by (simp add: xl_def v7 st_def spec_matrix_eval)
  define a8 where "a8 = step8 ?h 1 xl a7"
  have v8: "a8 = st True False False True [(V, [0]), (S, [0]), (H, [0])]"
    by (simp add: a8_def v7 vxl step8_def)
  define a9 where "a9 = step9 ?h xl a8"
  have v9: "a9 = st True False False True [(V, [0]), (S, [0]), (H, [0])]"
    by (simp add: a9_def v8 vxl step9_def synth_op_eval spec_matrix_eval st_def)
  define a10 where "a10 = step10 ?h 1 a9"
  have v10: "a10 = st False False False True [(V, [0]), (S, [0]), (H, [0]), (S, [0])]"
    by (simp add: a10_def v9 step10_def synth_op_eval spec_front_eval st_def default_cmd_def)
  define a11 where "a11 = step11 ?h a10"
  have v11: "a11 = st False False False True [(V, [0]), (S, [0]), (H, [0]), (S, [0])]"
    by (simp add: a11_def v10 step11_def synth_op_eval spec_matrix_eval st_def)
  define a12 where "a12 = delayed_steps ?h 1 a11"
  have v12: "a12 = st False False False True [(V, [0]), (S, [0]), (H, [0]), (S, [0])]"
    by (simp add: a12_def v11 delayed_steps_def synth_op_eval st_def)
  have chain: "steps_2_to_end ?h 1 s1 = a12"
    unfolding steps_2_to_end_def steps_2_to_11_def Let_def a12_def a11_def a10_def a9_def a8_def xl_def a7_def
      a6_def a5_def a4_def a3_def zl_def a2_def ..
  have "synthesise ?h t = (None, a12)"
    using v1 chain by (simp add: synthesise_def Let_def a1_def s1_def start_def t)
  then show ?thesis
    unfolding v12 t_def[symmetric] by (simp add: st_def default_cmd_def q_default_reg_def t)
qed


lemma tableau_to_circuit_identity_1:
  "tableau_to_circuit spec_externals (CliffTableau_identity [Qubit ''a'' [0]]) =
     Inr \<lparr>all_qubits = [Qubit ''a'' [0]],
          commands = [(V, [Qubit ''a'' [0]]), (S, [Qubit ''a'' [0]]),
                      (H, [Qubit ''a'' [0]]), (S, [Qubit ''a'' [0]])]\<rparr>"
  unfolding tableau_to_circuit_def synthesise_identity_1
  by (simp add: rename_units_def rename_unit_def rename_map_of_def CliffTableau_identity_def
      q_default_reg_def)

lemma fold_cx_gates:
  "fold (front_inverse h) (map cx_gate ops) t =
     fold (\<lambda>qbs t. apply_CX_at_front h t (fst qbs) (snd qbs)) ops t"
  by (induction ops arbitrary: t) (simp_all add: cx_gate_def)

lemma traced_emitted:
  "traced h g s s' \<Longrightarrow> emitted (c s') = emitted (c s) @ g \<and> tabl s' = fold (front_inverse h) g (tabl s)"
  by (simp add: traced_def emitted_append)

lemma step1_identity_1:
  assumes "t = CliffTableau_identity [q]"
  shows "step1 h (Suc 0) 0 (zpauli_x t, []) (start t) =
           (None, V_front h 0 (V_front h 0 (V_front h 0 (emit V [0] (start t))))) \<or>
         fst (step1 h (Suc 0) 0 (zpauli_x t, []) (start t)) = Some not_independent"
proof -
  let ?s1 = "V_front h 0 (V_front h 0 (V_front h 0 (emit V [0] (start t))))"
  have zx: "zpauli_x t = [[False]]"
    by (simp add: assms CliffTableau_identity_def zero_matrix_def)
  have r1: "reduce_col (Suc 0) 0 0 ([[False]], []) = ([[False]], [])"
    by (simp add: reduce_col.simps)
  obtain e3 l3 where r3:
    "reduce_col (Suc 0) 0 0 (assign_col (Suc 0) 0 (zpauli_z (tabl ?s1)) [[False]], []) = (e3, l3)"
    by (cases "reduce_col (Suc 0) 0 0 (assign_col (Suc 0) 0 (zpauli_z (tabl ?s1)) [[False]], [])")
  have stop: "step1 h (Suc 0) (Suc 0) (e3, l3) ?s1 = (None, ?s1)"
    by (simp add: step1.simps)
  have "step1 h (Suc 0) 0 ([[False]], []) (start t) =
          (if length l3 = 0 then (Some not_independent, ?s1) else (None, ?s1))"
    by (subst step1.simps) (simp add: r1 r3 stop Let_def)
  then show ?thesis unfolding zx by (cases "length l3 = 0") simp_all
qed


section \<open>The delayed steps\<close>

lemma tabl_z_fix:
  "tabl (z_fix h i s) =
     (if xpauli_phase (tabl s) ! i then apply_S_at_front h (apply_S_at_front h (tabl s) i) i
      else tabl s)"
  by (simp add: z_fix_def S_front_def emit_def)

lemma tabl_x_fix:
  "tabl (x_fix h i s) =
     (if zpauli_phase (tabl s) ! i then apply_V_at_front h (apply_V_at_front h (tabl s) i) i
      else tabl s)"
  by (simp add: x_fix_def V_front_def emit_def)

lemma delayed_from:
  assumes fr: "pauli_front_frame h n"
  shows "k \<le> n \<Longrightarrow> identity_blocks n (tabl s) \<Longrightarrow>
     (\<forall>j. k \<le> j \<and> j < n \<longrightarrow> xpauli_phase (tabl s) ! j = xp ! j \<and> zpauli_phase (tabl s) ! j = zp ! j) \<Longrightarrow>
     traced h (concat (map (phase_fixes xp zp) [k..<n])) s
       (fold (\<lambda>i s. x_fix h i (z_fix h i s)) [k..<n] s)"
proof (induction "n - k" arbitrary: k s)
  case 0
  then show ?case by (simp add: traced_refl)
next
  case (Suc d)
  then have kn: "k < n" by simp
  let ?t = "tabl s"
  let ?sz = "z_fix h k s"
  let ?sx = "x_fix h k ?sz"
  have frk: "identity_blocks n t \<Longrightarrow>
      identity_blocks n (apply_S_at_front h (apply_S_at_front h t k) k) \<and>
      zpauli_phase (apply_S_at_front h (apply_S_at_front h t k) k) ! k = zpauli_phase t ! k \<and>
      later_phases_kept n k t (apply_S_at_front h (apply_S_at_front h t k) k) \<and>
      identity_blocks n (apply_V_at_front h (apply_V_at_front h t k) k) \<and>
      later_phases_kept n k t (apply_V_at_front h (apply_V_at_front h t k) k)" for t
    using fr kn unfolding pauli_front_frame_def by blast
  have z1: "identity_blocks n (tabl ?sz)"
    using frk[OF Suc.prems(2)] Suc.prems(2) by (simp add: tabl_z_fix)
  have z2: "zpauli_phase (tabl ?sz) ! k = zpauli_phase ?t ! k"
    using frk[OF Suc.prems(2)] by (simp add: tabl_z_fix)
  have z3: "later_phases_kept n k ?t (tabl ?sz)"
    using frk[OF Suc.prems(2)] by (simp add: tabl_z_fix later_phases_kept_def)
  have x1: "identity_blocks n (tabl ?sx)"
    using frk[OF z1] z1 by (simp add: tabl_x_fix)
  have x3: "later_phases_kept n k (tabl ?sz) (tabl ?sx)"
    using frk[OF z1] by (simp add: tabl_x_fix later_phases_kept_def)
  have later: "\<forall>j. Suc k \<le> j \<and> j < n \<longrightarrow>
      xpauli_phase (tabl ?sx) ! j = xp ! j \<and> zpauli_phase (tabl ?sx) ! j = zp ! j"
    using z3 x3 Suc.prems(3) by (auto simp: later_phases_kept_def)
  have here: "xpauli_phase ?t ! k = xp ! k" "zpauli_phase (tabl ?sz) ! k = zp ! k"
    using Suc.prems(3) kn z2 by auto
  have g: "traced h (phase_fixes xp zp k) s ?sx"
    using traced_trans[OF traced_z_fix[of h s k] traced_x_fix[of h ?sz k]] here
    by (simp add: phase_fixes_def)
  have rest: "traced h (concat (map (phase_fixes xp zp) [Suc k..<n])) ?sx
      (fold (\<lambda>i s. x_fix h i (z_fix h i s)) [Suc k..<n] ?sx)"
    using Suc.hyps(1)[of "Suc k" ?sx] Suc.hyps(2) kn x1 later by simp
  show ?case using traced_trans[OF g rest] kn by (simp add: upt_conv_Cons)
qed

lemma length_2_cases: "length xs = 2 \<Longrightarrow> \<exists>a b. xs = [a, b]"
  by (cases xs; cases "tl xs") auto

lemma spec_front_frame_2: "pauli_front_frame spec_externals 2"
  unfolding pauli_front_frame_def
proof (intro allI impI)
  fix t :: CliffTableau and i :: nat
  assume a: "i < 2 \<and> identity_blocks 2 t"
  then obtain xa xb za zb where ph: "xpauli_phase t = [xa, xb]" "zpauli_phase t = [za, zb]"
    using length_2_cases unfolding identity_blocks_def by blast
  have m: "xpauli_x t = [[True, False], [False, True]]" "xpauli_z t = [[False, False], [False, False]]"
    "zpauli_x t = [[False, False], [False, False]]" "zpauli_z t = [[True, False], [False, True]]"
    using a by (simp_all add: identity_blocks_def identity_matrix_def zero_matrix_def numeral_2_eq_2)
  have i: "i = 0 \<or> i = 1" using a by auto
  have id2: "identity_matrix (Suc (Suc 0)) = [[True, False], [False, True]]"
    "zero_matrix (Suc (Suc 0)) = [[False, False], [False, False]]"
    by (simp_all add: identity_matrix_def zero_matrix_def)
  show "identity_blocks 2 (apply_S_at_front spec_externals (apply_S_at_front spec_externals t i) i) \<and>
        zpauli_phase (apply_S_at_front spec_externals (apply_S_at_front spec_externals t i) i) ! i = zpauli_phase t ! i \<and>
        later_phases_kept 2 i t (apply_S_at_front spec_externals (apply_S_at_front spec_externals t i) i) \<and>
        identity_blocks 2 (apply_V_at_front spec_externals (apply_V_at_front spec_externals t i) i) \<and>
        later_phases_kept 2 i t (apply_V_at_front spec_externals (apply_V_at_front spec_externals t i) i)"
    using i
  proof
    assume "i = 0"
    then show ?thesis
      by (simp add: spec_front_eval identity_blocks_def later_phases_kept_def id2 m ph Let_def
          less_Suc_eq numeral_2_eq_2)
  next
    assume "i = 1"
    then show ?thesis
      by (simp add: spec_front_eval identity_blocks_def later_phases_kept_def id2 m ph Let_def
          less_Suc_eq numeral_2_eq_2)
  qed
qed

section \<open>The builder's loop\<close>

lemma resolve_args_known:
  "set args \<subseteq> fst ` set m \<Longrightarrow> resolve_args m args = Inr (indices_of m args)"
proof (induction args)
  case Nil
  show ?case by (simp add: indices_of_def)
next
  case (Cons qb args)
  then obtain i where "map_of m qb = Some i"
    by (cases "map_of m qb") (auto simp: map_of_eq_None_iff)
  then show ?case using Cons by (simp add: indices_of_def)
qed

lemma resolve_args_unknown:
  "\<not> set args \<subseteq> fst ` set m \<Longrightarrow> resolve_args m args = Inl out_of_range"
proof (induction args)
  case Nil
  then show ?case by simp
next
  case (Cons qb args)
  show ?case
  proof (cases "map_of m qb")
    case None
    then show ?thesis by simp
  next
    case (Some i)
    then have "(qb, i) \<in> set m" by (rule map_of_SomeD)
    then have "qb \<in> fst ` set m" by force
    then have "\<not> set args \<subseteq> fst ` set m" using Cons.prems by auto
    then show ?thesis using Cons.IH Some by simp
  qed
qed

lemma apply_commands_failure_kind:
  assumes "qubit_map_kept h" "fails_as_unsupported h"
  shows "tab_qubits t = m \<Longrightarrow>
         \<exists>com\<in>set coms. \<not> set (snd com) \<subseteq> fst ` set m \<or> unsupported h (fst com) \<Longrightarrow>
         apply_commands h t coms = Inl out_of_range \<or> apply_commands h t coms = Inl NotValid"
proof (induction coms arbitrary: t)
  case Nil
  then show ?case by simp
next
  case (Cons com coms)
  show ?case
  proof (cases "set (snd com) \<subseteq> fst ` set m")
    case False
    then show ?thesis using Cons.prems(1) by (simp add: resolve_args_unknown)
  next
    case True
    show ?thesis
    proof (cases "apply_gate_at_end h t (fst com) (indices_of m (snd com))")
      case (Inl e)
      then have "e = NotValid" using assms(2) unfolding fails_as_unsupported_def by blast
      then show ?thesis using Inl True Cons.prems(1) by (simp add: resolve_args_known)
    next
      case (Inr t')
      have "\<not> unsupported h (fst com)"
      proof
        assume "unsupported h (fst com)"
        then obtain e where "apply_gate_at_end h t (fst com) (indices_of m (snd com)) = Inl e"
          unfolding unsupported_def by blast
        then show False using Inr by simp
      qed
      then have later: "\<exists>com\<in>set coms. \<not> set (snd com) \<subseteq> fst ` set m \<or> unsupported h (fst com)"
        using Cons.prems(2) True by auto
      have "tab_qubits t' = m" using assms(1) Inr Cons.prems(1) unfolding qubit_map_kept_def by blast
      then show ?thesis using Cons.IH[OF _ later] Inr True Cons.prems(1)
        by (simp add: resolve_args_known)
    qed
  qed
qed

lemma apply_commands_unknown_operand:
  assumes "qubit_map_kept h"
  shows "tab_qubits t = m \<Longrightarrow> \<exists>com\<in>set coms. \<not> set (snd com) \<subseteq> fst ` set m \<Longrightarrow>
         \<forall>com\<in>set coms. set (snd com) \<subseteq> fst ` set m \<longrightarrow> accepted h m com \<Longrightarrow>
         apply_commands h t coms = Inl out_of_range"
proof (induction coms arbitrary: t)
  case Nil
  then show ?case by simp
next
  case (Cons com coms)
  show ?case
  proof (cases "set (snd com) \<subseteq> fst ` set m")
    case False
    then show ?thesis using Cons.prems(1) by (simp add: resolve_args_unknown)
  next
    case True
    then have later: "\<exists>com\<in>set coms. \<not> set (snd com) \<subseteq> fst ` set m" using Cons.prems(2) by auto
    have "accepted h m com" using Cons.prems(3) True by simp
    then obtain t' where t': "apply_gate_at_end h t (fst com) (indices_of m (snd com)) = Inr t'"
      unfolding accepted_def by blast
    then have "tab_qubits t' = m" using assms Cons.prems(1) unfolding qubit_map_kept_def by blast
    then have "apply_commands h t' coms = Inl out_of_range"
      using Cons.IH[OF _ later] Cons.prems(3) by simp
    then show ?thesis using t' True Cons.prems(1) by (simp add: resolve_args_known)
  qed
qed

lemma apply_commands_unsupported_kind:
  assumes "qubit_map_kept h" "fails_as_unsupported h"
  shows "tab_qubits t = m \<Longrightarrow> \<forall>com\<in>set coms. set (snd com) \<subseteq> fst ` set m \<Longrightarrow>
         \<exists>com\<in>set coms. unsupported h (fst com) \<Longrightarrow>
         apply_commands h t coms = Inl NotValid"
proof (induction coms arbitrary: t)
  case Nil
  then show ?case by simp
next
  case (Cons com coms)
  have k: "set (snd com) \<subseteq> fst ` set m" using Cons.prems(2) by simp
  show ?case
  proof (cases "apply_gate_at_end h t (fst com) (indices_of m (snd com))")
    case (Inl e)
    then have "e = NotValid" using assms(2) unfolding fails_as_unsupported_def by blast
    then show ?thesis using Inl k Cons.prems(1) by (simp add: resolve_args_known)
  next
    case (Inr t')
    have "\<not> unsupported h (fst com)"
    proof
      assume "unsupported h (fst com)"
      then obtain e where "apply_gate_at_end h t (fst com) (indices_of m (snd com)) = Inl e"
        unfolding unsupported_def by blast
      then show False using Inr by simp
    qed
    then have later: "\<exists>com\<in>set coms. unsupported h (fst com)" using Cons.prems(3) by auto
    have "tab_qubits t' = m" using assms(1) Inr Cons.prems(1) unfolding qubit_map_kept_def by blast
    then have "apply_commands h t' coms = Inl NotValid"
      using Cons.IH[OF _ _ later] Cons.prems(2) by simp
    then show ?thesis using Inr k Cons.prems(1) by (simp add: resolve_args_known)
  qed
qed

lemma apply_commands_accepted:
  assumes "qubit_map_kept h"
  shows "tab_qubits t = m \<Longrightarrow>
         \<forall>com\<in>set coms. set (snd com) \<subseteq> fst ` set m \<and> accepted h m com \<Longrightarrow>
         apply_commands h t coms = Inr (fold (end_apply h m) coms t)"
proof (induction coms arbitrary: t)
  case Nil
  then show ?case by simp
next
  case (Cons com coms)
  then have k: "set (snd com) \<subseteq> fst ` set m" and a: "accepted h m com" by auto
  obtain t' where t': "apply_gate_at_end h t (fst com) (indices_of m (snd com)) = Inr t'"
    using a unfolding accepted_def by blast
  then have "tab_qubits t' = m" using assms Cons.prems(1) unfolding qubit_map_kept_def by blast
  then have "apply_commands h t' coms = Inr (fold (end_apply h m) coms t')"
    using Cons.IH Cons.prems(2) by simp
  moreover have "end_apply h m com t = t'" by (simp add: end_apply_def t')
  ultimately show ?case using k t' Cons.prems(1) by (simp add: resolve_args_known)
qed

lemma identity_known_qubits: "fst ` set (tab_qubits (CliffTableau_identity qbs)) = set qbs"
proof -
  have "map fst (zip qbs [0..<length qbs]) = qbs" by simp
  then have "fst ` set (zip qbs [0..<length qbs]) = set qbs" by (metis set_map)
  then show ?thesis by (simp add: CliffTableau_identity_def Let_def)
qed

lemma spec_fails_as_unsupported: "fails_as_unsupported spec_externals"
  by (auto simp: fails_as_unsupported_def spec_externals_def spec_apply_gate_at_end_def
      split: if_splits)

lemma spec_qubit_map_kept: "qubit_map_kept spec_externals"
  by (auto simp: qubit_map_kept_def spec_externals_def spec_apply_gate_at_end_def set_xrow_def
      set_zrow_def case_prod_beta split: if_splits)

section \<open>The two-qubit identity tableau, evaluated, and the renaming map\<close>

lemma synthesise_identity_2:
  "synthesise spec_externals (CliffTableau_identity [Qubit ''a'' [0], Qubit ''b'' [0]]) =
     (None,
      \<lparr>tab = CliffTableau_identity [Qubit ''a'' [0], Qubit ''b'' [0]],
       tabl = CliffTableau_identity [Qubit ''a'' [0], Qubit ''b'' [0]],
       c = \<lparr>all_qubits = [Qubit ''q'' [0], Qubit ''q'' [1]],
            commands = [(V, [Qubit ''q'' [0]]), (V, [Qubit ''q'' [1]]), (S, [Qubit ''q'' [0]]), (S, [Qubit ''q'' [1]]), (H, [Qubit ''q'' [0]]), (H, [Qubit ''q'' [1]]), (S, [Qubit ''q'' [0]]), (S, [Qubit ''q'' [1]])]\<rparr>\<rparr>)"
proof -
  define t where "t = CliffTableau_identity [Qubit ''a'' [0], Qubit ''b'' [0]]"
  define st where "st = (\<lambda>xx xz xp zx zz zp g.
    \<lparr>tab = t,
     tabl = \<lparr>tab_size = 2, xpauli_x = xx, xpauli_z = xz, xpauli_phase = xp,
             zpauli_x = zx, zpauli_z = zz, zpauli_phase = zp,
             tab_qubits = [(Qubit ''a'' [0], 0), (Qubit ''b'' [0], 1)]\<rparr>,
     c = \<lparr>all_qubits = [Qubit ''q'' [0], Qubit ''q'' [1]], commands = map default_cmd g\<rparr>\<rparr>)"
  let ?h = spec_externals
  have t: "t = \<lparr>tab_size = 2, xpauli_x = [[True, False], [False, True]],
             xpauli_z = [[False, False], [False, False]], xpauli_phase = [False, False],
             zpauli_x = [[False, False], [False, False]],
             zpauli_z = [[True, False], [False, True]], zpauli_phase = [False, False],
             tab_qubits = [(Qubit ''a'' [0], 0), (Qubit ''b'' [0], 1)]\<rparr>"
    by (simp add: t_def CliffTableau_identity_def identity_matrix_def zero_matrix_def numeral_2_eq_2)
  have s0: "start t = st [[True, False], [False, True]] [[False, False], [False, False]]
      [False, False] [[False, False], [False, False]] [[True, False], [False, True]]
      [False, False] []"
    by (simp add: start_def st_def t Circuit_n_def q_default_reg_def numeral_2_eq_2)
  define a1 where "a1 = step1 ?h 2 0 (zpauli_x t, []) (start t)"
  have v1: "a1 = (None, st ([[True, False], [False, True]]) ([[False, False], [False, False]]) ([False, False]) ([[True, False], [False, True]]) ([[True, False], [False, True]]) ([False, False]) ([(V, [0]), (V, [1])]))"
    unfolding a1_def s0 unfolding t
    by (simp add: step1.simps reduce_col.simps xor_col_def assign_col_def synth_op_eval
        spec_front_eval st_def default_cmd_def Let_def numeral_2_eq_2)
  define s1 where "s1 = st ([[True, False], [False, True]]) ([[False, False], [False, False]]) ([False, False]) ([[True, False], [False, True]]) ([[True, False], [False, True]]) ([False, False]) ([(V, [0]), (V, [1])])"
  define a2 where "a2 = step2 ?h s1"
  have v2: "a2 = st ([[True, False], [False, True]]) ([[False, False], [False, False]]) ([False, False]) ([[True, False], [False, True]]) ([[True, False], [False, True]]) ([False, False]) ([(V, [0]), (V, [1])])"
    by (simp add: a2_def s1_def step2_def synth_op_eval spec_matrix_eval st_def)
  define zl where "zl = binary_LLT_decomposition ?h (zpauli_z (tabl a2))"
  have vzl: "zl = ([[True, False], [False, True]], [[False, False], [False, False]])"
    by (simp add: zl_def v2 st_def spec_matrix_eval numeral_2_eq_2)
  define a3 where "a3 = step3 ?h 2 zl a2"
  have v3: "a3 = st ([[True, False], [False, True]]) ([[False, False], [False, False]]) ([False, False]) ([[True, False], [False, True]]) ([[True, False], [False, True]]) ([False, False]) ([(V, [0]), (V, [1])])"
    by (simp add: a3_def v2 vzl step3_def numeral_2_eq_2)
  define a4 where "a4 = step4 ?h zl a3"
  have v4: "a4 = st ([[True, False], [False, True]]) ([[False, False], [False, False]]) ([False, False]) ([[True, False], [False, True]]) ([[True, False], [False, True]]) ([False, False]) ([(V, [0]), (V, [1])])"
    by (simp add: a4_def v3 vzl step4_def synth_op_eval spec_matrix_eval st_def)
  define a5 where "a5 = step5 ?h 2 a4"
  have v5: "a5 = st ([[True, False], [False, True]]) ([[True, False], [False, True]]) ([True, True]) ([[True, False], [False, True]]) ([[False, False], [False, False]]) ([False, False]) ([(V, [0]), (V, [1]), (S, [0]), (S, [1])])"
    by (simp add: a5_def v4 step5_def synth_op_eval spec_front_eval st_def default_cmd_def numeral_2_eq_2)
  define a6 where "a6 = step6 ?h a5"
  have v6: "a6 = st ([[True, False], [False, True]]) ([[True, False], [False, True]]) ([True, True]) ([[True, False], [False, True]]) ([[False, False], [False, False]]) ([False, False]) ([(V, [0]), (V, [1]), (S, [0]), (S, [1])])"
    by (simp add: a6_def v5 step6_def synth_op_eval spec_matrix_eval st_def numeral_2_eq_2)
  define a7 where "a7 = step7 ?h 2 a6"
  have v7: "a7 = st ([[True, False], [False, True]]) ([[True, False], [False, True]]) ([False, False]) ([[False, False], [False, False]]) ([[True, False], [False, True]]) ([False, False]) ([(V, [0]), (V, [1]), (S, [0]), (S, [1]), (H, [0]), (H, [1])])"
    by (simp add: a7_def v6 step7_def synth_op_eval spec_front_eval st_def default_cmd_def numeral_2_eq_2)
  define xl where "xl = binary_LLT_decomposition ?h (xpauli_z (tabl a7))"
  have vxl: "xl = ([[True, False], [False, True]], [[False, False], [False, False]])"
    by (simp add: xl_def v7 st_def spec_matrix_eval numeral_2_eq_2)
  define a8 where "a8 = step8 ?h 2 xl a7"
  have v8: "a8 = st ([[True, False], [False, True]]) ([[True, False], [False, True]]) ([False, False]) ([[False, False], [False, False]]) ([[True, False], [False, True]]) ([False, False]) ([(V, [0]), (V, [1]), (S, [0]), (S, [1]), (H, [0]), (H, [1])])"
    by (simp add: a8_def v7 vxl step8_def numeral_2_eq_2)
  define a9 where "a9 = step9 ?h xl a8"
  have v9: "a9 = st ([[True, False], [False, True]]) ([[True, False], [False, True]]) ([False, False]) ([[False, False], [False, False]]) ([[True, False], [False, True]]) ([False, False]) ([(V, [0]), (V, [1]), (S, [0]), (S, [1]), (H, [0]), (H, [1])])"
    by (simp add: a9_def v8 vxl step9_def synth_op_eval spec_matrix_eval st_def)
  define a10 where "a10 = step10 ?h 2 a9"
  have v10: "a10 = st ([[True, False], [False, True]]) ([[False, False], [False, False]]) ([False, False]) ([[False, False], [False, False]]) ([[True, False], [False, True]]) ([False, False]) ([(V, [0]), (V, [1]), (S, [0]), (S, [1]), (H, [0]), (H, [1]), (S, [0]), (S, [1])])"
    by (simp add: a10_def v9 step10_def synth_op_eval spec_front_eval st_def default_cmd_def numeral_2_eq_2)
  define a11 where "a11 = step11 ?h a10"
  have v11: "a11 = st ([[True, False], [False, True]]) ([[False, False], [False, False]]) ([False, False]) ([[False, False], [False, False]]) ([[True, False], [False, True]]) ([False, False]) ([(V, [0]), (V, [1]), (S, [0]), (S, [1]), (H, [0]), (H, [1]), (S, [0]), (S, [1])])"
    by (simp add: a11_def v10 step11_def synth_op_eval spec_matrix_eval st_def numeral_2_eq_2)
  define a12 where "a12 = delayed_steps ?h 2 a11"
  have v12: "a12 = st ([[True, False], [False, True]]) ([[False, False], [False, False]]) ([False, False]) ([[False, False], [False, False]]) ([[True, False], [False, True]]) ([False, False]) ([(V, [0]), (V, [1]), (S, [0]), (S, [1]), (H, [0]), (H, [1]), (S, [0]), (S, [1])])"
    by (simp add: a12_def v11 delayed_steps_def synth_op_eval st_def numeral_2_eq_2)
  have chain: "steps_2_to_end ?h 2 s1 = a12"
    unfolding steps_2_to_end_def steps_2_to_11_def Let_def a12_def a11_def a10_def a9_def a8_def xl_def a7_def
      a6_def a5_def a4_def a3_def zl_def a2_def ..
  have "synthesise ?h t = (None, a12)"
    using v1 chain by (simp add: synthesise_def Let_def a1_def s1_def start_def t)
  then show ?thesis
    unfolding v12 t_def[symmetric] by (simp add: st_def default_cmd_def q_default_reg_def t)
qed


lemma rename_map_of_fold:
  "fold (\<lambda>(l, r) m. if m (Qubit q_default_reg [r]) = None
                     then m(Qubit q_default_reg [r] \<mapsto> l) else m) qs m0 =
   map_of (map (\<lambda>(l, r). (Qubit q_default_reg [r], l)) qs) ++ m0"
proof (induction qs arbitrary: m0)
  case Nil
  show ?case by simp
next
  case (Cons a qs)
  obtain l r where a: "a = (l, r)" by (cases a)
  show ?case
    unfolding a by (simp add: Cons.IH) (auto simp: fun_eq_iff map_add_def split: option.splits)
qed

lemma rename_map_of_map_of:
  "rename_map_of qs = map_of (map (\<lambda>(l, r). (Qubit q_default_reg [r], l)) qs)"
  by (simp add: rename_map_of_def rename_map_of_fold)

lemma rename_map_of_order:
  assumes "set qs = set qs'" "distinct (map snd qs)" "distinct (map snd qs')"
  shows "rename_map_of qs = rename_map_of qs'"
proof -
  let ?f = "\<lambda>(l, r). (Qubit q_default_reg [r], l :: Qubit)"
  have inj: "inj (\<lambda>r. Qubit q_default_reg [r])" by (simp add: inj_def)
  have k: "map fst (map ?f zs) = map (\<lambda>r. Qubit q_default_reg [r]) (map snd zs)" for zs
    by (simp add: case_prod_beta)
  have "distinct (map fst (map ?f qs))" "distinct (map fst (map ?f qs'))"
    unfolding k using assms(2,3) inj by (simp_all add: distinct_map inj_on_def inj_def)
  moreover have "set (map ?f qs) = set (map ?f qs')" using assms(1) by simp
  ultimately have "map_of (map ?f qs) = map_of (map ?f qs')"
    by (simp add: map_of_inject_set)
  then show ?thesis by (simp add: rename_map_of_map_of)
qed

section \<open>Step 1 on dependent stabilizer rows\<close>

lemma fold_xor: "fold (\<noteq>) bs b = (xor_sum bs \<noteq> b)"
proof (induction bs arbitrary: b)
  case Nil
  show ?case by (simp add: xor_sum_def)
next
  case (Cons x bs)
  have "xor_sum (x # bs) = (xor_sum bs \<noteq> x)"
    using Cons.IH[of "x \<noteq> False"] by (simp add: xor_sum_def)
  then show ?case using Cons.IH[of "x \<noteq> b"] by auto
qed

lemma xor_sum_Nil: "xor_sum [] = False"
  by (simp add: xor_sum_def)

lemma xor_sum_Cons: "xor_sum (x # bs) = (x \<noteq> xor_sum bs)"
  using fold_xor[of bs "x \<noteq> False"] by (auto simp: xor_sum_def)

lemma xor_sum_append: "xor_sum (xs @ ys) = (xor_sum xs \<noteq> xor_sum ys)"
  by (induction xs) (auto simp: xor_sum_Nil xor_sum_Cons)

lemma xor_sum_map_xor:
  "xor_sum (map (\<lambda>r. f r \<noteq> g r) xs) = (xor_sum (map f xs) \<noteq> xor_sum (map g xs))"
  by (induction xs) (auto simp: xor_sum_Nil xor_sum_Cons)

lemma xor_sum_none: "\<forall>x\<in>set xs. \<not> f x \<Longrightarrow> \<not> xor_sum (map f xs)"
  by (induction xs) (auto simp: xor_sum_Nil xor_sum_Cons)

lemma xor_sum_single:
  assumes "m < n" "\<forall>r<n. f r \<longleftrightarrow> r = m"
  shows "xor_sum (map f [0..<n])"
proof -
  have split: "[0..<n] = [0..<m] @ m # [Suc m..<n]"
    using assms(1) by (metis le_add2 le_add_same_cancel2 less_imp_add_positive upt_add_eq_append upt_conv_Cons)
  have a: "\<not> xor_sum (map f [0..<m])" using assms by (intro xor_sum_none) auto
  have b: "\<not> xor_sum (map f [Suc m..<n])" using assms by (intro xor_sum_none) auto
  have "f m" using assms by simp
  then show ?thesis unfolding split using a b by (simp add: xor_sum_append xor_sum_Cons)
qed

lemma fold_rows_length:
  "length (fold (\<lambda>k E. E[k := g k (E ! k)]) ks E) = length E"
  by (induction ks arbitrary: E) simp_all

lemma fold_rows_all:
  "m \<le> length E \<Longrightarrow>
   \<forall>r<length E. fold (\<lambda>k E. E[k := g k (E ! k)]) [0..<m] E ! r = (if r < m then g r (E ! r) else E ! r)"
proof (induction m)
  case 0
  show ?case by simp
next
  case (Suc m)
  let ?F = "fold (\<lambda>k E. E[k := g k (E ! k)]) [0..<m] E"
  have len: "length ?F = length E" by (rule fold_rows_length)
  have ih: "\<forall>r<length E. ?F ! r = (if r < m then g r (E ! r) else E ! r)"
    using Suc by simp
  have m: "m < length E" using Suc.prems by simp
  have Fm: "?F ! m = E ! m" using ih m by simp
  have step: "fold (\<lambda>k E. E[k := g k (E ! k)]) [0..<Suc m] E = ?F[m := g m (E ! m)]"
    by (simp add: Fm)
  show ?case
  proof (intro allI impI)
    fix r assume r: "r < length E"
    show "fold (\<lambda>k E. E[k := g k (E ! k)]) [0..<Suc m] E ! r =
            (if r < Suc m then g r (E ! r) else E ! r)"
    proof (cases "r = m")
      case True
      then show ?thesis unfolding step using m len by simp
    next
      case False
      then show ?thesis unfolding step using ih r by (simp add: less_Suc_eq)
    qed
  qed
qed

lemma fold_rows_nth:
  "m \<le> length E \<Longrightarrow> r < length E \<Longrightarrow>
   fold (\<lambda>k E. E[k := g k (E ! k)]) [0..<m] E ! r = (if r < m then g r (E ! r) else E ! r)"
  using fold_rows_all[of m E g] by blast

lemma xor_col_rows:
  assumes "length E = n"
  shows "length (xor_col n i l E) = n"
    and "r < n \<Longrightarrow> xor_col n i l E ! r = (E ! r)[i := (E ! r ! i \<noteq> E ! r ! l)]"
proof -
  let ?g = "\<lambda>(k::nat) (row::bool list). row[i := (row ! i \<noteq> row ! l)]"
  have eq: "xor_col n i l E = fold (\<lambda>k E. E[k := ?g k (E ! k)]) [0..<n] E"
    by (simp add: xor_col_def)
  show "length (xor_col n i l E) = n"
    unfolding eq using fold_rows_length[of ?g "[0..<n]" E] assms by simp
  show "xor_col n i l E ! r = (E ! r)[i := (E ! r ! i \<noteq> E ! r ! l)]" if "r < n"
    unfolding eq using fold_rows_nth[of n E r ?g] assms that by simp
qed

lemma assign_col_rows:
  assumes "length E = n"
  shows "length (assign_col n i m E) = n"
    and "r < n \<Longrightarrow> assign_col n i m E ! r = (E ! r)[i := m ! r ! i]"
proof -
  let ?g = "\<lambda>(k::nat) (row::bool list). row[i := m ! k ! i]"
  have eq: "assign_col n i m E = fold (\<lambda>k E. E[k := ?g k (E ! k)]) [0..<n] E"
    by (simp add: assign_col_def)
  show "length (assign_col n i m E) = n"
    unfolding eq using fold_rows_length[of ?g "[0..<n]" E] assms by simp
  show "assign_col n i m E ! r = (E ! r)[i := m ! r ! i]" if "r < n"
    unfolding eq using fold_rows_nth[of n E r ?g] assms that by simp
qed

lemma mat_ok_row: "mat_ok n E \<Longrightarrow> r < n \<Longrightarrow> length (E ! r) = n"
  by (simp add: mat_ok_def)

lemma mat_okI: "length E = n \<Longrightarrow> (\<And>r. r < n \<Longrightarrow> length (E ! r) = n) \<Longrightarrow> mat_ok n E"
  by (auto simp: mat_ok_def in_set_conv_nth)

lemma xor_col_ok: "mat_ok n E \<Longrightarrow> mat_ok n (xor_col n i l E)"
  by (rule mat_okI) (simp_all add: xor_col_rows mat_ok_row mat_ok_def)

lemma xor_col_nth:
  "mat_ok n E \<Longrightarrow> i < n \<Longrightarrow> r < n \<Longrightarrow> k < n \<Longrightarrow>
   xor_col n i l E ! r ! k = (if k = i then E ! r ! i \<noteq> E ! r ! l else E ! r ! k)"
  unfolding mat_ok_def by (simp add: xor_col_rows)

lemma assign_col_ok: "mat_ok n E \<Longrightarrow> mat_ok n (assign_col n i m E)"
  by (rule mat_okI) (simp_all add: assign_col_rows mat_ok_row mat_ok_def)

lemma assign_col_nth:
  "mat_ok n E \<Longrightarrow> i < n \<Longrightarrow> r < n \<Longrightarrow> k < n \<Longrightarrow>
   assign_col n i m E ! r ! k = (if k = i then m ! r ! i else E ! r ! k)"
  unfolding mat_ok_def by (simp add: assign_col_rows)

lemma col_parity_cong:
  "(\<And>r. r < n \<Longrightarrow> m ! r ! k = m' ! r ! k') \<Longrightarrow> col_parity n sel m k = col_parity n sel m' k'"
  unfolding col_parity_def by (rule arg_cong[where f = xor_sum]) simp

lemma col_parity_xor:
  assumes "\<And>r. r < n \<Longrightarrow> m' ! r ! k = (a ! r ! i \<noteq> b ! r ! l)"
  shows "col_parity n sel m' k = (col_parity n sel a i \<noteq> col_parity n sel b l)"
proof -
  have "map (\<lambda>r. sel ! r \<and> m' ! r ! k) [0..<n] =
        map (\<lambda>r. (sel ! r \<and> a ! r ! i) \<noteq> (sel ! r \<and> b ! r ! l)) [0..<n]"
    using assms by auto
  then show ?thesis unfolding col_parity_def by (simp only: xor_sum_map_xor)
qed

lemma orth_xor_col:
  assumes "mat_ok n E" "i < n" "l < n" "orth n sel E"
  shows "orth n sel (xor_col n i l E)"
  unfolding orth_def
proof (intro allI impI)
  fix k assume k: "k < n"
  show "\<not> col_parity n sel (xor_col n i l E) k"
  proof (cases "k = i")
    case True
    have "col_parity n sel (xor_col n i l E) k = (col_parity n sel E i \<noteq> col_parity n sel E l)"
      by (rule col_parity_xor) (simp add: xor_col_nth assms True)
    then show ?thesis using assms by (simp add: orth_def)
  next
    case False
    have "col_parity n sel (xor_col n i l E) k = col_parity n sel E k"
      by (rule col_parity_cong) (simp add: xor_col_nth assms k False)
    then show ?thesis using assms k by (simp add: orth_def)
  qed
qed

lemma orth_assign_col:
  assumes "mat_ok n E" "i < n" "orth n sel E" "orth n sel m"
  shows "orth n sel (assign_col n i m E)"
  unfolding orth_def
proof (intro allI impI)
  fix k assume k: "k < n"
  show "\<not> col_parity n sel (assign_col n i m E) k"
  proof (cases "k = i")
    case True
    have "col_parity n sel (assign_col n i m E) k = col_parity n sel m i"
      by (rule col_parity_cong) (simp add: assign_col_nth assms True)
    then show ?thesis using assms by (simp add: orth_def)
  next
    case False
    have "col_parity n sel (assign_col n i m E) k = col_parity n sel E k"
      by (rule col_parity_cong) (simp add: assign_col_nth assms k False)
    then show ?thesis using assms k by (simp add: orth_def)
  qed
qed


lemma pivots_ok_cong:
  assumes "pivots_ok n i M lv" "\<And>r k. r < n \<Longrightarrow> k < i \<Longrightarrow> M' ! r ! k = M ! r ! k"
  shows "pivots_ok n i M' lv"
  unfolding pivots_ok_def
proof (intro conjI ballI)
  show "distinct (map fst lv)" using assms(1) by (simp add: pivots_ok_def)
next
  fix p assume p: "p \<in> set lv"
  obtain j l where jl: "p = (j, l)" by (cases p)
  have o: "j < n" "l < i" "M ! j ! l" "\<forall>j'<j. \<not> M ! j' ! l"
    using assms(1) p jl unfolding pivots_ok_def by auto
  have "M' ! j ! l" using o assms(2) by simp
  moreover have "\<forall>j'<j. \<not> M' ! j' ! l" using o assms(2) by simp
  ultimately show "case p of (j, l) \<Rightarrow> j < n \<and> l < i \<and> M' ! j ! l \<and> (\<forall>j'<j. \<not> M' ! j' ! l)"
    using o jl by simp
qed

lemma pivots_ok_mono: "pivots_ok n i M lv \<Longrightarrow> pivots_ok n (Suc i) M lv"
  unfolding pivots_ok_def by fastforce

lemma pivots_ok_add:
  assumes "pivots_ok n i M lv" "map_of lv j = None" "j < n" "M ! j ! i" "\<forall>j'<j. \<not> M ! j' ! i"
  shows "pivots_ok n (Suc i) M (lv @ [(j, i)])"
proof -
  have "j \<notin> fst ` set lv" using assms(2) by (simp add: map_of_eq_None_iff)
  then have "distinct (map fst (lv @ [(j, i)]))" using assms(1) by (simp add: pivots_ok_def)
  moreover have "\<forall>(j, l)\<in>set lv. j < n \<and> l < Suc i \<and> M ! j ! l \<and> (\<forall>j'<j. \<not> M ! j' ! l)"
    using pivots_ok_mono[OF assms(1)] by (simp add: pivots_ok_def)
  ultimately show ?thesis using assms(3,4,5) by (simp add: pivots_ok_def)
qed

lemma pivots_ok_entry:
  "pivots_ok n i M lv \<Longrightarrow> map_of lv j = Some l \<Longrightarrow>
   j < n \<and> l < i \<and> M ! j ! l \<and> (\<forall>j'<j. \<not> M ! j' ! l)"
  unfolding pivots_ok_def by (auto dest!: map_of_SomeD)

lemma reduce_col_inv:
  assumes "i < n"
  shows "mat_ok n E \<Longrightarrow> orth n sel E \<Longrightarrow> pivots_ok n i E lv \<Longrightarrow> (\<forall>j'<j. \<not> E ! j' ! i) \<Longrightarrow>
         reduce_col n i j (E, lv) = (E', lv') \<Longrightarrow>
         mat_ok n E' \<and> orth n sel E' \<and>
         ((lv' = lv \<and> pivots_ok n i E' lv) \<or>
          (length lv' = Suc (length lv) \<and> pivots_ok n (Suc i) E' lv'))"
proof (induction "n - j" arbitrary: j E)
  case 0
  then have "reduce_col n i j (E, lv) = (E, lv)" by (simp add: reduce_col.simps)
  then show ?case using 0 by simp
next
  case (Suc d)
  then have jn: "j < n" by simp
  show ?case
  proof (cases "E ! j ! i")
    case False
    then have r: "reduce_col n i (Suc j) (E, lv) = (E', lv')"
      using Suc.prems(5) jn by (simp add: reduce_col.simps[of n i j])
    have z: "\<forall>j'<Suc j. \<not> E ! j' ! i" using Suc.prems(4) False by (simp add: less_Suc_eq)
    show ?thesis using Suc.hyps(1)[of "Suc j" E] Suc.hyps(2) Suc.prems(1,2,3) z r by simp
  next
    case True
    show ?thesis
    proof (cases "map_of lv j")
      case None
      then have "E' = E" "lv' = lv @ [(j, i)]"
        using Suc.prems(5) jn True by (simp_all add: reduce_col.simps[of n i j])
      then show ?thesis
        using Suc.prems(1,2) pivots_ok_add[OF Suc.prems(3) None jn True Suc.prems(4)] by simp
    next
      case (Some l)
      have e: "j < n" "l < i" "E ! j ! l" "\<forall>j'<j. \<not> E ! j' ! l"
        using pivots_ok_entry[OF Suc.prems(3) Some] by simp_all
      let ?E = "xor_col n i l E"
      have r: "reduce_col n i (Suc j) (?E, lv) = (E', lv')"
        using Suc.prems(5) jn True Some by (simp add: reduce_col.simps[of n i j])
      have ln: "l < n" using e(2) assms by simp
      have m: "mat_ok n ?E" by (rule xor_col_ok[OF Suc.prems(1)])
      have o: "orth n sel ?E" by (rule orth_xor_col[OF Suc.prems(1) assms ln Suc.prems(2)])
      have p: "pivots_ok n i ?E lv"
        by (rule pivots_ok_cong[OF Suc.prems(3)]) (use assms Suc.prems(1) in \<open>simp add: xor_col_nth\<close>)
      have z: "\<forall>j'<Suc j. \<not> ?E ! j' ! i"
        using Suc.prems(1,4) assms jn e True by (simp add: xor_col_nth less_Suc_eq)
      show ?thesis using Suc.hyps(1)[of "Suc j" ?E] Suc.hyps(2) m o p z r by simp
    qed
  qed
qed


lemma full_pivots_contradiction:
  assumes p: "pivots_ok n n E lv" and len: "length lv = n" and o: "orth n sel E"
    and r: "r < n" "sel ! r"
  shows False
proof -
  have keys: "set (map fst lv) \<subseteq> {0..<n}" using p unfolding pivots_ok_def by auto
  have "distinct (map fst lv)" using p unfolding pivots_ok_def by simp
  then have "card (set (map fst lv)) = length (map fst lv)" by (rule distinct_card)
  then have "card (set (map fst lv)) = n" using len by simp
  then have all: "set (map fst lv) = {0..<n}"
    using keys by (simp add: card_subset_eq)
  obtain m where m: "m < n \<and> sel ! m" "\<forall>y. y < n \<and> sel ! y \<longrightarrow> y \<le> m"
    using Nat.ex_has_greatest_nat[of "\<lambda>y. y < n \<and> sel ! y" r n] r by auto
  have "m \<in> set (map fst lv)" using all m(1) by simp
  then obtain l where l: "(m, l) \<in> set lv" by auto
  have e: "l < n" "E ! m ! l" "\<forall>j'<m. \<not> E ! j' ! l"
    using p l unfolding pivots_ok_def by auto
  have "\<forall>x<n. (sel ! x \<and> E ! x ! l) \<longleftrightarrow> x = m"
  proof (intro allI impI)
    fix x assume x: "x < n"
    show "(sel ! x \<and> E ! x ! l) \<longleftrightarrow> x = m"
    proof (cases x m rule: linorder_cases)
      case less
      then show ?thesis using e(3) by auto
    next
      case equal
      then show ?thesis using m(1) e(2) by simp
    next
      case greater
      then have "\<not> sel ! x" using m(2) x by auto
      then show ?thesis using greater by simp
    qed
  qed
  then have "col_parity n sel E l"
    unfolding col_parity_def using m(1) by (intro xor_sum_single[of m]) simp_all
  then show False using o e(1) by (simp add: orth_def)
qed

lemma tabl_v_op:
  "tabl (V_front h i (V_front h i (V_front h i (emit V [i] s)))) =
     apply_V_at_front h (apply_V_at_front h (apply_V_at_front h (tabl s) i) i) i"
  by (simp add: V_front_def emit_def)

lemma step1_dependent:
  assumes v: "V_keeps_cancel h n sel" and r: "r < n" "sel ! r"
  shows "i \<le> n \<Longrightarrow> mat_ok n E \<Longrightarrow> orth n sel E \<Longrightarrow> pivots_ok n i E lv \<Longrightarrow> length lv = i \<Longrightarrow>
         stab_ok n (tabl s) \<Longrightarrow> rows_cancel n sel (tabl s) \<Longrightarrow>
         fst (step1 h n i (E, lv) s) = Some not_independent"
proof (induction "n - i" arbitrary: i E lv s)
  case 0
  then have "i = n" by simp
  then show ?case using full_pivots_contradiction[OF _ _ "0.prems"(3) r] "0.prems"(4,5) by blast
next
  case (Suc d)
  then have i: "i < n" by simp
  obtain E1 lv1 where r1: "reduce_col n i 0 (E, lv) = (E1, lv1)"
    by (cases "reduce_col n i 0 (E, lv)")
  have inv1: "mat_ok n E1 \<and> orth n sel E1 \<and>
      ((lv1 = lv \<and> pivots_ok n i E1 lv) \<or> (length lv1 = Suc (length lv) \<and> pivots_ok n (Suc i) E1 lv1))"
    by (rule reduce_col_inv[OF i Suc.prems(2,3,4) _ r1]) simp
  show ?case
  proof (cases "i < length lv1")
    case True
    then have l1: "length lv1 = Suc i" "pivots_ok n (Suc i) E1 lv1"
      using inv1 Suc.prems(5) by auto
    have "fst (step1 h n (Suc i) (E1, lv1) s) = Some not_independent"
      using Suc.hyps(1)[of "Suc i" E1 lv1 s] Suc.hyps(2) i inv1 l1 Suc.prems(6,7) by simp
    then show ?thesis using i r1 True by (subst step1.simps) simp
  next
    case False
    then have l1: "lv1 = lv" "pivots_ok n i E1 lv"
      using inv1 Suc.prems(5) by auto
    let ?s1 = "V_front h i (V_front h i (V_front h i (emit V [i] s)))"
    have k: "stab_ok n (apply_V_at_front h t i) \<and> rows_cancel n sel (apply_V_at_front h t i)"
      if "stab_ok n t" "rows_cancel n sel t" for t
      using v i that unfolding V_keeps_cancel_def by blast
    have s1: "stab_ok n (tabl ?s1)" "rows_cancel n sel (tabl ?s1)"
      unfolding tabl_v_op using k Suc.prems(6,7) by blast+
    let ?E2 = "assign_col n i (zpauli_z (tabl ?s1)) E1"
    have m2: "mat_ok n ?E2" using inv1 by (simp add: assign_col_ok)
    have o2: "orth n sel ?E2"
      using inv1 s1(2) i by (intro orth_assign_col) (simp_all add: rows_cancel_def)
    have p2: "pivots_ok n i ?E2 lv"
      by (rule pivots_ok_cong[OF l1(2)]) (use i inv1 in \<open>simp add: assign_col_nth\<close>)
    obtain E3 lv3 where r3: "reduce_col n i 0 (?E2, lv) = (E3, lv3)"
      by (cases "reduce_col n i 0 (?E2, lv)")
    have inv3: "mat_ok n E3 \<and> orth n sel E3 \<and>
      ((lv3 = lv \<and> pivots_ok n i E3 lv) \<or> (length lv3 = Suc (length lv) \<and> pivots_ok n (Suc i) E3 lv3))"
      by (rule reduce_col_inv[OF i m2 o2 p2 _ r3]) simp
    show ?thesis
    proof (cases "length lv3 = i")
      case True
      then show ?thesis using i r1 False l1(1) r3 by (subst step1.simps) (simp add: Let_def)
    next
      case ne: False
      then have l3: "length lv3 = Suc i" "pivots_ok n (Suc i) E3 lv3"
        using inv3 Suc.prems(5) by auto
      have "fst (step1 h n (Suc i) (E3, lv3) ?s1) = Some not_independent"
        using Suc.hyps(1)[of "Suc i" E3 lv3 ?s1] Suc.hyps(2) i inv3 l3 s1 by simp
      then show ?thesis using i r1 False l1(1) r3 ne by (subst step1.simps) (simp add: Let_def)
    qed
  qed
qed

lemma step1_only_error: "fst (step1 h n i p s) = Some e \<Longrightarrow> e = not_independent"
proof (induction h n i p s rule: step1.induct)
  case (1 h n i echelon lv s)
  let ?s1 = "V_front h i (V_front h i (V_front h i (emit V [i] s)))"
  show ?case
  proof (cases "i < n")
    case False
    then show ?thesis using "1.prems" by (simp add: step1.simps)
  next
    case True
    obtain e1 l1 where r1: "reduce_col n i 0 (echelon, lv) = (e1, l1)"
      by (cases "reduce_col n i 0 (echelon, lv)")
    show ?thesis
    proof (cases "i < length l1")
      case a: True
      have "fst (step1 h n (Suc i) (e1, l1) s) = Some e"
        using "1.prems" True r1 a by (subst (asm) step1.simps) simp
      then show ?thesis using "1.IH"(1) True r1 a by simp
    next
      case b: False
      obtain e3 l3 where r3:
        "reduce_col n i 0 (assign_col n i (zpauli_z (tabl ?s1)) e1, l1) = (e3, l3)"
        by (cases "reduce_col n i 0 (assign_col n i (zpauli_z (tabl ?s1)) e1, l1)")
      show ?thesis
      proof (cases "length l3 = i")
        case c: True
        then show ?thesis using "1.prems" True r1 b r3
          by (subst (asm) step1.simps) (simp add: Let_def)
      next
        case d: False
        have "fst (step1 h n (Suc i) (e3, l3) ?s1) = Some e"
          using "1.prems" True r1 b r3 d by (subst (asm) step1.simps) (simp add: Let_def)
        then show ?thesis using "1.IH"(2) True r1 b r3 d by simp
      qed
    qed
  qed
qed

lemma spec_V_stabilizer_rows:
  assumes "stab_ok n t"
  shows "zpauli_z (apply_V_at_front spec_externals t i) = zpauli_z t"
    and "length (zpauli_phase (apply_V_at_front spec_externals t i)) = n"
    and "length (zpauli_x (apply_V_at_front spec_externals t i)) = n"
    and "r < n \<Longrightarrow> zpauli_x (apply_V_at_front spec_externals t i) ! r =
           (zpauli_x t ! r)[i := (zpauli_x t ! r ! i \<noteq> zpauli_z t ! r ! i)]"
proof -
  have len: "length (zpauli_x t) = n" "length (zpauli_z t) = n" "length (zpauli_phase t) = n"
    using assms by (simp_all add: stab_ok_def mat_ok_def)
  show "zpauli_z (apply_V_at_front spec_externals t i) = zpauli_z t"
    using len
    by (simp add: spec_externals_def spec_apply_V_at_front_def on_all_rows_def rows_of_def
        V_row_def Let_def list_eq_iff_nth_eq)
  show "length (zpauli_phase (apply_V_at_front spec_externals t i)) = n"
    using len
    by (simp add: spec_externals_def spec_apply_V_at_front_def on_all_rows_def rows_of_def Let_def)
  show "length (zpauli_x (apply_V_at_front spec_externals t i)) = n"
    using len
    by (simp add: spec_externals_def spec_apply_V_at_front_def on_all_rows_def rows_of_def Let_def)
  show "zpauli_x (apply_V_at_front spec_externals t i) ! r =
           (zpauli_x t ! r)[i := (zpauli_x t ! r ! i \<noteq> zpauli_z t ! r ! i)]" if "r < n"
    using len that
    by (simp add: spec_externals_def spec_apply_V_at_front_def on_all_rows_def rows_of_def
        V_row_def Let_def)
qed

lemma spec_V_keeps_cancel: "V_keeps_cancel spec_externals n sel"
  unfolding V_keeps_cancel_def
proof (intro allI impI)
  fix t :: CliffTableau and i :: nat
  assume a: "i < n \<and> stab_ok n t \<and> rows_cancel n sel t"
  let ?t = "apply_V_at_front spec_externals t i"
  have ok: "stab_ok n t" and i: "i < n" using a by simp_all
  have mx: "mat_ok n (zpauli_x t)" and mz: "mat_ok n (zpauli_z t)"
    using ok by (simp_all add: stab_ok_def)
  note v = spec_V_stabilizer_rows[OF ok, where i = i]
  have m: "mat_ok n (zpauli_x ?t)"
    by (rule mat_okI) (simp_all add: v mat_ok_row[OF mx])
  have nth: "zpauli_x ?t ! r ! k =
      (if k = i then zpauli_x t ! r ! i \<noteq> zpauli_z t ! r ! i else zpauli_x t ! r ! k)"
    if "r < n" "k < n" for r k
    using that i by (simp add: v mat_ok_row[OF mx])
  have "orth n sel (zpauli_x ?t)"
    unfolding orth_def
  proof (intro allI impI)
    fix k assume k: "k < n"
    show "\<not> col_parity n sel (zpauli_x ?t) k"
    proof (cases "k = i")
      case True
      have "col_parity n sel (zpauli_x ?t) k =
          (col_parity n sel (zpauli_x t) i \<noteq> col_parity n sel (zpauli_z t) i)"
        by (rule col_parity_xor) (simp add: nth True i)
      then show ?thesis using a i by (simp add: rows_cancel_def orth_def)
    next
      case False
      have "col_parity n sel (zpauli_x ?t) k = col_parity n sel (zpauli_x t) k"
        by (rule col_parity_cong) (simp add: nth k False)
      then show ?thesis using a k by (simp add: rows_cancel_def orth_def)
    qed
  qed
  then show "stab_ok n ?t \<and> rows_cancel n sel ?t"
    using a m mz by (simp add: stab_ok_def rows_cancel_def v)
qed

section \<open>The run under another enumeration of the qubit mapping\<close>

lemma relabelled_fields:
  "c (relabelled q t0 s) = c s"
  "zpauli_x (tabl (relabelled q t0 s)) = zpauli_x (tabl s)"
  "zpauli_z (tabl (relabelled q t0 s)) = zpauli_z (tabl s)"
  "xpauli_x (tabl (relabelled q t0 s)) = xpauli_x (tabl s)"
  "xpauli_z (tabl (relabelled q t0 s)) = xpauli_z (tabl s)"
  "xpauli_phase (tabl (relabelled q t0 s)) = xpauli_phase (tabl s)"
  "zpauli_phase (tabl (relabelled q t0 s)) = zpauli_phase (tabl s)"
  "tab_qubits (tabl (relabelled q t0 s)) = q"
  by (simp_all add: relabelled_def)

lemma relabelled_prims:
  assumes "front_ignores_qubits h"
  shows "S_front h i (relabelled q t0 s) = relabelled q t0 (S_front h i s)"
    and "V_front h i (relabelled q t0 s) = relabelled q t0 (V_front h i s)"
    and "CX_front h a b (relabelled q t0 s) = relabelled q t0 (CX_front h a b s)"
    and "emit ty args (relabelled q t0 s) = relabelled q t0 (emit ty args s)"
  using assms
  by (simp_all add: front_ignores_qubits_def relabelled_def S_front_def V_front_def CX_front_def
      emit_def)

lemma relabelled_ops:
  assumes "front_ignores_qubits h"
  shows "s_op h i (relabelled q t0 s) = relabelled q t0 (s_op h i s)"
    and "h_op h i (relabelled q t0 s) = relabelled q t0 (h_op h i s)"
    and "cx_op h qbs (relabelled q t0 s) = relabelled q t0 (cx_op h qbs s)"
    and "z_fix h i (relabelled q t0 s) = relabelled q t0 (z_fix h i s)"
    and "x_fix h i (relabelled q t0 s) = relabelled q t0 (x_fix h i s)"
  by (simp_all add: s_op_def h_op_def cx_op_def z_fix_def x_fix_def relabelled_prims[OF assms]
      relabelled_fields)

lemma relabelled_fold:
  assumes "\<And>x s. f x (relabelled q t0 s) = relabelled q t0 (f x s)"
  shows "fold f xs (relabelled q t0 s) = relabelled q t0 (fold f xs s)"
  by (induction xs arbitrary: s) (simp_all add: assms)

lemma relabelled_cx_reverse_from:
  assumes "front_ignores_qubits h"
  shows "cx_reverse_from h ops k (relabelled q t0 s) = relabelled q t0 (cx_reverse_from h ops k s)"
  by (induction k arbitrary: s) (simp_all add: relabelled_ops[OF assms])

lemma relabelled_steps:
  assumes "front_ignores_qubits h"
  shows "step2 h (relabelled q t0 s) = relabelled q t0 (step2 h s)"
    and "step3 h n llt (relabelled q t0 s) = relabelled q t0 (step3 h n llt s)"
    and "step4 h llt (relabelled q t0 s) = relabelled q t0 (step4 h llt s)"
    and "step5 h n (relabelled q t0 s) = relabelled q t0 (step5 h n s)"
    and "step6 h (relabelled q t0 s) = relabelled q t0 (step6 h s)"
    and "step7 h n (relabelled q t0 s) = relabelled q t0 (step7 h n s)"
    and "step8 h n llt (relabelled q t0 s) = relabelled q t0 (step8 h n llt s)"
    and "step9 h llt (relabelled q t0 s) = relabelled q t0 (step9 h llt s)"
    and "step10 h n (relabelled q t0 s) = relabelled q t0 (step10 h n s)"
    and "step11 h (relabelled q t0 s) = relabelled q t0 (step11 h s)"
    and "delayed_steps h n (relabelled q t0 s) = relabelled q t0 (delayed_steps h n s)"
  unfolding step2_def step3_def step4_def step5_def step6_def step7_def step8_def step9_def
    step10_def step11_def delayed_steps_def cx_forward_def cx_reverse_def relabelled_fields
  by (simp_all add: relabelled_fold relabelled_ops[OF assms] relabelled_cx_reverse_from[OF assms])

lemma relabelled_steps_2_to_end:
  assumes "front_ignores_qubits h"
  shows "steps_2_to_end h n (relabelled q t0 s) = relabelled q t0 (steps_2_to_end h n s)"
  unfolding steps_2_to_end_def steps_2_to_11_def Let_def
  by (simp only: relabelled_steps[OF assms] relabelled_fields)

lemma relabelled_step1:
  assumes "front_ignores_qubits h"
  shows "step1 h n i p (relabelled q t0 s) =
           (fst (step1 h n i p s), relabelled q t0 (snd (step1 h n i p s)))"
  using assms
proof (induction h n i p s rule: step1.induct)
  case (1 h n i echelon lv s)
  let ?v = "\<lambda>s. V_front h i (V_front h i (V_front h i (emit V [i] s)))"
  have v: "?v (relabelled q t0 s) = relabelled q t0 (?v s)"
    by (simp add: relabelled_prims[OF "1.prems"])
  show ?case
  proof (cases "i < n")
    case False
    then show ?thesis by (simp add: step1.simps)
  next
    case True
    obtain e1 l1 where r1: "reduce_col n i 0 (echelon, lv) = (e1, l1)"
      by (cases "reduce_col n i 0 (echelon, lv)")
    show ?thesis
    proof (cases "i < length l1")
      case a: True
      have "step1 h n (Suc i) (e1, l1) (relabelled q t0 s) =
          (fst (step1 h n (Suc i) (e1, l1) s), relabelled q t0 (snd (step1 h n (Suc i) (e1, l1) s)))"
        using "1.IH"(1) True r1 a "1.prems" by simp
      then show ?thesis
        using True r1 a
        by (subst step1.simps, subst (2) step1.simps, subst (3) step1.simps) simp
    next
      case b: False
      obtain e3 l3 where r3:
        "reduce_col n i 0 (assign_col n i (zpauli_z (tabl (?v s))) e1, l1) = (e3, l3)"
        by (cases "reduce_col n i 0 (assign_col n i (zpauli_z (tabl (?v s))) e1, l1)")
      show ?thesis
      proof (cases "length l3 = i")
        case c: True
        then show ?thesis
          using True r1 b r3
          by (subst step1.simps, subst (2) step1.simps, subst (3) step1.simps)
            (simp add: Let_def v relabelled_fields)
      next
        case d: False
        have "step1 h n (Suc i) (e3, l3) (relabelled q t0 (?v s)) =
            (fst (step1 h n (Suc i) (e3, l3) (?v s)),
             relabelled q t0 (snd (step1 h n (Suc i) (e3, l3) (?v s))))"
          using "1.IH"(2) True r1 b r3 d "1.prems" by simp
        then show ?thesis
          using True r1 b r3 d
          by (subst step1.simps, subst (2) step1.simps, subst (3) step1.simps)
            (simp add: Let_def v relabelled_fields)
      qed
    qed
  qed
qed

lemma synthesise_relabelled:
  assumes "front_ignores_qubits h"
  shows "synthesise h (t\<lparr>tab_qubits := q\<rparr>) =
           (fst (synthesise h t), relabelled q (t\<lparr>tab_qubits := q\<rparr>) (snd (synthesise h t)))"
proof -
  let ?t = "t\<lparr>tab_qubits := q\<rparr>"
  have s0: "start ?t = relabelled q ?t (start t)"
    by (simp add: start_def relabelled_def)
  obtain e s1 where r: "step1 h (tab_size t) 0 (zpauli_x t, []) (start t) = (e, s1)"
    by (cases "step1 h (tab_size t) 0 (zpauli_x t, []) (start t)")
  have r': "step1 h (tab_size t) 0 (zpauli_x t, []) (start ?t) = (e, relabelled q ?t s1)"
    unfolding s0 relabelled_step1[OF assms] r by simp
  have a: "synthesise h t = (case e of Some x \<Rightarrow> (Some x, s1)
                              | None \<Rightarrow> (None, steps_2_to_end h (tab_size t) s1))"
    using r by (simp add: synthesise_def start_def Let_def split: option.split)
  have b: "synthesise h ?t = (case e of Some x \<Rightarrow> (Some x, relabelled q ?t s1)
                              | None \<Rightarrow> (None, steps_2_to_end h (tab_size t) (relabelled q ?t s1)))"
    using r' by (simp add: synthesise_def start_def Let_def split: option.split)
  show ?thesis
    unfolding a b by (cases e) (simp_all add: relabelled_steps_2_to_end[OF assms])
qed


lemma spec_front_ignores_qubits: "front_ignores_qubits spec_externals"
  by (simp add: front_ignores_qubits_def spec_externals_def spec_apply_S_at_front_def
      spec_apply_V_at_front_def spec_apply_CX_at_front_def on_all_rows_def Let_def)

lemma tableau_to_circuit_identity_2:
  "tableau_to_circuit spec_externals (CliffTableau_identity [Qubit ''a'' [0], Qubit ''b'' [0]]) =
     Inr \<lparr>all_qubits = [Qubit ''a'' [0], Qubit ''b'' [0]],
          commands = [(V, [Qubit ''a'' [0]]), (V, [Qubit ''b'' [0]]),
                      (S, [Qubit ''a'' [0]]), (S, [Qubit ''b'' [0]]),
                      (H, [Qubit ''a'' [0]]), (H, [Qubit ''b'' [0]]),
                      (S, [Qubit ''a'' [0]]), (S, [Qubit ''b'' [0]])]\<rparr>"
  unfolding tableau_to_circuit_def synthesise_identity_2
  by (simp add: rename_units_def rename_unit_def rename_map_of_def CliffTableau_identity_def
      q_default_reg_def numeral_2_eq_2)

section \<open>The whole run as a replay, and the delayed steps in it\<close>

lemma traced_replayed: "traced h g s s' \<Longrightarrow> s' = replayed h g s"
  by (simp add: traced_def replayed_def)

lemma steps_2_to_11_canonical: "steps_2_to_11 h n s = canonical_replay h n s"
  unfolding steps_2_to_11_def canonical_replay_def Let_def
  by (simp only: traced_replayed[OF traced_step2] traced_replayed[OF traced_step3]
      traced_replayed[OF traced_step4] traced_replayed[OF traced_step5]
      traced_replayed[OF traced_step6] traced_replayed[OF traced_step7]
      traced_replayed[OF traced_step8] traced_replayed[OF traced_step9]
      traced_replayed[OF traced_step10] traced_replayed[OF traced_step11])

lemma synthesise_success:
  assumes "fst (synthesise h t) = None"
  shows "snd (synthesise h t) =
           steps_2_to_end h (tab_size t) (snd (step1 h (tab_size t) 0 (zpauli_x t, []) (start t)))"
proof -
  obtain e s1 where r: "step1 h (tab_size t) 0 (zpauli_x t, []) (start t) = (e, s1)"
    by (cases "step1 h (tab_size t) 0 (zpauli_x t, []) (start t)")
  show ?thesis
    using assms r by (cases e) (simp_all add: synthesise_def start_def Let_def)
qed

lemma delayed_upto:
  "traced h (concat (map (corrections h (tabl s)) [0..<k])) s
     (fold (\<lambda>i s. x_fix h i (z_fix h i s)) [0..<k] s) \<and>
   tabl (fold (\<lambda>i s. x_fix h i (z_fix h i s)) [0..<k] s) = tableau_at h (tabl s) k"
proof (induction k)
  case 0
  show ?case by (simp add: traced_refl)
next
  case (Suc k)
  let ?sk = "fold (\<lambda>i s. x_fix h i (z_fix h i s)) [0..<k] s"
  have tk: "tabl ?sk = tableau_at h (tabl s) k" using Suc by simp
  have z: "tabl (z_fix h k ?sk) = z_corrected h (tableau_at h (tabl s) k) k"
    by (simp add: tabl_z_fix z_corrected_def tk)
  have x: "tabl (x_fix h k (z_fix h k ?sk)) = tableau_at h (tabl s) (Suc k)"
    by (simp add: tabl_x_fix x_corrected_def z)
  have g: "traced h (corrections h (tabl s) k) ?sk (x_fix h k (z_fix h k ?sk))"
    using traced_trans[OF traced_z_fix[of h ?sk k] traced_x_fix[of h "z_fix h k ?sk" k]]
    by (simp add: corrections_def destabilizer_phase_bit_def stabilizer_phase_bit_def tk z)
  have "traced h (concat (map (corrections h (tabl s)) [0..<k]) @ corrections h (tabl s) k) s
          (x_fix h k (z_fix h k ?sk))"
    using Suc g by (blast intro: traced_trans)
  then show ?case using x by simp
qed

section \<open>Two runs on two qubits, evaluated\<close>

text \<open>
  The identity tableau with destabilizer phases \<open>1, 0\<close> and stabilizer phases \<open>1, 1\<close> under
  the operations modelled from the spec, and the identity tableau under the instance with
  recorded column operations: the working copy and the gates after step 11, and the gates
  of the whole run.
\<close>

lemma run_with_phases:
  shows "fst (step1 spec_externals 2 0 (zpauli_x ((CliffTableau_identity [Qubit ''a'' [0], Qubit ''b'' [0]])\<lparr>xpauli_phase := [True, False], zpauli_phase := [True, True]\<rparr>), []) (start ((CliffTableau_identity [Qubit ''a'' [0], Qubit ''b'' [0]])\<lparr>xpauli_phase := [True, False], zpauli_phase := [True, True]\<rparr>))) = None"
    and "tabl (steps_2_to_11 spec_externals 2 (snd (step1 spec_externals 2 0 (zpauli_x ((CliffTableau_identity [Qubit ''a'' [0], Qubit ''b'' [0]])\<lparr>xpauli_phase := [True, False], zpauli_phase := [True, True]\<rparr>), []) (start ((CliffTableau_identity [Qubit ''a'' [0], Qubit ''b'' [0]])\<lparr>xpauli_phase := [True, False], zpauli_phase := [True, True]\<rparr>))))) =
      \<lparr>tab_size = 2, xpauli_x = [[True, False], [False, True]], xpauli_z = [[False, False], [False, False]], xpauli_phase = [True, False],
       zpauli_x = [[False, False], [False, False]], zpauli_z = [[True, False], [False, True]], zpauli_phase = [True, True],
       tab_qubits = [(Qubit ''a'' [0], 0), (Qubit ''b'' [0], 1)]\<rparr>"
    and "emitted (c (steps_2_to_11 spec_externals 2 (snd (step1 spec_externals 2 0 (zpauli_x ((CliffTableau_identity [Qubit ''a'' [0], Qubit ''b'' [0]])\<lparr>xpauli_phase := [True, False], zpauli_phase := [True, True]\<rparr>), []) (start ((CliffTableau_identity [Qubit ''a'' [0], Qubit ''b'' [0]])\<lparr>xpauli_phase := [True, False], zpauli_phase := [True, True]\<rparr>)))))) =
      [(V, [0]), (V, [1]), (S, [0]), (S, [1]), (H, [0]), (H, [1]), (S, [0]), (S, [1])]"
    and "emitted (c (snd (synthesise spec_externals ((CliffTableau_identity [Qubit ''a'' [0], Qubit ''b'' [0]])\<lparr>xpauli_phase := [True, False], zpauli_phase := [True, True]\<rparr>)))) =
      [(V, [0]), (V, [1]), (S, [0]), (S, [1]), (H, [0]), (H, [1]), (S, [0]), (S, [1]), (Z, [0]), (X, [0]), (X, [1])]"
proof -
  define t where "t = ((CliffTableau_identity [Qubit ''a'' [0], Qubit ''b'' [0]])\<lparr>xpauli_phase := [True, False], zpauli_phase := [True, True]\<rparr>)"
  define st where "st = (\<lambda>xx xz xp zx zz zp g.
    \<lparr>tab = t,
     tabl = \<lparr>tab_size = 2, xpauli_x = xx, xpauli_z = xz, xpauli_phase = xp,
             zpauli_x = zx, zpauli_z = zz, zpauli_phase = zp,
             tab_qubits = [(Qubit ''a'' [0], 0), (Qubit ''b'' [0], 1)]\<rparr>,
     c = \<lparr>all_qubits = [Qubit ''q'' [0], Qubit ''q'' [1]], commands = map default_cmd g\<rparr>\<rparr>)"
  let ?h = "spec_externals"
  have t: "t = \<lparr>tab_size = 2, xpauli_x = [[True, False], [False, True]], xpauli_z = [[False, False], [False, False]], xpauli_phase = [True, False],
       zpauli_x = [[False, False], [False, False]], zpauli_z = [[True, False], [False, True]], zpauli_phase = [True, True],
       tab_qubits = [(Qubit ''a'' [0], 0), (Qubit ''b'' [0], 1)]\<rparr>"
    by (simp add: t_def CliffTableau_identity_def identity_matrix_def zero_matrix_def numeral_2_eq_2)
  have s0: "start t = st ([[True, False], [False, True]]) ([[False, False], [False, False]]) ([True, False]) ([[False, False], [False, False]]) ([[True, False], [False, True]]) ([True, True]) ([])"
    by (simp add: start_def st_def t Circuit_n_def q_default_reg_def numeral_2_eq_2)
  define a1 where "a1 = step1 ?h 2 0 (zpauli_x t, []) (start t)"
  have v1: "a1 = (None, st ([[True, False], [False, True]]) ([[False, False], [False, False]]) ([True, False]) ([[True, False], [False, True]]) ([[True, False], [False, True]]) ([True, True]) ([(V, [0]), (V, [1])]))"
    unfolding a1_def s0 unfolding t
    by (simp add: step1.simps reduce_col.simps xor_col_def assign_col_def synth_op_eval
         spec_front_eval st_def default_cmd_def Let_def numeral_2_eq_2)
  define s1 where "s1 = st ([[True, False], [False, True]]) ([[False, False], [False, False]]) ([True, False]) ([[True, False], [False, True]]) ([[True, False], [False, True]]) ([True, True]) ([(V, [0]), (V, [1])])"
  define a2 where "a2 = step2 ?h s1"
  have v2: "a2 = st ([[True, False], [False, True]]) ([[False, False], [False, False]]) ([True, False]) ([[True, False], [False, True]]) ([[True, False], [False, True]]) ([True, True]) ([(V, [0]), (V, [1])])"
    by (simp add: a2_def s1_def step2_def  synth_op_eval spec_matrix_eval spec_front_eval st_def default_cmd_def numeral_2_eq_2)
  define zl where "zl = binary_LLT_decomposition ?h (zpauli_z (tabl a2))"
  have vzl: "zl = ([[True, False], [False, True]], [[False, False], [False, False]])"
    by (simp add: zl_def v2 st_def  spec_matrix_eval numeral_2_eq_2)
  define a3 where "a3 = step3 ?h 2 zl a2"
  have f3: "a3 = a2"
    by (simp add: a3_def vzl step3_def numeral_2_eq_2)
  have v3: "a3 = st ([[True, False], [False, True]]) ([[False, False], [False, False]]) ([True, False]) ([[True, False], [False, True]]) ([[True, False], [False, True]]) ([True, True]) ([(V, [0]), (V, [1])])"
    unfolding f3 by (simp add: v2  synth_op_eval spec_front_eval st_def default_cmd_def numeral_2_eq_2)
  define a4 where "a4 = step4 ?h zl a3"
  have v4: "a4 = st ([[True, False], [False, True]]) ([[False, False], [False, False]]) ([True, False]) ([[True, False], [False, True]]) ([[True, False], [False, True]]) ([True, True]) ([(V, [0]), (V, [1])])"
    by (simp add: a4_def v3 vzl step4_def  synth_op_eval spec_matrix_eval spec_front_eval st_def default_cmd_def numeral_2_eq_2)
  define a5 where "a5 = step5 ?h 2 a4"
  have v5: "a5 = st ([[True, False], [False, True]]) ([[True, False], [False, True]]) ([False, True]) ([[True, False], [False, True]]) ([[False, False], [False, False]]) ([True, True]) ([(V, [0]), (V, [1]), (S, [0]), (S, [1])])"
    by (simp add: a5_def v4 step5_def  synth_op_eval spec_front_eval st_def default_cmd_def numeral_2_eq_2)
  define a6 where "a6 = step6 ?h a5"
  have v6: "a6 = st ([[True, False], [False, True]]) ([[True, False], [False, True]]) ([False, True]) ([[True, False], [False, True]]) ([[False, False], [False, False]]) ([True, True]) ([(V, [0]), (V, [1]), (S, [0]), (S, [1])])"
    by (simp add: a6_def v5 step6_def  synth_op_eval spec_matrix_eval spec_front_eval st_def default_cmd_def numeral_2_eq_2)
  define a7 where "a7 = step7 ?h 2 a6"
  have v7: "a7 = st ([[True, False], [False, True]]) ([[True, False], [False, True]]) ([True, False]) ([[False, False], [False, False]]) ([[True, False], [False, True]]) ([True, True]) ([(V, [0]), (V, [1]), (S, [0]), (S, [1]), (H, [0]), (H, [1])])"
    by (simp add: a7_def v6 step7_def  synth_op_eval spec_front_eval st_def default_cmd_def numeral_2_eq_2)
  define xl where "xl = binary_LLT_decomposition ?h (xpauli_z (tabl a7))"
  have vxl: "xl = ([[True, False], [False, True]], [[False, False], [False, False]])"
    by (simp add: xl_def v7 st_def  spec_matrix_eval numeral_2_eq_2)
  define a8 where "a8 = step8 ?h 2 xl a7"
  have f8: "a8 = a7"
    by (simp add: a8_def vxl step8_def numeral_2_eq_2)
  have v8: "a8 = st ([[True, False], [False, True]]) ([[True, False], [False, True]]) ([True, False]) ([[False, False], [False, False]]) ([[True, False], [False, True]]) ([True, True]) ([(V, [0]), (V, [1]), (S, [0]), (S, [1]), (H, [0]), (H, [1])])"
    unfolding f8 by (simp add: v7  synth_op_eval spec_front_eval st_def default_cmd_def numeral_2_eq_2)
  define a9 where "a9 = step9 ?h xl a8"
  have v9: "a9 = st ([[True, False], [False, True]]) ([[True, False], [False, True]]) ([True, False]) ([[False, False], [False, False]]) ([[True, False], [False, True]]) ([True, True]) ([(V, [0]), (V, [1]), (S, [0]), (S, [1]), (H, [0]), (H, [1])])"
    by (simp add: a9_def v8 vxl step9_def  synth_op_eval spec_matrix_eval spec_front_eval st_def default_cmd_def numeral_2_eq_2)
  define a10 where "a10 = step10 ?h 2 a9"
  have v10: "a10 = st ([[True, False], [False, True]]) ([[False, False], [False, False]]) ([True, False]) ([[False, False], [False, False]]) ([[True, False], [False, True]]) ([True, True]) ([(V, [0]), (V, [1]), (S, [0]), (S, [1]), (H, [0]), (H, [1]), (S, [0]), (S, [1])])"
    by (simp add: a10_def v9 step10_def  synth_op_eval spec_front_eval st_def default_cmd_def numeral_2_eq_2)
  define a11 where "a11 = step11 ?h a10"
  have v11: "a11 = st ([[True, False], [False, True]]) ([[False, False], [False, False]]) ([True, False]) ([[False, False], [False, False]]) ([[True, False], [False, True]]) ([True, True]) ([(V, [0]), (V, [1]), (S, [0]), (S, [1]), (H, [0]), (H, [1]), (S, [0]), (S, [1])])"
    by (simp add: a11_def v10 step11_def  synth_op_eval spec_matrix_eval spec_front_eval st_def default_cmd_def numeral_2_eq_2)
  define a12 where "a12 = delayed_steps ?h 2 a11"
  have v12: "a12 = st ([[True, False], [False, True]]) ([[False, False], [False, False]]) ([False, False]) ([[False, False], [False, False]]) ([[True, False], [False, True]]) ([False, False]) ([(V, [0]), (V, [1]), (S, [0]), (S, [1]), (H, [0]), (H, [1]), (S, [0]), (S, [1]), (Z, [0]), (X, [0]), (X, [1])])"
    by (simp add: a12_def v11 delayed_steps_def  synth_op_eval spec_front_eval st_def default_cmd_def numeral_2_eq_2)
  have chain11: "steps_2_to_11 ?h 2 s1 = a11"
    unfolding steps_2_to_11_def Let_def a11_def a10_def a9_def a8_def xl_def a7_def
      a6_def a5_def a4_def a3_def zl_def a2_def ..
  have chain: "steps_2_to_end ?h 2 s1 = a12"
    unfolding steps_2_to_end_def chain11 a12_def ..
  have r1: "step1 ?h 2 0 (zpauli_x t, []) (start t) = (None, s1)"
    using v1 by (simp add: a1_def s1_def)
  have tsz: "tab_size t = 2" by (simp add: t)
  have r12: "synthesise ?h t = (None, a12)"
    using r1 chain by (simp add: synthesise_def Let_def start_def tsz)
  have t11: "tabl a11 =
      \<lparr>tab_size = 2, xpauli_x = [[True, False], [False, True]], xpauli_z = [[False, False], [False, False]], xpauli_phase = [True, False],
       zpauli_x = [[False, False], [False, False]], zpauli_z = [[True, False], [False, True]], zpauli_phase = [True, True],
       tab_qubits = [(Qubit ''a'' [0], 0), (Qubit ''b'' [0], 1)]\<rparr>"
    by (simp add: v11 st_def)
  have e11: "emitted (c a11) =
      [(V, [0]), (V, [1]), (S, [0]), (S, [1]), (H, [0]), (H, [1]), (S, [0]), (S, [1])]"
    by (simp add: v11 st_def emitted_def default_cmd_def)
  have e12: "emitted (c a12) =
      [(V, [0]), (V, [1]), (S, [0]), (S, [1]), (H, [0]), (H, [1]), (S, [0]), (S, [1]), (Z, [0]), (X, [0]), (X, [1])]"
    by (simp add: v12 st_def emitted_def default_cmd_def)
  show "fst (step1 ?h 2 0 (zpauli_x ((CliffTableau_identity [Qubit ''a'' [0], Qubit ''b'' [0]])\<lparr>xpauli_phase := [True, False], zpauli_phase := [True, True]\<rparr>), []) (start ((CliffTableau_identity [Qubit ''a'' [0], Qubit ''b'' [0]])\<lparr>xpauli_phase := [True, False], zpauli_phase := [True, True]\<rparr>))) = None"
    using r1 by (simp add: t_def)
  show "tabl (steps_2_to_11 ?h 2 (snd (step1 ?h 2 0 (zpauli_x ((CliffTableau_identity [Qubit ''a'' [0], Qubit ''b'' [0]])\<lparr>xpauli_phase := [True, False], zpauli_phase := [True, True]\<rparr>), []) (start ((CliffTableau_identity [Qubit ''a'' [0], Qubit ''b'' [0]])\<lparr>xpauli_phase := [True, False], zpauli_phase := [True, True]\<rparr>))))) =
      \<lparr>tab_size = 2, xpauli_x = [[True, False], [False, True]], xpauli_z = [[False, False], [False, False]], xpauli_phase = [True, False],
       zpauli_x = [[False, False], [False, False]], zpauli_z = [[True, False], [False, True]], zpauli_phase = [True, True],
       tab_qubits = [(Qubit ''a'' [0], 0), (Qubit ''b'' [0], 1)]\<rparr>"
    using r1 chain11 t11 by (simp add: t_def[symmetric])
  show "emitted (c (steps_2_to_11 ?h 2 (snd (step1 ?h 2 0 (zpauli_x ((CliffTableau_identity [Qubit ''a'' [0], Qubit ''b'' [0]])\<lparr>xpauli_phase := [True, False], zpauli_phase := [True, True]\<rparr>), []) (start ((CliffTableau_identity [Qubit ''a'' [0], Qubit ''b'' [0]])\<lparr>xpauli_phase := [True, False], zpauli_phase := [True, True]\<rparr>)))))) =
      [(V, [0]), (V, [1]), (S, [0]), (S, [1]), (H, [0]), (H, [1]), (S, [0]), (S, [1])]"
    using r1 chain11 e11 by (simp add: t_def[symmetric])
  show "emitted (c (snd (synthesise ?h ((CliffTableau_identity [Qubit ''a'' [0], Qubit ''b'' [0]])\<lparr>xpauli_phase := [True, False], zpauli_phase := [True, True]\<rparr>)))) =
      [(V, [0]), (V, [1]), (S, [0]), (S, [1]), (H, [0]), (H, [1]), (S, [0]), (S, [1]), (Z, [0]), (X, [0]), (X, [1])]"
    using r12 e12 by (simp add: t_def[symmetric])
qed


lemma run_recording:
  shows "fst (step1 recording_externals 2 0 (zpauli_x (CliffTableau_identity [Qubit ''a'' [0], Qubit ''b'' [0]]), []) (start (CliffTableau_identity [Qubit ''a'' [0], Qubit ''b'' [0]]))) = None"
    and "tabl (steps_2_to_11 recording_externals 2 (snd (step1 recording_externals 2 0 (zpauli_x (CliffTableau_identity [Qubit ''a'' [0], Qubit ''b'' [0]]), []) (start (CliffTableau_identity [Qubit ''a'' [0], Qubit ''b'' [0]]))))) =
      \<lparr>tab_size = 2, xpauli_x = [[True, True], [True, False]], xpauli_z = [[False, False], [False, False]], xpauli_phase = [True, True],
       zpauli_x = [[False, False], [False, False]], zpauli_z = [[False, True], [True, True]], zpauli_phase = [False, False],
       tab_qubits = [(Qubit ''a'' [0], 0), (Qubit ''b'' [0], 1)]\<rparr>"
    and "emitted (c (steps_2_to_11 recording_externals 2 (snd (step1 recording_externals 2 0 (zpauli_x (CliffTableau_identity [Qubit ''a'' [0], Qubit ''b'' [0]]), []) (start (CliffTableau_identity [Qubit ''a'' [0], Qubit ''b'' [0]])))))) =
      [(V, [0]), (V, [1]), (CX, [0, 1]), (CX, [1, 0]), (CX, [1, 0]), (CX, [0, 1]), (S, [0]), (S, [1]), (CX, [0, 1]), (CX, [1, 0]), (H, [0]), (H, [1]), (S, [0]), (S, [1]), (CX, [1, 0]), (CX, [0, 1]), (S, [0]), (S, [1]), (CX, [0, 1]), (CX, [1, 0])]"
    and "emitted (c (snd (synthesise recording_externals (CliffTableau_identity [Qubit ''a'' [0], Qubit ''b'' [0]])))) =
      [(V, [0]), (V, [1]), (CX, [0, 1]), (CX, [1, 0]), (CX, [1, 0]), (CX, [0, 1]), (S, [0]), (S, [1]), (CX, [0, 1]), (CX, [1, 0]), (H, [0]), (H, [1]), (S, [0]), (S, [1]), (CX, [1, 0]), (CX, [0, 1]), (S, [0]), (S, [1]), (CX, [0, 1]), (CX, [1, 0]), (Z, [0])]"
proof -
  define t where "t = (CliffTableau_identity [Qubit ''a'' [0], Qubit ''b'' [0]])"
  define st where "st = (\<lambda>xx xz xp zx zz zp g.
    \<lparr>tab = t,
     tabl = \<lparr>tab_size = 2, xpauli_x = xx, xpauli_z = xz, xpauli_phase = xp,
             zpauli_x = zx, zpauli_z = zz, zpauli_phase = zp,
             tab_qubits = [(Qubit ''a'' [0], 0), (Qubit ''b'' [0], 1)]\<rparr>,
     c = \<lparr>all_qubits = [Qubit ''q'' [0], Qubit ''q'' [1]], commands = map default_cmd g\<rparr>\<rparr>)"
  let ?h = "recording_externals"
  have t: "t = \<lparr>tab_size = 2, xpauli_x = [[True, False], [False, True]], xpauli_z = [[False, False], [False, False]], xpauli_phase = [False, False],
       zpauli_x = [[False, False], [False, False]], zpauli_z = [[True, False], [False, True]], zpauli_phase = [False, False],
       tab_qubits = [(Qubit ''a'' [0], 0), (Qubit ''b'' [0], 1)]\<rparr>"
    by (simp add: t_def CliffTableau_identity_def identity_matrix_def zero_matrix_def numeral_2_eq_2)
  have s0: "start t = st ([[True, False], [False, True]]) ([[False, False], [False, False]]) ([False, False]) ([[False, False], [False, False]]) ([[True, False], [False, True]]) ([False, False]) ([])"
    by (simp add: start_def st_def t Circuit_n_def q_default_reg_def numeral_2_eq_2)
  define a1 where "a1 = step1 ?h 2 0 (zpauli_x t, []) (start t)"
  have v1: "a1 = (None, st ([[True, False], [False, True]]) ([[False, False], [False, False]]) ([False, False]) ([[True, False], [False, True]]) ([[True, False], [False, True]]) ([False, False]) ([(V, [0]), (V, [1])]))"
    unfolding a1_def s0 unfolding t
    by (simp add: step1.simps reduce_col.simps xor_col_def assign_col_def synth_op_eval
        recording_externals_def spec_front_eval st_def default_cmd_def Let_def numeral_2_eq_2)
  define s1 where "s1 = st ([[True, False], [False, True]]) ([[False, False], [False, False]]) ([False, False]) ([[True, False], [False, True]]) ([[True, False], [False, True]]) ([False, False]) ([(V, [0]), (V, [1])])"
  define a2 where "a2 = step2 ?h s1"
  have v2: "a2 = st ([[False, True], [True, True]]) ([[False, False], [False, False]]) ([False, False]) ([[False, True], [True, True]]) ([[True, True], [True, False]]) ([False, False]) ([(V, [0]), (V, [1]), (CX, [0, 1]), (CX, [1, 0])])"
    by (simp add: a2_def s1_def step2_def recording_externals_def synth_op_eval spec_matrix_eval spec_front_eval st_def default_cmd_def numeral_2_eq_2)
  define zl where "zl = binary_LLT_decomposition ?h (zpauli_z (tabl a2))"
  have vzl: "zl = ([[True, False], [True, True]], [[False, False], [False, False]])"
    by (simp add: zl_def v2 st_def recording_externals_def spec_matrix_eval numeral_2_eq_2)
  define a3 where "a3 = step3 ?h 2 zl a2"
  have f3: "a3 = a2"
    by (simp add: a3_def vzl step3_def numeral_2_eq_2)
  have v3: "a3 = st ([[False, True], [True, True]]) ([[False, False], [False, False]]) ([False, False]) ([[False, True], [True, True]]) ([[True, True], [True, False]]) ([False, False]) ([(V, [0]), (V, [1]), (CX, [0, 1]), (CX, [1, 0])])"
    unfolding f3 by (simp add: v2 recording_externals_def synth_op_eval spec_front_eval st_def default_cmd_def numeral_2_eq_2)
  define a4 where "a4 = step4 ?h zl a3"
  have v4: "a4 = st ([[True, False], [False, True]]) ([[False, False], [False, False]]) ([False, False]) ([[True, False], [False, True]]) ([[True, False], [False, True]]) ([False, False]) ([(V, [0]), (V, [1]), (CX, [0, 1]), (CX, [1, 0]), (CX, [1, 0]), (CX, [0, 1])])"
    by (simp add: a4_def v3 vzl step4_def recording_externals_def synth_op_eval spec_matrix_eval spec_front_eval st_def default_cmd_def numeral_2_eq_2)
  define a5 where "a5 = step5 ?h 2 a4"
  have v5: "a5 = st ([[True, False], [False, True]]) ([[True, False], [False, True]]) ([True, True]) ([[True, False], [False, True]]) ([[False, False], [False, False]]) ([False, False]) ([(V, [0]), (V, [1]), (CX, [0, 1]), (CX, [1, 0]), (CX, [1, 0]), (CX, [0, 1]), (S, [0]), (S, [1])])"
    by (simp add: a5_def v4 step5_def recording_externals_def synth_op_eval spec_front_eval st_def default_cmd_def numeral_2_eq_2)
  define a6 where "a6 = step6 ?h a5"
  have v6: "a6 = st ([[False, True], [True, True]]) ([[True, True], [True, False]]) ([True, True]) ([[False, True], [True, True]]) ([[False, False], [False, False]]) ([False, False]) ([(V, [0]), (V, [1]), (CX, [0, 1]), (CX, [1, 0]), (CX, [1, 0]), (CX, [0, 1]), (S, [0]), (S, [1]), (CX, [0, 1]), (CX, [1, 0])])"
    by (simp add: a6_def v5 step6_def recording_externals_def synth_op_eval spec_matrix_eval spec_front_eval st_def default_cmd_def numeral_2_eq_2)
  define a7 where "a7 = step7 ?h 2 a6"
  have v7: "a7 = st ([[True, True], [True, False]]) ([[False, True], [True, True]]) ([False, False]) ([[False, False], [False, False]]) ([[False, True], [True, True]]) ([False, False]) ([(V, [0]), (V, [1]), (CX, [0, 1]), (CX, [1, 0]), (CX, [1, 0]), (CX, [0, 1]), (S, [0]), (S, [1]), (CX, [0, 1]), (CX, [1, 0]), (H, [0]), (H, [1])])"
    by (simp add: a7_def v6 step7_def recording_externals_def synth_op_eval spec_front_eval st_def default_cmd_def numeral_2_eq_2)
  define xl where "xl = binary_LLT_decomposition ?h (xpauli_z (tabl a7))"
  have vxl: "xl = ([[True, False], [True, True]], [[True, False], [False, True]])"
    by (simp add: xl_def v7 st_def recording_externals_def spec_matrix_eval numeral_2_eq_2)
  define a8 where "a8 = step8 ?h 2 xl a7"
  have f8: "a8 = s_op ?h (Suc 0) (s_op ?h 0 (a7))"
    by (simp add: a8_def vxl step8_def numeral_2_eq_2)
  have v8: "a8 = st ([[True, True], [True, False]]) ([[True, False], [False, True]]) ([True, False]) ([[False, False], [False, False]]) ([[False, True], [True, True]]) ([False, False]) ([(V, [0]), (V, [1]), (CX, [0, 1]), (CX, [1, 0]), (CX, [1, 0]), (CX, [0, 1]), (S, [0]), (S, [1]), (CX, [0, 1]), (CX, [1, 0]), (H, [0]), (H, [1]), (S, [0]), (S, [1])])"
    unfolding f8 by (simp add: v7 recording_externals_def synth_op_eval spec_front_eval st_def default_cmd_def numeral_2_eq_2)
  define a9 where "a9 = step9 ?h xl a8"
  have v9: "a9 = st ([[False, True], [True, True]]) ([[False, True], [True, True]]) ([True, True]) ([[False, False], [False, False]]) ([[True, True], [True, False]]) ([False, False]) ([(V, [0]), (V, [1]), (CX, [0, 1]), (CX, [1, 0]), (CX, [1, 0]), (CX, [0, 1]), (S, [0]), (S, [1]), (CX, [0, 1]), (CX, [1, 0]), (H, [0]), (H, [1]), (S, [0]), (S, [1]), (CX, [1, 0]), (CX, [0, 1])])"
    by (simp add: a9_def v8 vxl step9_def recording_externals_def synth_op_eval spec_matrix_eval spec_front_eval st_def default_cmd_def numeral_2_eq_2)
  define a10 where "a10 = step10 ?h 2 a9"
  have v10: "a10 = st ([[False, True], [True, True]]) ([[False, False], [False, False]]) ([True, True]) ([[False, False], [False, False]]) ([[True, True], [True, False]]) ([False, False]) ([(V, [0]), (V, [1]), (CX, [0, 1]), (CX, [1, 0]), (CX, [1, 0]), (CX, [0, 1]), (S, [0]), (S, [1]), (CX, [0, 1]), (CX, [1, 0]), (H, [0]), (H, [1]), (S, [0]), (S, [1]), (CX, [1, 0]), (CX, [0, 1]), (S, [0]), (S, [1])])"
    by (simp add: a10_def v9 step10_def recording_externals_def synth_op_eval spec_front_eval st_def default_cmd_def numeral_2_eq_2)
  define a11 where "a11 = step11 ?h a10"
  have v11: "a11 = st ([[True, True], [True, False]]) ([[False, False], [False, False]]) ([True, True]) ([[False, False], [False, False]]) ([[False, True], [True, True]]) ([False, False]) ([(V, [0]), (V, [1]), (CX, [0, 1]), (CX, [1, 0]), (CX, [1, 0]), (CX, [0, 1]), (S, [0]), (S, [1]), (CX, [0, 1]), (CX, [1, 0]), (H, [0]), (H, [1]), (S, [0]), (S, [1]), (CX, [1, 0]), (CX, [0, 1]), (S, [0]), (S, [1]), (CX, [0, 1]), (CX, [1, 0])])"
    by (simp add: a11_def v10 step11_def recording_externals_def synth_op_eval spec_matrix_eval spec_front_eval st_def default_cmd_def numeral_2_eq_2)
  define a12 where "a12 = delayed_steps ?h 2 a11"
  have v12: "a12 = st ([[True, True], [True, False]]) ([[False, False], [False, False]]) ([False, False]) ([[False, False], [False, False]]) ([[False, True], [True, True]]) ([False, False]) ([(V, [0]), (V, [1]), (CX, [0, 1]), (CX, [1, 0]), (CX, [1, 0]), (CX, [0, 1]), (S, [0]), (S, [1]), (CX, [0, 1]), (CX, [1, 0]), (H, [0]), (H, [1]), (S, [0]), (S, [1]), (CX, [1, 0]), (CX, [0, 1]), (S, [0]), (S, [1]), (CX, [0, 1]), (CX, [1, 0]), (Z, [0])])"
    by (simp add: a12_def v11 delayed_steps_def recording_externals_def synth_op_eval spec_front_eval st_def default_cmd_def numeral_2_eq_2)
  have chain11: "steps_2_to_11 ?h 2 s1 = a11"
    unfolding steps_2_to_11_def Let_def a11_def a10_def a9_def a8_def xl_def a7_def
      a6_def a5_def a4_def a3_def zl_def a2_def ..
  have chain: "steps_2_to_end ?h 2 s1 = a12"
    unfolding steps_2_to_end_def chain11 a12_def ..
  have r1: "step1 ?h 2 0 (zpauli_x t, []) (start t) = (None, s1)"
    using v1 by (simp add: a1_def s1_def)
  have tsz: "tab_size t = 2" by (simp add: t)
  have r12: "synthesise ?h t = (None, a12)"
    using r1 chain by (simp add: synthesise_def Let_def start_def tsz)
  have t11: "tabl a11 =
      \<lparr>tab_size = 2, xpauli_x = [[True, True], [True, False]], xpauli_z = [[False, False], [False, False]], xpauli_phase = [True, True],
       zpauli_x = [[False, False], [False, False]], zpauli_z = [[False, True], [True, True]], zpauli_phase = [False, False],
       tab_qubits = [(Qubit ''a'' [0], 0), (Qubit ''b'' [0], 1)]\<rparr>"
    by (simp add: v11 st_def)
  have e11: "emitted (c a11) =
      [(V, [0]), (V, [1]), (CX, [0, 1]), (CX, [1, 0]), (CX, [1, 0]), (CX, [0, 1]), (S, [0]), (S, [1]), (CX, [0, 1]), (CX, [1, 0]), (H, [0]), (H, [1]), (S, [0]), (S, [1]), (CX, [1, 0]), (CX, [0, 1]), (S, [0]), (S, [1]), (CX, [0, 1]), (CX, [1, 0])]"
    by (simp add: v11 st_def emitted_def default_cmd_def)
  have e12: "emitted (c a12) =
      [(V, [0]), (V, [1]), (CX, [0, 1]), (CX, [1, 0]), (CX, [1, 0]), (CX, [0, 1]), (S, [0]), (S, [1]), (CX, [0, 1]), (CX, [1, 0]), (H, [0]), (H, [1]), (S, [0]), (S, [1]), (CX, [1, 0]), (CX, [0, 1]), (S, [0]), (S, [1]), (CX, [0, 1]), (CX, [1, 0]), (Z, [0])]"
    by (simp add: v12 st_def emitted_def default_cmd_def)
  show "fst (step1 ?h 2 0 (zpauli_x (CliffTableau_identity [Qubit ''a'' [0], Qubit ''b'' [0]]), []) (start (CliffTableau_identity [Qubit ''a'' [0], Qubit ''b'' [0]]))) = None"
    using r1 by (simp add: t_def)
  show "tabl (steps_2_to_11 ?h 2 (snd (step1 ?h 2 0 (zpauli_x (CliffTableau_identity [Qubit ''a'' [0], Qubit ''b'' [0]]), []) (start (CliffTableau_identity [Qubit ''a'' [0], Qubit ''b'' [0]]))))) =
      \<lparr>tab_size = 2, xpauli_x = [[True, True], [True, False]], xpauli_z = [[False, False], [False, False]], xpauli_phase = [True, True],
       zpauli_x = [[False, False], [False, False]], zpauli_z = [[False, True], [True, True]], zpauli_phase = [False, False],
       tab_qubits = [(Qubit ''a'' [0], 0), (Qubit ''b'' [0], 1)]\<rparr>"
    using r1 chain11 t11 by (simp add: t_def[symmetric])
  show "emitted (c (steps_2_to_11 ?h 2 (snd (step1 ?h 2 0 (zpauli_x (CliffTableau_identity [Qubit ''a'' [0], Qubit ''b'' [0]]), []) (start (CliffTableau_identity [Qubit ''a'' [0], Qubit ''b'' [0]])))))) =
      [(V, [0]), (V, [1]), (CX, [0, 1]), (CX, [1, 0]), (CX, [1, 0]), (CX, [0, 1]), (S, [0]), (S, [1]), (CX, [0, 1]), (CX, [1, 0]), (H, [0]), (H, [1]), (S, [0]), (S, [1]), (CX, [1, 0]), (CX, [0, 1]), (S, [0]), (S, [1]), (CX, [0, 1]), (CX, [1, 0])]"
    using r1 chain11 e11 by (simp add: t_def[symmetric])
  show "emitted (c (snd (synthesise ?h (CliffTableau_identity [Qubit ''a'' [0], Qubit ''b'' [0]])))) =
      [(V, [0]), (V, [1]), (CX, [0, 1]), (CX, [1, 0]), (CX, [1, 0]), (CX, [0, 1]), (S, [0]), (S, [1]), (CX, [0, 1]), (CX, [1, 0]), (H, [0]), (H, [1]), (S, [0]), (S, [1]), (CX, [1, 0]), (CX, [0, 1]), (S, [0]), (S, [1]), (CX, [0, 1]), (CX, [1, 0]), (Z, [0])]"
    using r12 e12 by (simp add: t_def[symmetric])
qed


lemma synthesise_fst:
  "fst (synthesise h t) = fst (step1 h (tab_size t) 0 (zpauli_x t, []) (start t))"
  by (simp add: synthesise_def start_def Let_def split: prod.split option.split)

section \<open>Properties of the synthesizer\<close>

text \<open>
  C6.  A run only changes its own copy: when it ends, whether by returning the circuit or
  by throwing, the caller's tableau is the tableau that was passed in, in all its matrices,
  both phase vectors and the qubit index mapping.
\<close>

theorem caller_tableau_unchanged: "tab (snd (synthesise h t)) = t"
  using synthesise_paired[of h t] by blast

text \<open>
  C10.  Every emitted gate goes with its front applications and nothing else touches the
  working copy: when a run ends, the working copy is the input tableau to which, for each
  emitted gate in emission order, the front applications of that gate were applied (three
  \<open>S\<close> for \<open>S\<close>, three \<open>V\<close> for \<open>V\<close>, \<open>S\<close>, \<open>V\<close>, \<open>S\<close> for \<open>H\<close>, two \<open>S\<close> for \<open>Z\<close>,
  two \<open>V\<close> for \<open>X\<close>, one \<open>CX\<close> on the same pair for \<open>CX\<close>), and every emitted gate is of
  one of these six forms.  This holds for every implementation of the front applications.
\<close>

theorem emission_paired_with_front_inverse:
  "tabl (snd (synthesise h t)) = fold (front_inverse h) (emitted (c (snd (synthesise h t)))) t \<and>
   (\<forall>g \<in> set (emitted (c (snd (synthesise h t)))). paired_gate g)"
  using synthesise_paired[of h t] by auto

text \<open>The run on the one-qubit identity tableau: four gates, each with its front applications.\<close>

theorem emission_paired_with_front_inverse_witness:
  "emitted (c (snd (synthesise spec_externals (CliffTableau_identity [Qubit ''a'' [0]])))) =
     [(V, [0]), (S, [0]), (H, [0]), (S, [0])] \<and>
   tabl (snd (synthesise spec_externals (CliffTableau_identity [Qubit ''a'' [0]]))) =
     fold (front_inverse spec_externals) [(V, [0]), (S, [0]), (H, [0]), (S, [0])]
       (CliffTableau_identity [Qubit ''a'' [0]]) \<and>
   paired_gate (V, [0]) \<and> paired_gate (S, [0]) \<and> paired_gate (H, [0])"
proof -
  have e: "emitted (c (snd (synthesise spec_externals (CliffTableau_identity [Qubit ''a'' [0]])))) =
     [(V, [0]), (S, [0]), (H, [0]), (S, [0])]"
    by (simp add: synthesise_identity_1 emitted_def)
  show ?thesis
    using emission_paired_with_front_inverse[of spec_externals "CliffTableau_identity [Qubit ''a'' [0]]"]
    unfolding e by simp
qed

text \<open>
  C2, as the claim states it, fails: step 1 emits a \<open>V\<close>, which is not in
  \<open>{H, S, CX, X, Z}\<close>.
\<close>

theorem output_vocabulary_counterexample:
  "tableau_to_circuit spec_externals (CliffTableau_identity [Qubit ''a'' [0]]) =
     Inr \<lparr>all_qubits = [Qubit ''a'' [0]],
          commands = [(V, [Qubit ''a'' [0]]), (S, [Qubit ''a'' [0]]),
                      (H, [Qubit ''a'' [0]]), (S, [Qubit ''a'' [0]])]\<rparr> \<and>
   \<not> fst ` set [(V, [Qubit ''a'' [0]]), (S, [Qubit ''a'' [0]]),
                (H, [Qubit ''a'' [0]]), (S, [Qubit ''a'' [0]])] \<subseteq> {H, S, CX, X, Z}"
  using tableau_to_circuit_identity_1 by simp

text \<open>
  C2, amended.  Every circuit returned by \<open>tableau_to_circuit\<close> contains only gate kinds
  from \<open>{V, H, S, CX, X, Z}\<close>.
\<close>

theorem synthesized_gate_kinds:
  assumes "tableau_to_circuit h t = Inr circ"
  shows "fst ` set (commands circ) \<subseteq> {V, H, S, CX, X, Z}"
proof -
  obtain g where g: "set g \<subseteq> Collect paired_gate"
      "commands (c (snd (synthesise h t))) = map default_cmd g"
    using synthesise_paired[of h t] by blast
  have "circ = rename_units (rename_map_of (tab_qubits (tabl (snd (synthesise h t))))) (c (snd (synthesise h t)))"
    using assms by (auto simp: tableau_to_circuit_def split: prod.splits option.splits)
  then have "fst ` set (commands circ) = fst ` set g"
    using g(2) by (force simp: rename_units_def default_cmd_def image_iff split: prod.splits)
  then show ?thesis using g(1) paired_kind by auto
qed

text \<open>The circuit of the one-qubit identity tableau uses \<open>V\<close>, \<open>S\<close> and \<open>H\<close>.\<close>

theorem synthesized_gate_kinds_witness:
  "tableau_to_circuit spec_externals (CliffTableau_identity [Qubit ''a'' [0]]) =
     Inr \<lparr>all_qubits = [Qubit ''a'' [0]],
          commands = [(V, [Qubit ''a'' [0]]), (S, [Qubit ''a'' [0]]),
                      (H, [Qubit ''a'' [0]]), (S, [Qubit ''a'' [0]])]\<rparr> \<and>
   fst ` set [(V, [Qubit ''a'' [0]]), (S, [Qubit ''a'' [0]]),
              (H, [Qubit ''a'' [0]]), (S, [Qubit ''a'' [0]])] \<subseteq> {V, H, S, CX, X, Z}"
  using synthesized_gate_kinds[OF tableau_to_circuit_identity_1] tableau_to_circuit_identity_1
  by simp

text \<open>
  C3, as the claim states it, fails: the circuit of the one-qubit identity tableau is not
  empty.
\<close>

theorem identity_1_counterexample:
  "tableau_to_circuit spec_externals (CliffTableau_identity [Qubit ''a'' [0]]) \<noteq>
     Inr \<lparr>all_qubits = [Qubit ''a'' [0]], commands = []\<rparr> \<and>
   commands (projr (tableau_to_circuit spec_externals (CliffTableau_identity [Qubit ''a'' [0]]))) \<noteq> []"
  by (simp add: tableau_to_circuit_identity_1)

text \<open>
  C3, amended.  Whatever the tableau and matrix operations compute, a circuit returned for
  the one-qubit identity tableau is not empty: it starts with the \<open>V\<close> of step 1 and
  contains, in this order, the \<open>S\<close> of step 5, the \<open>H\<close> of step 7 and the \<open>S\<close> of step 10.
\<close>

theorem identity_1_gate_sequence:
  assumes "tableau_to_circuit h (CliffTableau_identity [q]) = Inr circ"
  shows "\<exists>g1 g2 g3 g4. map fst (commands circ) = V # g1 @ S # g2 @ H # g3 @ S # g4"
proof -
  define t where "t = CliffTableau_identity [q]"
  let ?s1 = "V_front h 0 (V_front h 0 (V_front h 0 (emit V [0] (start t))))"
  let ?r = "step1 h (Suc 0) 0 (zpauli_x t, []) (start t)"
  have n: "tab_size t = Suc 0" by (simp add: t_def CliffTableau_identity_def)
  have syn: "synthesise h t = (case ?r of (Some e, s) \<Rightarrow> (Some e, s)
                               | (None, s1) \<Rightarrow> (None, steps_2_to_end h (Suc 0) s1))"
    using n by (simp add: synthesise_def start_def Let_def split: prod.split option.split)
  have "fst ?r \<noteq> Some not_independent"
  proof
    assume "fst ?r = Some not_independent"
    then have "tableau_to_circuit h t = Inl not_independent"
      by (cases ?r) (simp add: tableau_to_circuit_def syn)
    then show False using assms by (simp add: t_def)
  qed
  then have r: "?r = (None, ?s1)" using step1_identity_1[OF t_def, of h] by blast
  let ?sF = "steps_2_to_end h (Suc 0) ?s1"
  have fin: "synthesise h t = (None, ?sF)" by (simp add: syn r)
  obtain g2 g34 g6 g89 g11 where
    tr: "traced h (g2 @ g34 @ map s_gate [0..<Suc 0] @ g6 @ map h_gate [0..<Suc 0] @ g89 @ map s_gate [0..<Suc 0] @ g11)
           ?s1 ?sF"
    using steps_2_to_end_shape[of h "Suc 0" ?s1] by blast
  have "traced h ([(V, [0])] @ (g2 @ g34 @ map s_gate [0..<Suc 0] @ g6 @ map h_gate [0..<Suc 0] @ g89 @ map s_gate [0..<Suc 0] @ g11))
          (start t) ?sF"
    by (rule traced_trans[OF traced_v_op tr])
  then have cm: "commands (c ?sF) =
      map default_cmd ((V, [0]) # g2 @ g34 @ (S, [0]) # g6 @ (H, [0]) # g89 @ (S, [0]) # g11)"
    by (simp add: traced_def start_def Circuit_n_def s_gate_def h_gate_def)
  have "circ = rename_units (rename_map_of (tab_qubits (tabl ?sF))) (c ?sF)"
    using assms by (simp add: tableau_to_circuit_def fin t_def[symmetric])
  then have "map fst (commands circ) = map fst (commands (c ?sF))"
    by (simp add: rename_units_def comp_def case_prod_beta)
  then have "map fst (commands circ) =
      V # (map fst (g2 @ g34)) @ S # map fst g6 @ H # map fst g89 @ S # map fst g11"
    by (simp add: cm default_cmd_def comp_def)
  then show ?thesis by (intro exI)
qed

text \<open>With the operations modelled from the spec the sequence is \<open>V\<close>, \<open>S\<close>, \<open>H\<close>, \<open>S\<close>.\<close>

theorem identity_1_gate_sequence_witness:
  "tableau_to_circuit spec_externals (CliffTableau_identity [Qubit ''a'' [0]]) =
     Inr \<lparr>all_qubits = [Qubit ''a'' [0]],
          commands = [(V, [Qubit ''a'' [0]]), (S, [Qubit ''a'' [0]]),
                      (H, [Qubit ''a'' [0]]), (S, [Qubit ''a'' [0]])]\<rparr> \<and>
   (\<exists>g1 g2 g3 g4. [V, S, H, S] = V # g1 @ S # g2 @ H # g3 @ S # g4)"
  using identity_1_gate_sequence[OF tableau_to_circuit_identity_1] tableau_to_circuit_identity_1
  by simp

text \<open>
  C4.  When the stabilizer rows of the input are not mutually independent (the rows
  selected by \<open>sel\<close>, at least one, cancel), \<open>tableau_to_circuit\<close> throws in step 1 with
  the message "Stabilisers are not mutually independent" and returns no circuit; and
  whenever \<open>tableau_to_circuit\<close> fails, it is with this error.  The input has the
  dimensions its size says, and \<open>apply_V_at_front\<close> is any operation that keeps
  cancellations among stabilizer rows.
\<close>

theorem dependent_stabilisers_fail:
  "(tab_size t = n \<and> stab_ok n t \<and> r < n \<and> sel ! r \<and> rows_cancel n sel t \<and>
    V_keeps_cancel h n sel \<longrightarrow> tableau_to_circuit h t = Inl not_independent) \<and>
   (\<forall>e. tableau_to_circuit h t = Inl e \<longrightarrow> e = not_independent)"
proof (intro conjI impI allI)
  assume a: "tab_size t = n \<and> stab_ok n t \<and> r < n \<and> sel ! r \<and> rows_cancel n sel t \<and>
    V_keeps_cancel h n sel"
  have "fst (step1 h n 0 (zpauli_x t, []) (start t)) = Some not_independent"
    using a by (intro step1_dependent[where sel = sel and r = r])
      (simp_all add: stab_ok_def rows_cancel_def pivots_ok_def start_def)
  then show "tableau_to_circuit h t = Inl not_independent"
    using a by (cases "step1 h n 0 (zpauli_x t, []) (start t)")
      (simp add: tableau_to_circuit_def synthesise_def start_def Let_def)
next
  fix e assume "tableau_to_circuit h t = Inl e"
  then have "fst (step1 h (tab_size t) 0 (zpauli_x t, []) (start t)) = Some e"
    by (cases "step1 h (tab_size t) 0 (zpauli_x t, []) (start t)")
      (auto simp: tableau_to_circuit_def synthesise_def start_def Let_def split: option.splits)
  then show "e = not_independent" by (rule step1_only_error)
qed



text \<open>Two qubits with both stabilizer rows equal to \<open>Z\<close> on qubit 0.\<close>

theorem dependent_stabilisers_fail_witness:
  "tableau_to_circuit spec_externals
     \<lparr>tab_size = 2, xpauli_x = [[True, False], [False, True]],
      xpauli_z = [[False, False], [False, False]], xpauli_phase = [False, False],
      zpauli_x = [[False, False], [False, False]],
      zpauli_z = [[True, False], [True, False]], zpauli_phase = [False, False],
      tab_qubits = [(Qubit ''a'' [0], 0), (Qubit ''b'' [0], 1)]\<rparr> =
   Inl (invalid_argument ''Stabilisers are not mutually independent'')"
proof -
  let ?t = "\<lparr>tab_size = 2, xpauli_x = [[True, False], [False, True]],
      xpauli_z = [[False, False], [False, False]], xpauli_phase = [False, False],
      zpauli_x = [[False, False], [False, False]],
      zpauli_z = [[True, False], [True, False]], zpauli_phase = [False, False],
      tab_qubits = [(Qubit ''a'' [0], 0), (Qubit ''b'' [0], 1)]\<rparr>"
  have ok: "stab_ok 2 ?t" by (simp add: stab_ok_def mat_ok_def)
  have k: "k < 2 \<longleftrightarrow> k = 0 \<or> k = 1" for k :: nat by auto
  have c: "rows_cancel 2 [True, True] ?t"
    unfolding rows_cancel_def orth_def col_parity_def k
    by (simp add: xor_sum_def numeral_2_eq_2)
  have "tableau_to_circuit spec_externals ?t = Inl not_independent"
  proof (rule dependent_stabilisers_fail[of ?t 2 0 "[True, True]" spec_externals,
        THEN conjunct1, THEN mp])
    show "tab_size ?t = 2 \<and> stab_ok 2 ?t \<and> 0 < (2::nat) \<and> [True, True] ! 0 \<and>
        rows_cancel 2 [True, True] ?t \<and> V_keeps_cancel spec_externals 2 [True, True]"
      using ok c spec_V_keeps_cancel[of 2 "[True, True]"] by simp
  qed
  then show ?thesis by (simp add: not_independent_def)
qed

text \<open>
  C8.  In a run that gets past step 1, steps 4 and 9 replay the column operations that
  Gaussian elimination records for the factor of the binary LLT decomposition in reverse
  order, and steps 2, 6 and 11 replay the recorded column operations in forward order;
  every operation is emitted as a \<open>CX\<close> and front-applied to the working copy.  The state
  the run returns is the delayed steps on \<open>canonical_replay\<close> of the state after step 1:
  the same circuit and the same working copy.
\<close>

theorem column_ops_replay_order:
  "fst (synthesise h t) = None \<longrightarrow>
   snd (synthesise h t) =
     delayed_steps h (tab_size t)
       (canonical_replay h (tab_size t)
          (snd (step1 h (tab_size t) 0 (zpauli_x t, []) (start t))))"
  by (simp add: synthesise_success steps_2_to_end_def steps_2_to_11_canonical)

text \<open>
  The two-qubit identity tableau with the recorded operations \<open>(0, 1)\<close>, \<open>(1, 0)\<close>: steps
  2, 6 and 11 emit \<open>CX 0 1\<close>, \<open>CX 1 0\<close>, steps 4 and 9 emit \<open>CX 1 0\<close>, \<open>CX 0 1\<close>.
\<close>

theorem column_ops_replay_order_witness:
  "fst (synthesise recording_externals (CliffTableau_identity [Qubit ''a'' [0], Qubit ''b'' [0]])) = None \<and>
   snd (synthesise recording_externals (CliffTableau_identity [Qubit ''a'' [0], Qubit ''b'' [0]])) =
     delayed_steps recording_externals 2
       (canonical_replay recording_externals 2
          (snd (step1 recording_externals 2 0
                  (zpauli_x (CliffTableau_identity [Qubit ''a'' [0], Qubit ''b'' [0]]), [])
                  (start (CliffTableau_identity [Qubit ''a'' [0], Qubit ''b'' [0]]))))) \<and>
   emitted (c (snd (synthesise recording_externals (CliffTableau_identity [Qubit ''a'' [0], Qubit ''b'' [0]])))) =
     [(V, [0]), (V, [1]), (CX, [0, 1]), (CX, [1, 0]), (CX, [1, 0]), (CX, [0, 1]), (S, [0]), (S, [1]), (CX, [0, 1]), (CX, [1, 0]), (H, [0]), (H, [1]), (S, [0]), (S, [1]), (CX, [1, 0]), (CX, [0, 1]), (S, [0]), (S, [1]), (CX, [0, 1]), (CX, [1, 0]), (Z, [0])]"
proof -
  have n: "tab_size (CliffTableau_identity [Qubit ''a'' [0], Qubit ''b'' [0]]) = 2"
    by (simp add: CliffTableau_identity_def)
  have ok: "fst (synthesise recording_externals (CliffTableau_identity [Qubit ''a'' [0], Qubit ''b'' [0]])) = None"
    using run_recording(1) by (simp add: synthesise_fst n)
  show ?thesis
    using column_ops_replay_order[of recording_externals "(CliffTableau_identity [Qubit ''a'' [0], Qubit ''b'' [0]])"] ok run_recording(4)
    by (simp add: n)
qed

text \<open>
  C9.  In a run that gets past step 1, the gates emitted after step 11 are, for each qubit
  index \<open>i\<close> in turn, one \<open>Z\<close> exactly when the destabilizer-phase bit \<open>i\<close> is set and then
  one \<open>X\<close> exactly when the stabilizer-phase bit \<open>i\<close> is set, and nothing else; the bits are
  those the loop tests on the working copy.  When the working copy after step 11 has
  identity blocks and the front applications act on such a tableau as a \<open>Z\<close> or an \<open>X\<close> of
  one qubit does, they are the phase bits of the working copy after step 11.
\<close>

theorem delayed_correction_gates:
  "fst (synthesise h t) = None \<longrightarrow>
   (let n = tab_size t;
        s11 = steps_2_to_11 h n (snd (step1 h n 0 (zpauli_x t, []) (start t)))
    in emitted (c (snd (synthesise h t))) =
         emitted (c s11) @ concat (map (corrections h (tabl s11)) [0..<n]) \<and>
       (pauli_front_frame h n \<and> identity_blocks n (tabl s11) \<longrightarrow>
          emitted (c (snd (synthesise h t))) =
            emitted (c s11) @
            concat (map (phase_fixes (xpauli_phase (tabl s11)) (zpauli_phase (tabl s11)))
                      [0..<n])))"
proof
  assume a: "fst (synthesise h t) = None"
  define s11 where
    "s11 = steps_2_to_11 h (tab_size t) (snd (step1 h (tab_size t) 0 (zpauli_x t, []) (start t)))"
  have fin: "snd (synthesise h t) = delayed_steps h (tab_size t) s11"
    using synthesise_success[OF a] by (simp add: steps_2_to_end_def s11_def)
  have live: "emitted (c (snd (synthesise h t))) =
      emitted (c s11) @ concat (map (corrections h (tabl s11)) [0..<tab_size t])"
    using traced_emitted[OF conjunct1[OF delayed_upto[of h s11 "tab_size t"]]]
    by (simp add: fin delayed_steps_def)
  have snap: "emitted (c (snd (synthesise h t))) =
      emitted (c s11) @
      concat (map (phase_fixes (xpauli_phase (tabl s11)) (zpauli_phase (tabl s11)))
                [0..<tab_size t])"
    if f: "pauli_front_frame h (tab_size t)" and b: "identity_blocks (tab_size t) (tabl s11)"
    using delayed_from[OF f, of 0 s11 "xpauli_phase (tabl s11)" "zpauli_phase (tabl s11)"] b
    by (simp add: fin delayed_steps_def traced_emitted)
  show "let n = tab_size t;
        s11 = steps_2_to_11 h n (snd (step1 h n 0 (zpauli_x t, []) (start t)))
    in emitted (c (snd (synthesise h t))) =
         emitted (c s11) @ concat (map (corrections h (tabl s11)) [0..<n]) \<and>
       (pauli_front_frame h n \<and> identity_blocks n (tabl s11) \<longrightarrow>
          emitted (c (snd (synthesise h t))) =
            emitted (c s11) @
            concat (map (phase_fixes (xpauli_phase (tabl s11)) (zpauli_phase (tabl s11)))
                      [0..<n]))"
    unfolding Let_def s11_def[symmetric] using live snap by blast
qed

text \<open>
  Two qubits, destabilizer phases \<open>1, 0\<close> and stabilizer phases \<open>1, 1\<close> after step 11: a
  \<open>Z\<close> and an \<open>X\<close> on qubit 0, an \<open>X\<close> on qubit 1 end the run.
\<close>

theorem delayed_correction_gates_witness:
  "fst (synthesise spec_externals ((CliffTableau_identity [Qubit ''a'' [0], Qubit ''b'' [0]])\<lparr>xpauli_phase := [True, False], zpauli_phase := [True, True]\<rparr>)) = None \<and>
   xpauli_phase (tabl (steps_2_to_11 spec_externals 2
      (snd (step1 spec_externals 2 0 (zpauli_x ((CliffTableau_identity [Qubit ''a'' [0], Qubit ''b'' [0]])\<lparr>xpauli_phase := [True, False], zpauli_phase := [True, True]\<rparr>), []) (start ((CliffTableau_identity [Qubit ''a'' [0], Qubit ''b'' [0]])\<lparr>xpauli_phase := [True, False], zpauli_phase := [True, True]\<rparr>)))))) = [True, False] \<and>
   zpauli_phase (tabl (steps_2_to_11 spec_externals 2
      (snd (step1 spec_externals 2 0 (zpauli_x ((CliffTableau_identity [Qubit ''a'' [0], Qubit ''b'' [0]])\<lparr>xpauli_phase := [True, False], zpauli_phase := [True, True]\<rparr>), []) (start ((CliffTableau_identity [Qubit ''a'' [0], Qubit ''b'' [0]])\<lparr>xpauli_phase := [True, False], zpauli_phase := [True, True]\<rparr>)))))) = [True, True] \<and>
   emitted (c (snd (synthesise spec_externals ((CliffTableau_identity [Qubit ''a'' [0], Qubit ''b'' [0]])\<lparr>xpauli_phase := [True, False], zpauli_phase := [True, True]\<rparr>)))) =
     [(V, [0]), (V, [1]), (S, [0]), (S, [1]), (H, [0]), (H, [1]), (S, [0]), (S, [1]), (Z, [0]), (X, [0]), (X, [1])]"
proof -
  let ?t = "((CliffTableau_identity [Qubit ''a'' [0], Qubit ''b'' [0]])\<lparr>xpauli_phase := [True, False], zpauli_phase := [True, True]\<rparr>)"
  let ?s11 = "steps_2_to_11 spec_externals 2 (snd (step1 spec_externals 2 0 (zpauli_x ?t, []) (start ?t)))"
  have n: "tab_size ?t = 2"
    by (simp add: CliffTableau_identity_def)
  have ok: "fst (synthesise spec_externals ?t) = None"
    using run_with_phases(1) by (simp add: synthesise_fst n)
  have ib: "identity_blocks 2 (tabl ?s11)"
    unfolding run_with_phases(2)
    by (simp add: identity_blocks_def identity_matrix_def zero_matrix_def numeral_2_eq_2)
  have "emitted (c (snd (synthesise spec_externals ?t))) =
      emitted (c ?s11) @
      concat (map (phase_fixes (xpauli_phase (tabl ?s11)) (zpauli_phase (tabl ?s11))) [0..<2])"
    by (rule delayed_correction_gates[of spec_externals ?t, unfolded n Let_def, THEN mp,
          OF ok, THEN conjunct2, THEN mp, OF conjI[OF spec_front_frame_2 ib]])
  then show ?thesis
    using ok unfolding run_with_phases(2) run_with_phases(3)
    by (simp add: phase_fixes_def numeral_2_eq_2)
qed

section \<open>Determinism of the synthesizer\<close>

text \<open>
  C5.  \<open>tableau_to_circuit\<close> is deterministic: two calls on the same tableau return the
  same result, whatever the order in which the tableau's qubit bijection is enumerated.
  The run has no random choice; its loops go over index ranges and recorded vectors in
  order, its \<open>std::map\<close> is only searched by key, and the one walk over an associative
  container, the iteration of the bimap, does not influence the gate sequence or the
  renaming.  The front applications are any that leave the qubit mapping alone.
\<close>

theorem same_result_for_any_enumeration:
  assumes "front_ignores_qubits h"
    and "set qs = set (tab_qubits t)"
    and "distinct (map snd qs)" and "distinct (map snd (tab_qubits t))"
  shows "tableau_to_circuit h (t\<lparr>tab_qubits := qs\<rparr>) = tableau_to_circuit h t"
proof -
  obtain e s where r: "synthesise h t = (e, s)" by (cases "synthesise h t")
  have r': "synthesise h (t\<lparr>tab_qubits := qs\<rparr>) = (e, relabelled qs (t\<lparr>tab_qubits := qs\<rparr>) s)"
    using synthesise_relabelled[OF assms(1), where t = t and q = qs] r by simp
  have "synthesise h (t\<lparr>tab_qubits := tab_qubits t\<rparr>) =
      (e, relabelled (tab_qubits t) (t\<lparr>tab_qubits := tab_qubits t\<rparr>) s)"
    using synthesise_relabelled[OF assms(1), where t = t and q = "tab_qubits t"] r by simp
  then have "s = relabelled (tab_qubits t) t s" using r by simp
  then have "tab_qubits (tabl s) = tab_qubits (tabl (relabelled (tab_qubits t) t s))" by simp
  then have kept: "tab_qubits (tabl s) = tab_qubits t" by (simp add: relabelled_fields)
  have m: "rename_map_of qs = rename_map_of (tab_qubits t)"
    by (rule rename_map_of_order[OF assms(2,3,4)])
  show ?thesis
    by (cases e) (simp_all add: tableau_to_circuit_def r r' relabelled_fields kept m)
qed


text \<open>
  The two-qubit identity tableau with its bijection enumerated in the other order gives
  the circuit of the two-qubit identity tableau, gate for gate.
\<close>

theorem same_result_for_any_enumeration_witness:
  "tableau_to_circuit spec_externals
     ((CliffTableau_identity [Qubit ''a'' [0], Qubit ''b'' [0]])
        \<lparr>tab_qubits := [(Qubit ''b'' [0], 1), (Qubit ''a'' [0], 0)]\<rparr>) =
     Inr \<lparr>all_qubits = [Qubit ''a'' [0], Qubit ''b'' [0]],
          commands = [(V, [Qubit ''a'' [0]]), (V, [Qubit ''b'' [0]]),
                      (S, [Qubit ''a'' [0]]), (S, [Qubit ''b'' [0]]),
                      (H, [Qubit ''a'' [0]]), (H, [Qubit ''b'' [0]]),
                      (S, [Qubit ''a'' [0]]), (S, [Qubit ''b'' [0]])]\<rparr>"
proof -
  have q: "tab_qubits (CliffTableau_identity [Qubit ''a'' [0], Qubit ''b'' [0]]) =
      [(Qubit ''a'' [0], 0), (Qubit ''b'' [0], 1)]"
    by (simp add: CliffTableau_identity_def upt_rec)
  have "tableau_to_circuit spec_externals
     ((CliffTableau_identity [Qubit ''a'' [0], Qubit ''b'' [0]])
        \<lparr>tab_qubits := [(Qubit ''b'' [0], 1), (Qubit ''a'' [0], 0)]\<rparr>) =
    tableau_to_circuit spec_externals (CliffTableau_identity [Qubit ''a'' [0], Qubit ''b'' [0]])"
    by (rule same_result_for_any_enumeration[OF spec_front_ignores_qubits])
      (auto simp: q)
  then show ?thesis by (simp only: tableau_to_circuit_identity_2)
qed

section \<open>Properties of the builder\<close>

text \<open>
  C7.  If a command of the circuit has an operand that is not a qubit of the tableau's
  index mapping, or a gate kind that the end application does not support,
  \<open>circuit_to_tableau\<close> fails with the unknown-operand condition (\<open>out_of_range\<close>) or
  the unsupported-operation condition (\<open>NotValid\<close>) and returns no tableau: with the
  unknown-operand condition when the commands with known operands are all accepted, with
  the unsupported-operation condition when all operands are known.  If every operand is
  known and every command is accepted, it returns the identity tableau over the circuit's
  qubits to which the commands were end-applied in circuit order.
\<close>

theorem circuit_to_tableau_result:
  assumes "qubit_map_kept h" "fails_as_unsupported h"
  shows "((\<exists>com\<in>set (commands circ). \<not> known circ com \<or> unsupported h (fst com)) \<longrightarrow>
            (circuit_to_tableau h circ = Inl out_of_range \<or>
             circuit_to_tableau h circ = Inl NotValid)) \<and>
         ((\<exists>com\<in>set (commands circ). \<not> known circ com) \<and>
          (\<forall>com\<in>set (commands circ). known circ com \<longrightarrow>
              accepted h (tab_qubits (CliffTableau_identity (all_qubits circ))) com) \<longrightarrow>
            circuit_to_tableau h circ = Inl out_of_range) \<and>
         ((\<forall>com\<in>set (commands circ). known circ com) \<and>
          (\<exists>com\<in>set (commands circ). unsupported h (fst com)) \<longrightarrow>
            circuit_to_tableau h circ = Inl NotValid) \<and>
         ((\<forall>com\<in>set (commands circ). known circ com \<and>
              accepted h (tab_qubits (CliffTableau_identity (all_qubits circ))) com) \<longrightarrow>
            circuit_to_tableau h circ =
              Inr (fold (end_apply h (tab_qubits (CliffTableau_identity (all_qubits circ))))
                     (commands circ) (CliffTableau_identity (all_qubits circ))))"
  using apply_commands_failure_kind[OF assms refl,
      where t = "CliffTableau_identity (all_qubits circ)" and coms = "commands circ"]
    apply_commands_unknown_operand[OF assms(1) refl,
      where t = "CliffTableau_identity (all_qubits circ)" and coms = "commands circ"]
    apply_commands_unsupported_kind[OF assms refl,
      where t = "CliffTableau_identity (all_qubits circ)" and coms = "commands circ"]
    apply_commands_accepted[OF assms(1) refl,
      where t = "CliffTableau_identity (all_qubits circ)" and coms = "commands circ"]
  unfolding circuit_to_tableau_def identity_known_qubits known_def by blast


text \<open>
  After an \<open>H\<close>, an \<open>S\<close> on a qubit the circuit does not have fails as an unknown operand
  and a \<open>T\<close> gate as an unsupported operation; \<open>H\<close> then \<open>CX\<close> on two qubits gives the
  identity tableau with both end-applied.
\<close>

theorem circuit_to_tableau_result_witness:
  "circuit_to_tableau spec_externals
     \<lparr>all_qubits = [Qubit ''a'' [0]],
      commands = [(H, [Qubit ''a'' [0]]), (S, [Qubit ''b'' [0]])]\<rparr> = Inl out_of_range \<and>
   circuit_to_tableau spec_externals
     \<lparr>all_qubits = [Qubit ''a'' [0]],
      commands = [(H, [Qubit ''a'' [0]]), (T, [Qubit ''a'' [0]])]\<rparr> = Inl NotValid \<and>
   circuit_to_tableau spec_externals
     \<lparr>all_qubits = [Qubit ''a'' [0], Qubit ''b'' [0]],
      commands = [(H, [Qubit ''a'' [0]]), (CX, [Qubit ''a'' [0], Qubit ''b'' [0]])]\<rparr> =
     Inr (fold (end_apply spec_externals [(Qubit ''a'' [0], 0), (Qubit ''b'' [0], 1)])
            [(H, [Qubit ''a'' [0]]), (CX, [Qubit ''a'' [0], Qubit ''b'' [0]])]
            (CliffTableau_identity [Qubit ''a'' [0], Qubit ''b'' [0]]))"
proof -
  let ?c1 = "\<lparr>all_qubits = [Qubit ''a'' [0]],
      commands = [(H, [Qubit ''a'' [0]]), (S, [Qubit ''b'' [0]])]\<rparr>"
  let ?c2 = "\<lparr>all_qubits = [Qubit ''a'' [0]],
      commands = [(H, [Qubit ''a'' [0]]), (T, [Qubit ''a'' [0]])]\<rparr>"
  let ?c3 = "\<lparr>all_qubits = [Qubit ''a'' [0], Qubit ''b'' [0]],
      commands = [(H, [Qubit ''a'' [0]]), (CX, [Qubit ''a'' [0], Qubit ''b'' [0]])]\<rparr>"
  note res = circuit_to_tableau_result[OF spec_qubit_map_kept spec_fails_as_unsupported]
  have m1: "tab_qubits (CliffTableau_identity [Qubit ''a'' [0]]) = [(Qubit ''a'' [0], 0)]"
    by (simp add: CliffTableau_identity_def)
  have m2: "tab_qubits (CliffTableau_identity [Qubit ''a'' [0], Qubit ''b'' [0]]) =
      [(Qubit ''a'' [0], 0), (Qubit ''b'' [0], 1)]"
    by (simp add: CliffTableau_identity_def upt_rec)
  have u: "unsupported spec_externals T"
    by (simp add: unsupported_def spec_externals_def spec_apply_gate_at_end_def)
  have a1: "accepted spec_externals [(Qubit ''a'' [0], 0)] (H, [Qubit ''a'' [0]])"
    by (simp add: accepted_def indices_of_def spec_externals_def spec_apply_gate_at_end_def)
  have a2: "accepted spec_externals [(Qubit ''a'' [0], 0), (Qubit ''b'' [0], 1)] (H, [Qubit ''a'' [0]])"
    "accepted spec_externals [(Qubit ''a'' [0], 0), (Qubit ''b'' [0], 1)]
       (CX, [Qubit ''a'' [0], Qubit ''b'' [0]])"
    by (simp_all add: accepted_def indices_of_def spec_externals_def spec_apply_gate_at_end_def)
  have 1: "circuit_to_tableau spec_externals ?c1 = Inl out_of_range"
    using res[of ?c1] a1 by (simp add: m1 known_def)
  have 2: "circuit_to_tableau spec_externals ?c2 = Inl NotValid"
    using res[of ?c2] u by (simp add: known_def)
  have 3: "circuit_to_tableau spec_externals ?c3 =
     Inr (fold (end_apply spec_externals [(Qubit ''a'' [0], 0), (Qubit ''b'' [0], 1)])
            [(H, [Qubit ''a'' [0]]), (CX, [Qubit ''a'' [0], Qubit ''b'' [0]])]
            (CliffTableau_identity [Qubit ''a'' [0], Qubit ''b'' [0]]))"
    using res[of ?c3] a2 by (simp add: m2 known_def)
  show ?thesis using 1 2 3 by blast
qed

end
